theory Spec2Isabelle
  imports Main "HOL-Library.Word"
begin

unbundle bit_operations_syntax

section \<open>Machine types\<close>

type_synonym u8 = "8 word"
type_synonym u16 = "16 word"
type_synonym u32 = "32 word"

section \<open>ARM7 core (arm7.cpp)\<close>

text \<open>
  The register file of the interpreter. \<open>arm7.h\<close> is not part of the sources at hand, so
  the fields are the ones \<open>arm7.cpp\<close> names; all registers and status words are \<open>u32\<close>.
  The pointer table \<open>gprs[16]\<close> and the pointer \<open>pspsr\<close> are modelled by the name of the
  member they point to.
\<close>

datatype gpr_slot =
    R0 | R1 | R2 | R3 | R4 | R5 | R6 | R7
  | R8 | R9 | R10 | R11 | R12 | R13 | R14 | R15
  | R8_fiq | R9_fiq | R10_fiq | R11_fiq | R12_fiq | R13_fiq | R14_fiq
  | R13_svc | R14_svc | R13_abt | R14_abt | R13_irq | R14_irq | R13_und | R14_und

datatype spsr_slot = SPSR_def | SPSR_fiq | SPSR_svc | SPSR_abt | SPSR_irq | SPSR_und

record ARM7 =
  r0 :: u32
  r1 :: u32
  r2 :: u32
  r3 :: u32
  r4 :: u32
  r5 :: u32
  r6 :: u32
  r7 :: u32
  r8 :: u32
  r9 :: u32
  r10 :: u32
  r11 :: u32
  r12 :: u32
  r13 :: u32
  r14 :: u32
  r15 :: u32
  r8_fiq :: u32
  r9_fiq :: u32
  r10_fiq :: u32
  r11_fiq :: u32
  r12_fiq :: u32
  r13_fiq :: u32
  r14_fiq :: u32
  r13_svc :: u32
  r14_svc :: u32
  r13_abt :: u32
  r14_abt :: u32
  r13_irq :: u32
  r14_irq :: u32
  r13_und :: u32
  r14_und :: u32
  cpsr :: u32
  spsr_fiq :: u32
  spsr_svc :: u32
  spsr_abt :: u32
  spsr_irq :: u32
  spsr_und :: u32
  spsr_def :: u32
  gprs :: "nat \<Rightarrow> gpr_slot"
  pspsr :: spsr_slot
  pipe_opcode :: "nat \<Rightarrow> u32"
  pipe_status :: int
  flush_pipe :: bool
  hle :: bool

text \<open>
  Modelled from the spec: the CPSR masks and the mode numbers of \<open>arm7.h\<close>, which is not
  among the sources. The spec places IRQ-disable at bit 7 and Thumb at bit 5 of CPSR and
  gives the modes User 0x10, FIQ 0x11, IRQ 0x12, SVC 0x13, Abort 0x17, Undefined 0x1B,
  System 0x1F.
\<close>

definition IRQDisable :: u32 where "IRQDisable = 0x80"
definition Thumb :: u32 where "Thumb = 0x20"

definition Mode_User :: u32 where "Mode_User = 0x10"
definition Mode_FIQ :: u32 where "Mode_FIQ = 0x11"
definition Mode_IRQ :: u32 where "Mode_IRQ = 0x12"
definition Mode_SVC :: u32 where "Mode_SVC = 0x13"
definition Mode_Abort :: u32 where "Mode_Abort = 0x17"
definition Mode_Undefined :: u32 where "Mode_Undefined = 0x1B"
definition Mode_System :: u32 where "Mode_System = 0x1F"

text \<open>\<open>gprs[8..14]\<close> re-pointed to the seven members given, in this order.\<close>

definition remap ::
  "gpr_slot \<Rightarrow> gpr_slot \<Rightarrow> gpr_slot \<Rightarrow> gpr_slot \<Rightarrow> gpr_slot \<Rightarrow> gpr_slot \<Rightarrow> gpr_slot \<Rightarrow>
   spsr_slot \<Rightarrow> ARM7 \<Rightarrow> ARM7" where
  "remap a8 a9 a10 a11 a12 a13 a14 sp c =
     c\<lparr>gprs := (gprs c)(8 := a8, 9 := a9, 10 := a10, 11 := a11, 12 := a12,
                        13 := a13, 14 := a14),
       pspsr := sp\<rparr>"

text \<open>\<open>ARM7::RemapRegisters\<close>: a switch on \<open>cpsr & 0x1F\<close> without a default arm.\<close>

definition RemapRegisters :: "ARM7 \<Rightarrow> ARM7" where
  "RemapRegisters c =
     (let m = cpsr c AND 0x1F in
      if m = Mode_User then remap R8 R9 R10 R11 R12 R13 R14 SPSR_def c
      else if m = Mode_FIQ then
        remap R8_fiq R9_fiq R10_fiq R11_fiq R12_fiq R13_fiq R14_fiq SPSR_fiq c
      else if m = Mode_IRQ then remap R8 R9 R10 R11 R12 R13_irq R14_irq SPSR_irq c
      else if m = Mode_SVC then remap R8 R9 R10 R11 R12 R13_svc R14_svc SPSR_svc c
      else if m = Mode_Abort then remap R8 R9 R10 R11 R12 R13_abt R14_abt SPSR_abt c
      else if m = Mode_Undefined then remap R8 R9 R10 R11 R12 R13_und R14_und SPSR_und c
      else if m = Mode_System then remap R8 R9 R10 R11 R12 R13 R14 SPSR_def c
      else c)"

text \<open>
  \<open>ARM7::FireIRQ\<close>. The assignments run in the source's order: \<open>r14_irq\<close> and
  \<open>spsr_irq\<close> read the old \<open>cpsr\<close>, then \<open>cpsr\<close> is rewritten, the registers are
  remapped, and \<open>r15\<close> and \<open>pipe_status\<close> are set.
\<close>

definition FireIRQ :: "ARM7 \<Rightarrow> ARM7" where
  "FireIRQ c =
     (if cpsr c AND IRQDisable = 0 then
        let c1 = c\<lparr>r14_irq := r15 c - (if cpsr c AND Thumb \<noteq> 0 then 4 else 8) + 4\<rparr>;
            c2 = c1\<lparr>spsr_irq := cpsr c1\<rparr>;
            c3 = c2\<lparr>cpsr := (cpsr c2 AND NOT 0x3F) OR Mode_IRQ OR IRQDisable\<rparr>;
            c4 = RemapRegisters c3;
            c5 = c4\<lparr>r15 := 0x18\<rparr>
        in c5\<lparr>pipe_status := 0\<rparr>
      else c)"

text \<open>
  The state the constructor \<open>ARM7::ARM7\<close> leaves behind, for a core whose members start
  at zero: \<open>gprs[0..7]\<close> and \<open>gprs[15]\<close> are mapped, \<open>RemapRegisters\<close> is called, and the
  boot logo is skipped.
\<close>

definition ARM7_zero :: ARM7 where
  "ARM7_zero =
     \<lparr>r0 = 0, r1 = 0, r2 = 0, r3 = 0, r4 = 0, r5 = 0, r6 = 0, r7 = 0,
      r8 = 0, r9 = 0, r10 = 0, r11 = 0, r12 = 0, r13 = 0, r14 = 0, r15 = 0,
      r8_fiq = 0, r9_fiq = 0, r10_fiq = 0, r11_fiq = 0, r12_fiq = 0, r13_fiq = 0,
      r14_fiq = 0, r13_svc = 0, r14_svc = 0, r13_abt = 0, r14_abt = 0, r13_irq = 0,
      r14_irq = 0, r13_und = 0, r14_und = 0,
      cpsr = Mode_System, spsr_fiq = 0, spsr_svc = 0, spsr_abt = 0, spsr_irq = 0,
      spsr_und = 0, spsr_def = 0,
      gprs = (\<lambda>_. R0), pspsr = SPSR_def, pipe_opcode = (\<lambda>_. 0), pipe_status = 0,
      flush_pipe = False, hle = False\<rparr>"

definition ARM7_init :: "bool \<Rightarrow> ARM7" where
  "ARM7_init h =
     (let c = ARM7_zero\<lparr>gprs := (gprs ARM7_zero)(0 := R0, 1 := R1, 2 := R2, 3 := R3,
                  4 := R4, 5 := R5, 6 := R6, 7 := R7, 15 := R15)\<rparr>;
          c = RemapRegisters c
      in c\<lparr>r15 := 0x8000000, r13 := 0x3007F00, r13_svc := 0x3007FE0,
           r13_irq := 0x3007FA0, hle := h\<rparr>)"

section \<open>Interrupt registers and the picture unit (video.h, video.cpp)\<close>

text \<open>
  Modelled from the spec: \<open>interrupt.h\<close> is not among the sources. The spec gives IE, IF
  and IME as 16-bit registers at 0x200, 0x202 and 0x208; the code reads and writes them as
  two bytes each. The member \<open>if_\<close> is written \<open>if'\<close>.
\<close>

record GBAInterrupt =
  ie :: u16
  if' :: u16
  ime :: u16

datatype GBAVideoState = Scanline | HBlank | VBlank

text \<open>
  \<open>struct Background\<close>. The members \<open>x_ref\<close>, \<open>y_ref\<close>, \<open>x_ref_int\<close> and \<open>y_ref_int\<close>
  are all \<open>u16\<close>; the last two receive a \<open>float\<close>, the result of \<open>DecodeGBAFloat32\<close>,
  converted to \<open>u16\<close> by the assignment.
\<close>

record Background =
  bg_enable :: bool
  mosaic :: bool
  true_color :: bool
  wraparound :: bool
  priority :: int
  size :: int
  tile_base :: u32
  map_base :: u32
  x :: u32
  y :: u32
  x_ref :: u16
  y_ref :: u16
  x_ref_int :: u16
  y_ref_int :: u16
  pa :: u16
  pb :: u16
  pc :: u16
  pd :: u16

record Object =
  obj_enable :: bool
  hblank_access :: bool
  two_dimensional :: bool

record Window =
  win_enable :: bool
  bg_in :: "nat \<Rightarrow> bool"
  obj_in :: bool
  sfx_in :: bool
  left :: u16
  right :: u16
  top :: u16
  bottom :: u16

record WindowOuter =
  bg :: "nat \<Rightarrow> bool"
  obj :: bool
  sfx :: bool

record ObjectWindow =
  objwin_enable :: bool

record GBAVideo =
  m_BG :: "nat \<Rightarrow> Background"
  m_Obj :: Object
  m_Win :: "nat \<Rightarrow> Window"
  m_WinOut :: WindowOuter
  m_ObjWin :: ObjectWindow
  m_BdBuffer :: "nat \<Rightarrow> u32"
  m_BgBuffer :: "nat \<Rightarrow> nat \<Rightarrow> u32"
  m_ObjBuffer :: "nat \<Rightarrow> nat \<Rightarrow> u32"
  m_Ticks :: int
  m_State :: GBAVideoState
  m_RenderScanline :: bool
  m_PAL :: "nat \<Rightarrow> u8"
  m_VRAM :: "nat \<Rightarrow> u8"
  m_OAM :: "nat \<Rightarrow> u8"
  m_HBlankDMA :: bool
  m_VBlankDMA :: bool
  m_Buffer :: "nat \<Rightarrow> u32"
  m_VCount :: u16
  m_VideoMode :: int
  m_FrameSelect :: bool
  m_ForcedBlank :: bool
  m_VCountFlag :: bool
  m_VBlankIRQ :: bool
  m_HBlankIRQ :: bool
  m_VCountIRQ :: bool
  m_VCountSetting :: u8

definition VBLANK_INTERRUPT :: u16 where "VBLANK_INTERRUPT = 1"
definition HBLANK_INTERRUPT :: u16 where "HBLANK_INTERRUPT = 2"
definition VCOUNT_INTERRUPT :: u16 where "VCOUNT_INTERRUPT = 4"

text \<open>
  \<open>GBAVideo::DecodeGBAFloat32\<close> reads a register word as a signed fixed-point number with
  8 fraction bits and returns it as a \<open>float\<close>. The model gives that number in units of
  1/256, as an integer: 256 times \<open>int_part\<close>, plus or minus \<open>frac_part\<close>. A \<open>float\<close> has 24
  significant bits, so the sum computed by the source is exactly this number whenever it is
  below 65536 in size; a larger one may be rounded, and is still 65536 or more in size.
\<close>

definition DecodeGBAFloat32 :: "u32 \<Rightarrow> int" where
  "DecodeGBAFloat32 number =
     (let is_negative = (number AND push_bit 27 1 \<noteq> 0);
          int_part = sint (drop_bit 8 (number AND NOT 0xF0000000)
                           OR (if is_negative then 0xFFF00000 else 0));
          frac_part = uint (number AND 0xFF)
      in 256 * int_part + (if is_negative then - frac_part else frac_part))"

text \<open>
  The assignment of a \<open>float\<close> to a \<open>u16\<close> member cuts the fraction off (towards zero).
  C++ leaves the conversion undefined when what remains is not a value of \<open>u16\<close>:
  \<open>float_fits_u16\<close> says that it is one, and \<open>float_to_u16\<close> is the value stored then.
\<close>

definition truncated :: "int \<Rightarrow> int" where
  "truncated q = (if q < 0 then - ((- q) div 256) else q div 256)"

definition float_fits_u16 :: "int \<Rightarrow> bool" where
  "float_fits_u16 q = (0 \<le> truncated q \<and> truncated q < 65536)"

definition float_to_u16 :: "int \<Rightarrow> u16" where
  "float_to_u16 q = word_of_int (truncated q)"

text \<open>
  The four assignments \<open>m_BG[n].x_ref_int = DecodeGBAFloat32(m_BG[n].x_ref)\<close> of \<open>Step\<close>.
  The word decoded here is the \<open>u16\<close> member \<open>x_ref\<close> (or \<open>y_ref\<close>) widened to 32 bits, so the
  number is not negative and below 256, and its conversion is always defined.
\<close>

definition latch_ref :: "Background \<Rightarrow> Background" where
  "latch_ref b = b\<lparr>x_ref_int := float_to_u16 (DecodeGBAFloat32 (ucast (x_ref b))),
                   y_ref_int := float_to_u16 (DecodeGBAFloat32 (ucast (y_ref b)))\<rparr>"

text \<open>
  \<open>GBAVideo::Step\<close>. The unit shares the interrupt registers with the bus through a
  pointer, so the step takes them and returns them with the unit. \<open>m_Ticks\<close> is a C
  \<open>int\<close> that every branch resets long before it could overflow; it is an unbounded
  integer here. \<open>m_VCount\<close> is a \<open>u16\<close>, compared with the \<open>u8\<close> setting after the
  usual promotion.
\<close>

definition raise_if :: "bool \<Rightarrow> u16 \<Rightarrow> GBAInterrupt \<Rightarrow> GBAInterrupt" where
  "raise_if c b i = (if c then i\<lparr>if' := if' i OR b\<rparr> else i)"

definition Step :: "GBAVideo \<times> GBAInterrupt \<Rightarrow> GBAVideo \<times> GBAInterrupt" where
  "Step vi =
     (let v = fst vi; i = snd vi;
          v = v\<lparr>m_Ticks := m_Ticks v + 1\<rparr>;
          v = v\<lparr>m_RenderScanline := False\<rparr>;
          v = v\<lparr>m_VCountFlag := (m_VCount v = ucast (m_VCountSetting v))\<rparr>
      in case m_State v of
           Scanline \<Rightarrow>
             if m_Ticks v \<ge> 960 then
               let v = v\<lparr>m_HBlankDMA := True\<rparr>;
                   v = v\<lparr>m_State := HBlank\<rparr>;
                   i = raise_if (m_HBlankIRQ v) HBLANK_INTERRUPT i;
                   v = v\<lparr>m_RenderScanline := True\<rparr>
               in (v\<lparr>m_Ticks := 0\<rparr>, i)
             else (v, i)
         | HBlank \<Rightarrow>
             if m_Ticks v \<ge> 272 then
               let v = v\<lparr>m_VCount := m_VCount v + 1\<rparr>;
                   i = raise_if (m_VCountFlag v \<and> m_VCountIRQ v) VCOUNT_INTERRUPT i;
                   vi' =
                     (if m_VCount v = 160 then
                        let v = v\<lparr>m_BG := (m_BG v)(2 := latch_ref (m_BG v 2),
                                                      3 := latch_ref (m_BG v 3))\<rparr>;
                            v = v\<lparr>m_HBlankDMA := False\<rparr>;
                            v = v\<lparr>m_VBlankDMA := True\<rparr>;
                            v = v\<lparr>m_State := VBlank\<rparr>
                        in (v, raise_if (m_VBlankIRQ v) VBLANK_INTERRUPT i)
                      else
                        let v = v\<lparr>m_HBlankDMA := False\<rparr>
                        in (v\<lparr>m_State := Scanline\<rparr>, i))
               in ((fst vi')\<lparr>m_Ticks := 0\<rparr>, snd vi')
             else (v, i)
         | VBlank \<Rightarrow>
             if m_Ticks v \<ge> 1232 then
               let v = v\<lparr>m_VCount := m_VCount v + 1\<rparr>;
                   i = raise_if (m_VCountFlag v \<and> m_VCountIRQ v) VCOUNT_INTERRUPT i;
                   v = (if m_VCount v = 227 then
                          let v = v\<lparr>m_VBlankDMA := False\<rparr>;
                              v = v\<lparr>m_State := Scanline\<rparr>
                          in v\<lparr>m_VCount := 0\<rparr>
                        else v)
               in (v\<lparr>m_Ticks := 0\<rparr>, i)
             else (v, i))"

text \<open>
  The unit as the constructor \<open>GBAVideo::GBAVideo\<close> and the member initialisers of
  \<open>video.h\<close> leave it: counters at zero, state \<open>Scanline\<close>, memories cleared. The line
  buffers have no initialiser in the source; they are taken as zero.
\<close>

definition Background_init :: Background where
  "Background_init =
     \<lparr>bg_enable = False, mosaic = False, true_color = False, wraparound = False,
      priority = 0, size = 0, tile_base = 0, map_base = 0, x = 0, y = 0,
      x_ref = 0, y_ref = 0, x_ref_int = 0, y_ref_int = 0, pa = 0, pb = 0, pc = 0, pd = 0\<rparr>"

definition Window_init :: Window where
  "Window_init =
     \<lparr>win_enable = False, bg_in = (\<lambda>_. False), obj_in = False, sfx_in = False,
      left = 0, right = 0, top = 0, bottom = 0\<rparr>"

definition GBAVideo_init :: GBAVideo where
  "GBAVideo_init =
     \<lparr>m_BG = (\<lambda>_. Background_init),
      m_Obj = \<lparr>obj_enable = False, hblank_access = False, two_dimensional = False\<rparr>,
      m_Win = (\<lambda>_. Window_init),
      m_WinOut = \<lparr>bg = (\<lambda>_. False), obj = False, sfx = False\<rparr>,
      m_ObjWin = \<lparr>objwin_enable = False\<rparr>,
      m_BdBuffer = (\<lambda>_. 0), m_BgBuffer = (\<lambda>_ _. 0), m_ObjBuffer = (\<lambda>_ _. 0),
      m_Ticks = 0, m_State = Scanline, m_RenderScanline = False,
      m_PAL = (\<lambda>_. 0), m_VRAM = (\<lambda>_. 0), m_OAM = (\<lambda>_. 0),
      m_HBlankDMA = False, m_VBlankDMA = False, m_Buffer = (\<lambda>_. 0),
      m_VCount = 0, m_VideoMode = 0, m_FrameSelect = False, m_ForcedBlank = False,
      m_VCountFlag = False, m_VBlankIRQ = False, m_HBlankIRQ = False,
      m_VCountIRQ = False, m_VCountSetting = 0\<rparr>"

definition GBAInterrupt_init :: GBAInterrupt where
  "GBAInterrupt_init = \<lparr>ie = 0, if' = 0, ime = 0\<rparr>"

section \<open>The bus (memory.h, memory.cpp)\<close>

subsection \<open>Data\<close>

text \<open>
  The enumerations of \<open>memory.h\<close>, with the names \<open>memory.cpp\<close> uses for their members.
  The code casts small integers to them; \<open>AddressControl_of\<close>, \<open>StartTime_of\<close> and
  \<open>TransferSize_of\<close> are those casts, and every cast in the code is applied to a value
  masked to the range of the enumeration.
\<close>

datatype AddressControl = Increment | Decrement | Fixed | Reload

datatype StartTime = Start_Immediate | Start_VBlank | Start_HBlank | Start_Special

datatype TransferSize = Size_HWord | Size_Word

datatype SaveType = SAVE_NONE | SAVE_EEPROM | SAVE_SRAM | SAVE_FLASH64 | SAVE_FLASH128

datatype AccessSize = Access_Byte | Access_Hword | Access_Word

datatype HaltState = HALTSTATE_NONE | HALTSTATE_STOP | HALTSTATE_HALT

definition AddressControl_int :: "AddressControl \<Rightarrow> int" where
  "AddressControl_int a =
     (case a of Increment \<Rightarrow> 0 | Decrement \<Rightarrow> 1 | Fixed \<Rightarrow> 2 | Reload \<Rightarrow> 3)"

definition AddressControl_of :: "int \<Rightarrow> AddressControl" where
  "AddressControl_of n =
     (if n = 0 then Increment else if n = 1 then Decrement else if n = 2 then Fixed
      else Reload)"

definition StartTime_of :: "int \<Rightarrow> StartTime" where
  "StartTime_of n =
     (if n = 0 then Start_Immediate else if n = 1 then Start_VBlank
      else if n = 2 then Start_HBlank else Start_Special)"

definition TransferSize_of :: "int \<Rightarrow> TransferSize" where
  "TransferSize_of n = (if n = 0 then Size_HWord else Size_Word)"

record DMA =
  dest :: u32
  source :: u32
  count :: u16
  dest_int :: u32
  source_int :: u32
  count_int :: u16
  dest_control :: AddressControl
  source_control :: AddressControl
  start_time :: StartTime
  dma_size :: TransferSize
  repeat :: bool
  gamepack_drq :: bool
  dma_interrupt :: bool
  dma_enable :: bool

record Timer =
  tm_count :: u16
  reload :: u16
  clock :: int
  ticks :: int
  tm_enable :: bool
  countup :: bool
  tm_interrupt :: bool
  overflow :: bool

record Waitstate =
  sram :: int
  first :: "nat \<Rightarrow> int"
  second :: "nat \<Rightarrow> int"
  prefetch :: bool

text \<open>
  \<open>GBABackup\<close> (SRAM or Flash behind region E) is an interface whose implementations
  are not among the sources. It is modelled by what the bus can observe of it: the byte a
  read returns, and the backup that a write leaves behind.
\<close>

codatatype GBABackup =
  Backup (bk_ReadByte: "u32 \<Rightarrow> u8") (bk_WriteByte: "u32 \<Rightarrow> u8 \<Rightarrow> GBABackup")

text \<open>
  \<open>class GBAMemory\<close>. Arrays are functions from the index; \<open>m_Rom\<close> has \<open>m_RomSize\<close>
  bytes. \<open>m_Backup\<close> is \<open>None\<close> for a null pointer. The audio unit \<open>m_Audio\<close>, which no
  function modelled here touches, is left out.
\<close>

record GBAMemory =
  m_Rom :: "nat \<Rightarrow> u8"
  m_RomSize :: nat
  m_BIOS :: "nat \<Rightarrow> u8"
  m_WRAM :: "nat \<Rightarrow> u8"
  m_IRAM :: "nat \<Rightarrow> u8"
  m_Backup :: "GBABackup option"
  m_SaveType :: SaveType
  m_DMA :: "nat \<Rightarrow> DMA"
  m_Timer :: "nat \<Rightarrow> Timer"
  m_Waitstate :: Waitstate
  m_SOUNDBIAS :: u32
  m_Interrupt :: GBAInterrupt
  m_HaltState :: HaltState
  m_IntrWait :: bool
  m_IntrWaitMask :: bool
  m_Video :: GBAVideo
  m_DidTransfer :: bool
  m_DMACycles :: int
  m_KeyInput :: u16

text \<open>The constant tables of \<open>memory.cpp\<close>, indexed as the C arrays are.\<close>

definition dma_count_mask :: "nat \<Rightarrow> u32" where
  "dma_count_mask i = [0x3FFF, 0x3FFF, 0x3FFF, 0xFFFF] ! i"

definition dma_dest_mask :: "nat \<Rightarrow> u32" where
  "dma_dest_mask i = [0x7FFFFFF, 0x7FFFFFF, 0x7FFFFFF, 0xFFFFFFF] ! i"

definition dma_source_mask :: "nat \<Rightarrow> u32" where
  "dma_source_mask i = [0x7FFFFFF, 0xFFFFFFF, 0xFFFFFFF, 0xFFFFFFF] ! i"

definition tmr_cycles :: "int \<Rightarrow> int" where
  "tmr_cycles i = [1, 64, 256, 1024] ! nat i"

definition wsn_table :: "int \<Rightarrow> int" where
  "wsn_table i = [4, 3, 2, 8] ! nat i"

definition wss0_table :: "int \<Rightarrow> int" where
  "wss0_table i = [2, 1] ! nat i"

definition wss1_table :: "int \<Rightarrow> int" where
  "wss1_table i = [4, 1] ! nat i"

definition wss2_table :: "int \<Rightarrow> int" where
  "wss2_table i = [8, 1] ! nat i"

definition hle_bios :: "u8 list" where
  "hle_bios =
     [0x06, 0x00, 0x00, 0xEA, 0x00, 0x00, 0xA0, 0xE1,
      0x00, 0x00, 0xA0, 0xE1, 0x00, 0x00, 0xA0, 0xE1,
      0x00, 0x00, 0xA0, 0xE1, 0x00, 0x00, 0xA0, 0xE1,
      0x01, 0x00, 0x00, 0xEA, 0x00, 0x00, 0xA0, 0xE1,
      0x02, 0xF3, 0xA0, 0xE3, 0x0F, 0x50, 0x2D, 0xE9,
      0x01, 0x03, 0xA0, 0xE3, 0x00, 0xE0, 0x8F, 0xE2,
      0x04, 0xF0, 0x10, 0xE5, 0x0F, 0x50, 0xBD, 0xE8,
      0x04, 0xF0, 0x5E, 0xE2, 0x00, 0x00, 0xA0, 0xE1]"

text \<open>
  Modelled from the spec: the register offsets of \<open>iodef.h\<close>, which is not among the
  sources. The spec's register map gives DISPCNT 0x000, DISPSTAT 0x004, VCOUNT 0x006,
  BG0..3CNT 0x008 to 0x00E, the scroll registers 0x010 to 0x01E, the BG2/BG3 transform and
  reference registers 0x020 to 0x03E, the window registers from 0x040, the DMA registers
  0x0B0 to 0x0DE (source, destination, count, control per channel), the timers 0x100 to
  0x10E (L then H per timer), KEYINPUT 0x130, IE 0x200, IF 0x202, WAITCNT 0x204, IME 0x208
  and HALTCNT 0x301. Within each block the registers follow in the order of their numbers,
  which is also what the index arithmetic of the code (\<open>(offset - BG0CNT) / 2\<close>,
  \<open>(offset - BG0HOFS) / 4\<close>, \<open>(offset - TM0CNT_H) / 4\<close>) requires.
\<close>

named_theorems io_regs \<open>the register offsets\<close>

definition DISPCNT :: u32 where [io_regs]: "DISPCNT = 0x000"
definition DISPSTAT :: u32 where [io_regs]: "DISPSTAT = 0x004"
definition VCOUNT :: u32 where [io_regs]: "VCOUNT = 0x006"
definition BG0CNT :: u32 where [io_regs]: "BG0CNT = 0x008"
definition BG1CNT :: u32 where [io_regs]: "BG1CNT = 0x00A"
definition BG2CNT :: u32 where [io_regs]: "BG2CNT = 0x00C"
definition BG3CNT :: u32 where [io_regs]: "BG3CNT = 0x00E"
definition BG0HOFS :: u32 where [io_regs]: "BG0HOFS = 0x010"
definition BG0VOFS :: u32 where [io_regs]: "BG0VOFS = 0x012"
definition BG1HOFS :: u32 where [io_regs]: "BG1HOFS = 0x014"
definition BG1VOFS :: u32 where [io_regs]: "BG1VOFS = 0x016"
definition BG2HOFS :: u32 where [io_regs]: "BG2HOFS = 0x018"
definition BG2VOFS :: u32 where [io_regs]: "BG2VOFS = 0x01A"
definition BG3HOFS :: u32 where [io_regs]: "BG3HOFS = 0x01C"
definition BG3VOFS :: u32 where [io_regs]: "BG3VOFS = 0x01E"
definition BG2PA :: u32 where [io_regs]: "BG2PA = 0x020"
definition BG2PB :: u32 where [io_regs]: "BG2PB = 0x022"
definition BG2PC :: u32 where [io_regs]: "BG2PC = 0x024"
definition BG2PD :: u32 where [io_regs]: "BG2PD = 0x026"
definition BG2X :: u32 where [io_regs]: "BG2X = 0x028"
definition BG2Y :: u32 where [io_regs]: "BG2Y = 0x02C"
definition BG3PA :: u32 where [io_regs]: "BG3PA = 0x030"
definition BG3PB :: u32 where [io_regs]: "BG3PB = 0x032"
definition BG3PC :: u32 where [io_regs]: "BG3PC = 0x034"
definition BG3PD :: u32 where [io_regs]: "BG3PD = 0x036"
definition BG3X :: u32 where [io_regs]: "BG3X = 0x038"
definition BG3Y :: u32 where [io_regs]: "BG3Y = 0x03C"
definition WIN0H :: u32 where [io_regs]: "WIN0H = 0x040"
definition WIN1H :: u32 where [io_regs]: "WIN1H = 0x042"
definition WIN0V :: u32 where [io_regs]: "WIN0V = 0x044"
definition WIN1V :: u32 where [io_regs]: "WIN1V = 0x046"
definition WININ :: u32 where [io_regs]: "WININ = 0x048"
definition WINOUT :: u32 where [io_regs]: "WINOUT = 0x04A"
definition DMA0SAD :: u32 where [io_regs]: "DMA0SAD = 0x0B0"
definition DMA0DAD :: u32 where [io_regs]: "DMA0DAD = 0x0B4"
definition DMA0CNT_L :: u32 where [io_regs]: "DMA0CNT_L = 0x0B8"
definition DMA0CNT_H :: u32 where [io_regs]: "DMA0CNT_H = 0x0BA"
definition DMA1SAD :: u32 where [io_regs]: "DMA1SAD = 0x0BC"
definition DMA1DAD :: u32 where [io_regs]: "DMA1DAD = 0x0C0"
definition DMA1CNT_L :: u32 where [io_regs]: "DMA1CNT_L = 0x0C4"
definition DMA1CNT_H :: u32 where [io_regs]: "DMA1CNT_H = 0x0C6"
definition DMA2SAD :: u32 where [io_regs]: "DMA2SAD = 0x0C8"
definition DMA2DAD :: u32 where [io_regs]: "DMA2DAD = 0x0CC"
definition DMA2CNT_L :: u32 where [io_regs]: "DMA2CNT_L = 0x0D0"
definition DMA2CNT_H :: u32 where [io_regs]: "DMA2CNT_H = 0x0D2"
definition DMA3SAD :: u32 where [io_regs]: "DMA3SAD = 0x0D4"
definition DMA3DAD :: u32 where [io_regs]: "DMA3DAD = 0x0D8"
definition DMA3CNT_L :: u32 where [io_regs]: "DMA3CNT_L = 0x0DC"
definition DMA3CNT_H :: u32 where [io_regs]: "DMA3CNT_H = 0x0DE"
definition TM0CNT_L :: u32 where [io_regs]: "TM0CNT_L = 0x100"
definition TM0CNT_H :: u32 where [io_regs]: "TM0CNT_H = 0x102"
definition TM1CNT_L :: u32 where [io_regs]: "TM1CNT_L = 0x104"
definition TM1CNT_H :: u32 where [io_regs]: "TM1CNT_H = 0x106"
definition TM2CNT_L :: u32 where [io_regs]: "TM2CNT_L = 0x108"
definition TM2CNT_H :: u32 where [io_regs]: "TM2CNT_H = 0x10A"
definition TM3CNT_L :: u32 where [io_regs]: "TM3CNT_L = 0x10C"
definition TM3CNT_H :: u32 where [io_regs]: "TM3CNT_H = 0x10E"
definition KEYINPUT :: u32 where [io_regs]: "KEYINPUT = 0x130"
definition IE :: u32 where [io_regs]: "IE = 0x200"
definition IF :: u32 where [io_regs]: "IF = 0x202"
definition WAITCNT :: u32 where [io_regs]: "WAITCNT = 0x204"
definition IME :: u32 where [io_regs]: "IME = 0x208"
definition HALTCNT :: u32 where [io_regs]: "HALTCNT = 0x301"

subsection \<open>Timers, DMA bookkeeping and access cycles\<close>

text \<open>
  One pass of the loop body of \<open>GBAMemory::RunTimer\<close> for timer \<open>i\<close>. The local flag
  \<open>overflow\<close> travels with the state from one timer to the next. The condition of the
  source evaluates \<open>++m_Timer[i].ticks\<close> only when \<open>countup\<close> is clear (the operands of
  \<open>&&\<close> and \<open>||\<close> short-circuit), which \<open>timer_tick\<close> reproduces.
\<close>

definition upd_Timer :: "nat \<Rightarrow> (Timer \<Rightarrow> Timer) \<Rightarrow> GBAMemory \<Rightarrow> GBAMemory" where
  "upd_Timer n f s = s\<lparr>m_Timer := (m_Timer s)(n := f (m_Timer s n))\<rparr>"

definition upd_Interrupt :: "(GBAInterrupt \<Rightarrow> GBAInterrupt) \<Rightarrow> GBAMemory \<Rightarrow> GBAMemory" where
  "upd_Interrupt f s = s\<lparr>m_Interrupt := f (m_Interrupt s)\<rparr>"

definition timer_tick :: "nat \<Rightarrow> GBAMemory \<Rightarrow> GBAMemory" where
  "timer_tick i s =
     (if countup (m_Timer s i) then s
      else upd_Timer i (\<lambda>t. t\<lparr>ticks := ticks t + 1\<rparr>) s)"

definition timer_advances :: "nat \<Rightarrow> GBAMemory \<Rightarrow> bool \<Rightarrow> bool" where
  "timer_advances i s ov =
     ((countup (m_Timer s i) \<and> ov) \<or>
      (\<not> countup (m_Timer s i) \<and>
       ticks (m_Timer s i) + 1 \<ge> tmr_cycles (clock (m_Timer s i))))"

definition RunTimer_body :: "nat \<Rightarrow> GBAMemory \<times> bool \<Rightarrow> GBAMemory \<times> bool" where
  "RunTimer_body i so =
     (let s = fst so; ov = snd so in
      if \<not> tm_enable (m_Timer s i) then (s, ov)
      else if timer_advances i s ov then
        let s = timer_tick i s;
            s = upd_Timer i (\<lambda>t. t\<lparr>ticks := 0\<rparr>) s
        in if tm_count (m_Timer s i) \<noteq> 0xFFFF then
             (upd_Timer i (\<lambda>t. t\<lparr>tm_count := tm_count t + 1\<rparr>) s, False)
           else
             let s = (if tm_interrupt (m_Timer s i)
                      then upd_Interrupt (\<lambda>r. r\<lparr>if' := if' r OR push_bit i 8\<rparr>) s
                      else s);
                 s = upd_Timer i (\<lambda>t. t\<lparr>tm_count := reload t\<rparr>) s
             in (s, True)
      else (timer_tick i s, ov))"

definition RunTimer :: "GBAMemory \<Rightarrow> GBAMemory" where
  "RunTimer s = fst (fold RunTimer_body [0, 1, 2, 3] (s, False))"

text \<open>\<open>GBAMemory::SequentialAccess\<close> and \<open>GBAMemory::NonSequentialAccess\<close>.\<close>

definition SequentialAccess :: "GBAMemory \<Rightarrow> u32 \<Rightarrow> AccessSize \<Rightarrow> int" where
  "SequentialAccess s offset sz =
     (let page = drop_bit 24 offset in
      if page = 2 then (if sz = Access_Word then 6 else 3)
      else if page = 5 \<or> page = 6 then (if sz = Access_Word then 2 else 1)
      else if page = 8 then
        (if sz = Access_Word then 1 + 2 * wsn_table (first (m_Waitstate s) 0)
         else 1 + wsn_table (first (m_Waitstate s) 0))
      else if page = 0xE then
        (if sz = Access_Word \<and> m_SaveType s \<noteq> SAVE_SRAM then 8 else 5)
      else 1)"

definition NonSequentialAccess :: "GBAMemory \<Rightarrow> u32 \<Rightarrow> AccessSize \<Rightarrow> int" where
  "NonSequentialAccess s offset sz =
     (let page = drop_bit 24 offset in
      if page = 8 then
        (if sz = Access_Word
         then 1 + wss0_table (second (m_Waitstate s) 0) + wsn_table (first (m_Waitstate s) 0)
         else 1 + wss0_table (second (m_Waitstate s) 0))
      else SequentialAccess s offset sz)"

subsection \<open>Reads\<close>

definition b2w :: "bool \<Rightarrow> u32 \<Rightarrow> u32" where
  "b2w c n = (if c then n else 0)"

text \<open>
  The inner switch of \<open>ReadByte\<close> for region 4. The C expressions are computed in 32 bits
  and the result is cut to a byte by the return type.
\<close>

definition IORead :: "GBAMemory \<Rightarrow> u32 \<Rightarrow> u8" where
  "IORead s io =
     (let v = m_Video s in
      if io = DISPCNT then
        ucast (word_of_int (m_VideoMode v) OR b2w (m_FrameSelect v) 16
               OR b2w (hblank_access (m_Obj v)) 32 OR b2w (two_dimensional (m_Obj v)) 64
               OR b2w (m_ForcedBlank v) 128)
      else if io = DISPCNT + 1 then
        ucast (b2w (bg_enable (m_BG v 0)) 1 OR b2w (bg_enable (m_BG v 1)) 2
               OR b2w (bg_enable (m_BG v 2)) 4 OR b2w (bg_enable (m_BG v 3)) 8
               OR b2w (obj_enable (m_Obj v)) 16 OR b2w (win_enable (m_Win v 0)) 32
               OR b2w (win_enable (m_Win v 1)) 64 OR b2w (objwin_enable (m_ObjWin v)) 128)
      else if io = DISPSTAT then
        ucast (b2w (m_State v = VBlank) 1 OR b2w (m_State v = HBlank) 2
               OR b2w (m_VCountFlag v) 4 OR b2w (m_VBlankIRQ v) 8
               OR b2w (m_HBlankIRQ v) 16 OR b2w (m_VCountIRQ v) 32)
      else if io = VCOUNT then ucast (m_VCount v)
      else if io = BG0CNT \<or> io = BG1CNT \<or> io = BG2CNT \<or> io = BG3CNT then
        (let n = unat ((io - BG0CNT) div 2) in
         ucast (word_of_int (priority (m_BG v n))
                OR push_bit 2 (tile_base (m_BG v n) div 0x4000)
                OR b2w (mosaic (m_BG v n)) 64 OR b2w (true_color (m_BG v n)) 128
                OR push_bit 4 3))
      else if io = BG0CNT + 1 \<or> io = BG1CNT + 1 \<or> io = BG2CNT + 1 \<or> io = BG3CNT + 1 then
        (let n = unat ((io - BG0CNT - 1) div 2) in
         ucast (map_base (m_BG v n) div 0x800 OR b2w (wraparound (m_BG v n)) 32
                OR push_bit 6 (word_of_int (size (m_BG v n)))))
      else if io = WININ then
        ucast (b2w (bg_in (m_Win v 0) 0) 1 OR b2w (bg_in (m_Win v 0) 1) 2
               OR b2w (bg_in (m_Win v 0) 2) 4 OR b2w (bg_in (m_Win v 0) 3) 8
               OR b2w (obj_in (m_Win v 0)) 16 OR b2w (sfx_in (m_Win v 0)) 32)
      else if io = WININ + 1 then
        ucast (b2w (bg_in (m_Win v 1) 0) 1 OR b2w (bg_in (m_Win v 1) 1) 2
               OR b2w (bg_in (m_Win v 1) 2) 4 OR b2w (bg_in (m_Win v 1) 3) 8
               OR b2w (obj_in (m_Win v 1)) 16 OR b2w (sfx_in (m_Win v 1)) 32)
      else if io = WINOUT then
        ucast (b2w (bg (m_WinOut v) 0) 1 OR b2w (bg (m_WinOut v) 1) 2
               OR b2w (bg (m_WinOut v) 2) 4 OR b2w (bg (m_WinOut v) 3) 8
               OR b2w (obj (m_WinOut v)) 16 OR b2w (sfx (m_WinOut v)) 32)
      else if io = WINOUT + 1 then 0
      else if io = TM0CNT_L then ucast (tm_count (m_Timer s 0) AND 0xFF)
      else if io = TM0CNT_L + 1 then ucast (drop_bit 8 (tm_count (m_Timer s 0)))
      else if io = TM1CNT_L then ucast (tm_count (m_Timer s 1) AND 0xFF)
      else if io = TM1CNT_L + 1 then ucast (drop_bit 8 (tm_count (m_Timer s 1)))
      else if io = TM2CNT_L then ucast (tm_count (m_Timer s 2) AND 0xFF)
      else if io = TM2CNT_L + 1 then ucast (drop_bit 8 (tm_count (m_Timer s 2)))
      else if io = TM3CNT_L then ucast (tm_count (m_Timer s 3) AND 0xFF)
      else if io = TM3CNT_L + 1 then ucast (drop_bit 8 (tm_count (m_Timer s 3)))
      else if io = TM0CNT_H \<or> io = TM1CNT_H \<or> io = TM2CNT_H \<or> io = TM3CNT_H then
        (let n = unat ((io - TM0CNT_H) div 4) in
         ucast (word_of_int (clock (m_Timer s n)) OR b2w (countup (m_Timer s n)) 4
                OR b2w (tm_interrupt (m_Timer s n)) 64 OR b2w (tm_enable (m_Timer s n)) 128))
      else if io = KEYINPUT then ucast (m_KeyInput s AND 0xFF)
      else if io = KEYINPUT + 1 then ucast (drop_bit 8 (m_KeyInput s))
      else if io = IE then ucast (ie (m_Interrupt s) AND 0xFF)
      else if io = IE + 1 then ucast (drop_bit 8 (ie (m_Interrupt s)))
      else if io = IF then ucast (if' (m_Interrupt s) AND 0xFF)
      else if io = IF + 1 then ucast (drop_bit 8 (if' (m_Interrupt s)))
      else if io = WAITCNT then
        ucast ((word_of_int (sram (m_Waitstate s)) :: u32)
               OR push_bit 2 (word_of_int (first (m_Waitstate s) 0))
               OR push_bit 4 (word_of_int (second (m_Waitstate s) 0))
               OR push_bit 5 (word_of_int (first (m_Waitstate s) 1))
               OR push_bit 7 (word_of_int (second (m_Waitstate s) 1)))
      else if io = WAITCNT + 1 then
        ucast (word_of_int (first (m_Waitstate s) 2)
               OR push_bit 2 (word_of_int (second (m_Waitstate s) 2))
               OR b2w (prefetch (m_Waitstate s)) 64 OR push_bit 7 1)
      else if io = IME then ucast (ime (m_Interrupt s) AND 0xFF)
      else if io = IME + 1 then ucast (drop_bit 8 (ime (m_Interrupt s)))
      else 0)"

text \<open>
  \<open>GBAMemory::ReadByte\<close>. In region E the source falls through to the default arm when
  there is no backup or the save type is not one of the three listed; a read of the
  backup is taken to leave it unchanged.
\<close>

definition ReadByte :: "GBAMemory \<Rightarrow> u32 \<Rightarrow> u8" where
  "ReadByte s offset =
     (let page = drop_bit 24 offset; internal_offset = offset AND 0xFFFFFF in
      if page = 0 \<or> page = 1 then
        (if internal_offset \<ge> 0x4000 then 0 else m_BIOS s (unat internal_offset))
      else if page = 2 then m_WRAM s (unat (internal_offset mod 0x40000))
      else if page = 3 then m_IRAM s (unat (internal_offset mod 0x8000))
      else if page = 4 then
        IORead s (if internal_offset AND 0xFFFF = 0x800 then internal_offset AND 0xFFFF
                  else internal_offset)
      else if page = 5 then m_PAL (m_Video s) (unat (internal_offset mod 0x400))
      else if page = 6 then
        (let io = internal_offset mod 0x20000;
             io = (if io \<ge> 0x18000 then io - 0x8000 else io)
         in m_VRAM (m_Video s) (unat io))
      else if page = 7 then m_OAM (m_Video s) (unat (internal_offset mod 0x400))
      else if page = 8 then
        (if unat internal_offset \<ge> m_RomSize s then 0 else m_Rom s (unat internal_offset))
      else if page = 9 then
        (let io = internal_offset + 0x1000000 in
         if unat io \<ge> m_RomSize s then 0 else m_Rom s (unat io))
      else if page = 0xE then
        (case m_Backup s of
           Some b \<Rightarrow>
             if m_SaveType s = SAVE_FLASH64 \<or> m_SaveType s = SAVE_FLASH128
                \<or> m_SaveType s = SAVE_SRAM
             then bk_ReadByte b offset else 0
         | None \<Rightarrow> 0)
      else 0)"

definition ReadHWord :: "GBAMemory \<Rightarrow> u32 \<Rightarrow> u16" where
  "ReadHWord s offset =
     ucast (ReadByte s offset) OR push_bit 8 (ucast (ReadByte s (offset + 1)))"

definition ReadWord :: "GBAMemory \<Rightarrow> u32 \<Rightarrow> u32" where
  "ReadWord s offset =
     ucast (ReadByte s offset) OR push_bit 8 (ucast (ReadByte s (offset + 1)))
     OR push_bit 16 (ucast (ReadByte s (offset + 2)))
     OR push_bit 24 (ucast (ReadByte s (offset + 3)))"

subsection \<open>Register writes\<close>

text \<open>
  The inner switch of \<open>WriteByte\<close> for region 4, cut into five definitions that follow
  one another as the arms of the switch do: \<open>IOWrite\<close> holds the display registers and
  hands every other offset to \<open>IOWrite_bg\<close>, that one to \<open>IOWrite_window\<close>, and so on down
  to \<open>IOWrite_system\<close>; an offset that no arm names leaves the state as it is. The labels
  of the switch are distinct constants, so reading them in sequence selects the same arm.
  Only a write to a reference register, in \<open>IOWrite_bg\<close>, can be undefined, so
  \<open>IOWrite_bg\<close> and \<open>IOWrite\<close> return an error or the new state and the other three the
  new state. A \<open>bool\<close> assigned from \<open>value & m\<close> is \<open>flag value m\<close>.
\<close>

definition flag :: "u8 \<Rightarrow> u8 \<Rightarrow> bool" where
  "flag v m = (v AND m \<noteq> 0)"

definition upd_Video :: "(GBAVideo \<Rightarrow> GBAVideo) \<Rightarrow> GBAMemory \<Rightarrow> GBAMemory" where
  "upd_Video f s = s\<lparr>m_Video := f (m_Video s)\<rparr>"

definition upd_BG :: "nat \<Rightarrow> (Background \<Rightarrow> Background) \<Rightarrow> GBAMemory \<Rightarrow> GBAMemory" where
  "upd_BG n f s = upd_Video (\<lambda>v. v\<lparr>m_BG := (m_BG v)(n := f (m_BG v n))\<rparr>) s"

definition upd_Win :: "nat \<Rightarrow> (Window \<Rightarrow> Window) \<Rightarrow> GBAMemory \<Rightarrow> GBAMemory" where
  "upd_Win n f s = upd_Video (\<lambda>v. v\<lparr>m_Win := (m_Win v)(n := f (m_Win v n))\<rparr>) s"

definition upd_DMA :: "nat \<Rightarrow> (DMA \<Rightarrow> DMA) \<Rightarrow> GBAMemory \<Rightarrow> GBAMemory" where
  "upd_DMA n f s = s\<lparr>m_DMA := (m_DMA s)(n := f (m_DMA s n))\<rparr>"

definition upd_Waitstate :: "(Waitstate \<Rightarrow> Waitstate) \<Rightarrow> GBAMemory \<Rightarrow> GBAMemory" where
  "upd_Waitstate f s = s\<lparr>m_Waitstate := f (m_Waitstate s)\<rparr>"

text \<open>\<open>(old & ~(0xFF << n)) | (value << n)\<close>, in 32 and in 16 bits.\<close>

definition set_byte32 :: "u32 \<Rightarrow> nat \<Rightarrow> u8 \<Rightarrow> u32" where
  "set_byte32 old n v = (old AND NOT (push_bit n 0xFF)) OR push_bit n (ucast v)"

definition set_byte16 :: "u16 \<Rightarrow> nat \<Rightarrow> u8 \<Rightarrow> u16" where
  "set_byte16 old n v = (old AND NOT (push_bit n 0xFF)) OR push_bit n (ucast v)"

text \<open>Timers and system control: \<open>TM0CNT_L\<close> to \<open>HALTCNT\<close>.\<close>

definition IOWrite_system :: "u32 \<Rightarrow> u8 \<Rightarrow> GBAMemory \<Rightarrow> GBAMemory" where
  "IOWrite_system io v s =
     (if io = TM0CNT_L then upd_Timer 0 (\<lambda>t. t\<lparr>reload := (reload t AND 0xFF00) OR ucast v\<rparr>) s
      else if io = TM0CNT_L + 1 then
        upd_Timer 0 (\<lambda>t. t\<lparr>reload := (reload t AND 0x00FF) OR push_bit 8 (ucast v)\<rparr>) s
      else if io = TM1CNT_L then upd_Timer 1 (\<lambda>t. t\<lparr>reload := (reload t AND 0xFF00) OR ucast v\<rparr>) s
      else if io = TM1CNT_L + 1 then
        upd_Timer 1 (\<lambda>t. t\<lparr>reload := (reload t AND 0x00FF) OR push_bit 8 (ucast v)\<rparr>) s
      else if io = TM2CNT_L then upd_Timer 2 (\<lambda>t. t\<lparr>reload := (reload t AND 0xFF00) OR ucast v\<rparr>) s
      else if io = TM2CNT_L + 1 then
        upd_Timer 2 (\<lambda>t. t\<lparr>reload := (reload t AND 0x00FF) OR push_bit 8 (ucast v)\<rparr>) s
      else if io = TM3CNT_L then upd_Timer 3 (\<lambda>t. t\<lparr>reload := (reload t AND 0xFF00) OR ucast v\<rparr>) s
      else if io = TM3CNT_L + 1 then
        upd_Timer 3 (\<lambda>t. t\<lparr>reload := (reload t AND 0x00FF) OR push_bit 8 (ucast v)\<rparr>) s
      else if io = TM0CNT_H \<or> io = TM1CNT_H \<or> io = TM2CNT_H \<or> io = TM3CNT_H then
        (let n = unat ((io - TM0CNT_H) div 4) in
         upd_Timer n (\<lambda>t. t\<lparr>clock := uint (v AND 3), countup := flag v 4,
                             tm_interrupt := flag v 64, tm_enable := flag v 128\<rparr>) s)
      else if io = IE then
        upd_Interrupt (\<lambda>r. r\<lparr>ie := (ie r AND 0xFF00) OR ucast v\<rparr>) s
      else if io = IE + 1 then
        upd_Interrupt (\<lambda>r. r\<lparr>ie := (ie r AND 0x00FF) OR push_bit 8 (ucast v)\<rparr>) s
      else if io = IF then
        upd_Interrupt (\<lambda>r. r\<lparr>if' := if' r AND NOT (ucast v)\<rparr>) s
      else if io = IF + 1 then
        upd_Interrupt (\<lambda>r. r\<lparr>if' := if' r AND NOT (push_bit 8 (ucast v))\<rparr>) s
      else if io = WAITCNT then
        upd_Waitstate (\<lambda>w. w\<lparr>sram := uint (v AND 3),
                              first := (first w)(0 := uint (drop_bit 2 v AND 3),
                                                 1 := uint (drop_bit 5 v AND 3)),
                              second := (second w)(0 := uint (drop_bit 4 v AND 1),
                                                   1 := uint (drop_bit 7 v))\<rparr>) s
      else if io = WAITCNT + 1 then
        upd_Waitstate (\<lambda>w. w\<lparr>first := (first w)(2 := uint (v AND 3)),
                              second := (second w)(2 := uint (drop_bit 2 v AND 1)),
                              prefetch := flag v 64\<rparr>) s
      else if io = IME then
        upd_Interrupt (\<lambda>r. r\<lparr>ime := (ime r AND 0xFF00) OR ucast v\<rparr>) s
      else if io = IME + 1 then
        upd_Interrupt (\<lambda>r. r\<lparr>ime := (ime r AND 0x00FF) OR push_bit 8 (ucast v)\<rparr>) s
      else if io = HALTCNT then
        s\<lparr>m_HaltState := (if v AND 0x80 \<noteq> 0 then HALTSTATE_STOP else HALTSTATE_HALT)\<rparr>
      else s)"

text \<open>
  The two control bytes of a DMA channel. The source repeats these arms for the channels
  0 to 3 with the channel number written out; \<open>n\<close> is that number. \<open>count_int\<close> is a
  \<open>u16\<close>, so the assignment of \<open>dma_count_mask[n] + 1\<close> is cut to 16 bits.
\<close>

definition DMA_CNT_H_low :: "u8 \<Rightarrow> DMA \<Rightarrow> DMA" where
  "DMA_CNT_H_low v d =
     (let sc = (AddressControl_int (source_control d) AND 2) OR uint (drop_bit 7 v AND 1);
          d = d\<lparr>source_control := AddressControl_of sc\<rparr>
      in d\<lparr>dest_control := AddressControl_of (uint (drop_bit 5 v AND 3))\<rparr>)"

definition DMA_CNT_H_high :: "nat \<Rightarrow> u8 \<Rightarrow> DMA \<Rightarrow> DMA" where
  "DMA_CNT_H_high n v d =
     (let sc = (AddressControl_int (source_control d) AND NOT 3) OR uint (push_bit 1 (v AND 1));
          d = d\<lparr>source_control := AddressControl_of sc\<rparr>;
          d = d\<lparr>repeat := flag v 2\<rparr>;
          d = d\<lparr>dma_size := TransferSize_of (uint (drop_bit 2 v AND 1))\<rparr>;
          d = d\<lparr>gamepack_drq := flag v 8\<rparr>;
          d = d\<lparr>start_time := StartTime_of (uint (drop_bit 4 v AND 3))\<rparr>;
          d = d\<lparr>dma_interrupt := flag v 64\<rparr>;
          d = d\<lparr>dma_enable := flag v 128\<rparr>
      in if dma_enable d then
           let d = d\<lparr>source_int := source d AND dma_source_mask n\<rparr>;
               d = d\<lparr>dest_int := dest d AND dma_dest_mask n\<rparr>;
               d = d\<lparr>count_int := ucast (ucast (count d) AND dma_count_mask n)\<rparr>
           in if count_int d = 0 then d\<lparr>count_int := ucast (dma_count_mask n + 1)\<rparr> else d
         else d)"

text \<open>DMA registers: \<open>DMA0SAD\<close> to \<open>DMA3CNT_H + 1\<close>.\<close>

definition IOWrite_dma :: "u32 \<Rightarrow> u8 \<Rightarrow> GBAMemory \<Rightarrow> GBAMemory" where
  "IOWrite_dma io v s =
     (if io = DMA0SAD \<or> io = DMA0SAD + 1 \<or> io = DMA0SAD + 2 \<or> io = DMA0SAD + 3 then
        upd_DMA 0 (\<lambda>d. d\<lparr>source := set_byte32 (source d) (unat ((io - DMA0SAD) * 8)) v\<rparr>) s
      else if io = DMA1SAD \<or> io = DMA1SAD + 1 \<or> io = DMA1SAD + 2 \<or> io = DMA1SAD + 3 then
        upd_DMA 1 (\<lambda>d. d\<lparr>source := set_byte32 (source d) (unat ((io - DMA1SAD) * 8)) v\<rparr>) s
      else if io = DMA2SAD \<or> io = DMA2SAD + 1 \<or> io = DMA2SAD + 2 \<or> io = DMA2SAD + 3 then
        upd_DMA 2 (\<lambda>d. d\<lparr>source := set_byte32 (source d) (unat ((io - DMA2SAD) * 8)) v\<rparr>) s
      else if io = DMA3SAD \<or> io = DMA3SAD + 1 \<or> io = DMA3SAD + 2 \<or> io = DMA3SAD + 3 then
        upd_DMA 3 (\<lambda>d. d\<lparr>source := set_byte32 (source d) (unat ((io - DMA3SAD) * 8)) v\<rparr>) s
      else if io = DMA0DAD \<or> io = DMA0DAD + 1 \<or> io = DMA0DAD + 2 \<or> io = DMA0DAD + 3 then
        upd_DMA 0 (\<lambda>d. d\<lparr>dest := set_byte32 (dest d) (unat ((io - DMA0DAD) * 8)) v\<rparr>) s
      else if io = DMA1DAD \<or> io = DMA1DAD + 1 \<or> io = DMA1DAD + 2 \<or> io = DMA1DAD + 3 then
        upd_DMA 1 (\<lambda>d. d\<lparr>dest := set_byte32 (dest d) (unat ((io - DMA1DAD) * 8)) v\<rparr>) s
      else if io = DMA2DAD \<or> io = DMA2DAD + 1 \<or> io = DMA2DAD + 2 \<or> io = DMA2DAD + 3 then
        upd_DMA 2 (\<lambda>d. d\<lparr>dest := set_byte32 (dest d) (unat ((io - DMA2DAD) * 8)) v\<rparr>) s
      else if io = DMA3DAD \<or> io = DMA3DAD + 1 \<or> io = DMA3DAD + 2 \<or> io = DMA3DAD + 3 then
        upd_DMA 3 (\<lambda>d. d\<lparr>dest := set_byte32 (dest d) (unat ((io - DMA3DAD) * 8)) v\<rparr>) s
      else if io = DMA0CNT_L then upd_DMA 0 (\<lambda>d. d\<lparr>count := (count d AND 0xFF00) OR ucast v\<rparr>) s
      else if io = DMA0CNT_L + 1 then
        upd_DMA 0 (\<lambda>d. d\<lparr>count := (count d AND 0x00FF) OR push_bit 8 (ucast v)\<rparr>) s
      else if io = DMA1CNT_L then upd_DMA 1 (\<lambda>d. d\<lparr>count := (count d AND 0xFF00) OR ucast v\<rparr>) s
      else if io = DMA1CNT_L + 1 then
        upd_DMA 1 (\<lambda>d. d\<lparr>count := (count d AND 0x00FF) OR push_bit 8 (ucast v)\<rparr>) s
      else if io = DMA2CNT_L then upd_DMA 2 (\<lambda>d. d\<lparr>count := (count d AND 0xFF00) OR ucast v\<rparr>) s
      else if io = DMA2CNT_L + 1 then
        upd_DMA 2 (\<lambda>d. d\<lparr>count := (count d AND 0x00FF) OR push_bit 8 (ucast v)\<rparr>) s
      else if io = DMA3CNT_L then upd_DMA 3 (\<lambda>d. d\<lparr>count := (count d AND 0xFF00) OR ucast v\<rparr>) s
      else if io = DMA3CNT_L + 1 then
        upd_DMA 3 (\<lambda>d. d\<lparr>count := (count d AND 0x00FF) OR push_bit 8 (ucast v)\<rparr>) s
      else if io = DMA0CNT_H then upd_DMA 0 (DMA_CNT_H_low v) s
      else if io = DMA0CNT_H + 1 then upd_DMA 0 (DMA_CNT_H_high 0 v) s
      else if io = DMA1CNT_H then upd_DMA 1 (DMA_CNT_H_low v) s
      else if io = DMA1CNT_H + 1 then upd_DMA 1 (DMA_CNT_H_high 1 v) s
      else if io = DMA2CNT_H then upd_DMA 2 (DMA_CNT_H_low v) s
      else if io = DMA2CNT_H + 1 then upd_DMA 2 (DMA_CNT_H_high 2 v) s
      else if io = DMA3CNT_H then upd_DMA 3 (DMA_CNT_H_low v) s
      else if io = DMA3CNT_H + 1 then upd_DMA 3 (DMA_CNT_H_high 3 v) s
      else IOWrite_system io v s)"

text \<open>Window registers: \<open>WIN0H\<close> to \<open>WINOUT + 1\<close>.\<close>

definition WININ_write :: "u8 \<Rightarrow> Window \<Rightarrow> Window" where
  "WININ_write v w =
     w\<lparr>bg_in := (bg_in w)(0 := flag v 1, 1 := flag v 2, 2 := flag v 4, 3 := flag v 8),
       obj_in := flag v 16, sfx_in := flag v 32\<rparr>"

definition IOWrite_window :: "u32 \<Rightarrow> u8 \<Rightarrow> GBAMemory \<Rightarrow> GBAMemory" where
  "IOWrite_window io v s =
     (if io = WIN0H then upd_Win 0 (\<lambda>w. w\<lparr>right := ucast v\<rparr>) s
      else if io = WIN0H + 1 then upd_Win 0 (\<lambda>w. w\<lparr>left := ucast v\<rparr>) s
      else if io = WIN1H then upd_Win 1 (\<lambda>w. w\<lparr>right := ucast v\<rparr>) s
      else if io = WIN1H + 1 then upd_Win 1 (\<lambda>w. w\<lparr>left := ucast v\<rparr>) s
      else if io = WIN0V then upd_Win 0 (\<lambda>w. w\<lparr>bottom := ucast v\<rparr>) s
      else if io = WIN0V + 1 then upd_Win 0 (\<lambda>w. w\<lparr>top := ucast v\<rparr>) s
      else if io = WIN1V then upd_Win 1 (\<lambda>w. w\<lparr>bottom := ucast v\<rparr>) s
      else if io = WIN1V + 1 then upd_Win 1 (\<lambda>w. w\<lparr>top := ucast v\<rparr>) s
      else if io = WININ then upd_Win 0 (WININ_write v) s
      else if io = WININ + 1 then upd_Win 1 (WININ_write v) s
      else if io = WINOUT then
        upd_Video (\<lambda>vd. vd\<lparr>m_WinOut := (m_WinOut vd)
           \<lparr>bg := (bg (m_WinOut vd))(0 := flag v 1, 1 := flag v 2, 2 := flag v 4,
                                       3 := flag v 8),
            obj := flag v 16, sfx := flag v 32\<rparr>\<rparr>) s
      else if io = WINOUT + 1 then s
      else IOWrite_dma io v s)"

text \<open>
  What the bus does where C++ leaves the behaviour undefined is reported as an error: a
  store past the end of \<open>m_VRAM\<close>, and the conversion to \<open>u16\<close> of a \<open>float\<close> that is
  negative or too large.
\<close>

datatype error = OutOfBounds | UndefinedConversion

text \<open>
  Background registers: \<open>BG0CNT\<close> to \<open>BG3PD + 1\<close>. A write to a reference register
  assembles a 32-bit word from the \<open>u16\<close> member \<open>x_ref\<close> (or \<open>y_ref\<close>) and the byte written,
  stores its low 16 bits back in that member, and stores \<open>DecodeGBAFloat32\<close> of the whole
  word, converted to \<open>u16\<close>, in \<open>x_ref_int\<close> (or \<open>y_ref_int\<close>). The conversion is undefined
  when the word has one of its bits 24 to 27 set, which only a write to the top byte of the
  register can bring about.
\<close>

definition ref_x_write :: "nat \<Rightarrow> u8 \<Rightarrow> Background \<Rightarrow> error + Background" where
  "ref_x_write n v b =
     (let w = set_byte32 (ucast (x_ref b)) n v in
      if float_fits_u16 (DecodeGBAFloat32 w)
      then Inr (b\<lparr>x_ref := ucast w, x_ref_int := float_to_u16 (DecodeGBAFloat32 w)\<rparr>)
      else Inl UndefinedConversion)"

definition ref_y_write :: "nat \<Rightarrow> u8 \<Rightarrow> Background \<Rightarrow> error + Background" where
  "ref_y_write n v b =
     (let w = set_byte32 (ucast (y_ref b)) n v in
      if float_fits_u16 (DecodeGBAFloat32 w)
      then Inr (b\<lparr>y_ref := ucast w, y_ref_int := float_to_u16 (DecodeGBAFloat32 w)\<rparr>)
      else Inl UndefinedConversion)"

definition ref_BG :: "nat \<Rightarrow> (Background \<Rightarrow> error + Background) \<Rightarrow> GBAMemory
    \<Rightarrow> error + GBAMemory" where
  "ref_BG n f s =
     (case f (m_BG (m_Video s) n) of
        Inl e \<Rightarrow> Inl e
      | Inr b \<Rightarrow> Inr (upd_BG n (\<lambda>_. b) s))"

definition IOWrite_bg :: "u32 \<Rightarrow> u8 \<Rightarrow> GBAMemory \<Rightarrow> error + GBAMemory" where
  "IOWrite_bg io v s =
     (if io = BG0CNT \<or> io = BG1CNT \<or> io = BG2CNT \<or> io = BG3CNT then
        Inr (let n = unat ((io - BG0CNT) div 2) in
             upd_BG n (\<lambda>b. b\<lparr>priority := uint (v AND 3),
                              tile_base := ucast (drop_bit 2 v AND 3) * 0x4000,
                              mosaic := flag v 64, true_color := flag v 128\<rparr>) s)
      else if io = BG0CNT + 1 \<or> io = BG1CNT + 1 \<or> io = BG2CNT + 1 \<or> io = BG3CNT + 1 then
        Inr (let n = unat ((io - BG0CNT - 1) div 2);
                 s = upd_BG n (\<lambda>b. b\<lparr>map_base := ucast (v AND 31) * 0x800\<rparr>) s;
                 s = (if n = 2 \<or> n = 3 then upd_BG n (\<lambda>b. b\<lparr>wraparound := flag v 32\<rparr>) s else s)
             in upd_BG n (\<lambda>b. b\<lparr>size := uint (drop_bit 6 v)\<rparr>) s)
      else if io = BG0HOFS \<or> io = BG1HOFS \<or> io = BG2HOFS \<or> io = BG3HOFS then
        Inr (let n = unat ((io - BG0HOFS) div 4) in
             upd_BG n (\<lambda>b. b\<lparr>x := (x b AND 0x100) OR ucast v\<rparr>) s)
      else if io = BG0HOFS + 1 \<or> io = BG1HOFS + 1 \<or> io = BG2HOFS + 1 \<or> io = BG3HOFS + 1 then
        Inr (let n = unat ((io - BG0HOFS - 1) div 4) in
             upd_BG n (\<lambda>b. b\<lparr>x := (x b AND 0xFF) OR push_bit 8 (ucast (v AND 1))\<rparr>) s)
      else if io = BG0VOFS \<or> io = BG1VOFS \<or> io = BG2VOFS \<or> io = BG3VOFS then
        Inr (let n = unat ((io - BG0VOFS) div 4) in
             upd_BG n (\<lambda>b. b\<lparr>y := (y b AND 0x100) OR ucast v\<rparr>) s)
      else if io = BG0VOFS + 1 \<or> io = BG1VOFS + 1 \<or> io = BG2VOFS + 1 \<or> io = BG3VOFS + 1 then
        Inr (let n = unat ((io - BG0VOFS - 1) div 4) in
             upd_BG n (\<lambda>b. b\<lparr>y := (y b AND 0xFF) OR push_bit 8 (ucast (v AND 1))\<rparr>) s)
      else if io = BG2X \<or> io = BG2X + 1 \<or> io = BG2X + 2 \<or> io = BG2X + 3 then
        ref_BG 2 (ref_x_write (unat ((io - BG2X) * 8)) v) s
      else if io = BG3X \<or> io = BG3X + 1 \<or> io = BG3X + 2 \<or> io = BG3X + 3 then
        ref_BG 3 (ref_x_write (unat ((io - BG3X) * 8)) v) s
      else if io = BG2Y \<or> io = BG2Y + 1 \<or> io = BG2Y + 2 \<or> io = BG2Y + 3 then
        ref_BG 2 (ref_y_write (unat ((io - BG2Y) * 8)) v) s
      else if io = BG3Y \<or> io = BG3Y + 1 \<or> io = BG3Y + 2 \<or> io = BG3Y + 3 then
        ref_BG 3 (ref_y_write (unat ((io - BG3Y) * 8)) v) s
      else if io = BG2PA \<or> io = BG2PA + 1 then
        Inr (upd_BG 2 (\<lambda>b. b\<lparr>pa := set_byte16 (pa b) (unat ((io - BG2PA) * 8)) v\<rparr>) s)
      else if io = BG3PA \<or> io = BG3PA + 1 then
        Inr (upd_BG 3 (\<lambda>b. b\<lparr>pa := set_byte16 (pa b) (unat ((io - BG3PA) * 8)) v\<rparr>) s)
      else if io = BG2PB \<or> io = BG2PB + 1 then
        Inr (upd_BG 2 (\<lambda>b. b\<lparr>pb := set_byte16 (pb b) (unat ((io - BG2PB) * 8)) v\<rparr>) s)
      else if io = BG3PB \<or> io = BG3PB + 1 then
        Inr (upd_BG 3 (\<lambda>b. b\<lparr>pb := set_byte16 (pb b) (unat ((io - BG3PB) * 8)) v\<rparr>) s)
      else if io = BG2PC \<or> io = BG2PC + 1 then
        Inr (upd_BG 2 (\<lambda>b. b\<lparr>pc := set_byte16 (pc b) (unat ((io - BG2PC) * 8)) v\<rparr>) s)
      else if io = BG3PC \<or> io = BG3PC + 1 then
        Inr (upd_BG 3 (\<lambda>b. b\<lparr>pc := set_byte16 (pc b) (unat ((io - BG3PC) * 8)) v\<rparr>) s)
      else if io = BG2PD \<or> io = BG2PD + 1 then
        Inr (upd_BG 2 (\<lambda>b. b\<lparr>pd := set_byte16 (pd b) (unat ((io - BG2PD) * 8)) v\<rparr>) s)
      else if io = BG3PD \<or> io = BG3PD + 1 then
        Inr (upd_BG 3 (\<lambda>b. b\<lparr>pd := set_byte16 (pd b) (unat ((io - BG3PD) * 8)) v\<rparr>) s)
      else Inr (IOWrite_window io v s))"

text \<open>Display control and status: \<open>DISPCNT\<close> to \<open>DISPSTAT + 1\<close>; the head of the switch.\<close>

definition IOWrite :: "u32 \<Rightarrow> u8 \<Rightarrow> GBAMemory \<Rightarrow> error + GBAMemory" where
  "IOWrite io v s =
     (if io = DISPCNT then
        Inr (upd_Video (\<lambda>vd. vd\<lparr>m_VideoMode := uint (v AND 7), m_FrameSelect := flag v 16,
                                m_Obj := (m_Obj vd)\<lparr>hblank_access := flag v 32,
                                                    two_dimensional := flag v 64\<rparr>,
                                m_ForcedBlank := flag v 128\<rparr>) s)
      else if io = DISPCNT + 1 then
        Inr (let s = upd_BG 0 (\<lambda>b. b\<lparr>bg_enable := flag v 1\<rparr>) s;
                 s = upd_BG 1 (\<lambda>b. b\<lparr>bg_enable := flag v 2\<rparr>) s;
                 s = upd_BG 2 (\<lambda>b. b\<lparr>bg_enable := flag v 4\<rparr>) s;
                 s = upd_BG 3 (\<lambda>b. b\<lparr>bg_enable := flag v 8\<rparr>) s;
                 s = upd_Video (\<lambda>vd. vd\<lparr>m_Obj := (m_Obj vd)\<lparr>obj_enable := flag v 16\<rparr>\<rparr>) s;
                 s = upd_Win 0 (\<lambda>w. w\<lparr>win_enable := flag v 32\<rparr>) s;
                 s = upd_Win 1 (\<lambda>w. w\<lparr>win_enable := flag v 64\<rparr>) s
             in upd_Video (\<lambda>vd. vd\<lparr>m_ObjWin := (m_ObjWin vd)\<lparr>objwin_enable := flag v 128\<rparr>\<rparr>) s)
      else if io = DISPSTAT then
        Inr (upd_Video (\<lambda>vd. vd\<lparr>m_VBlankIRQ := flag v 8, m_HBlankIRQ := flag v 16,
                                m_VCountIRQ := flag v 32\<rparr>) s)
      else if io = DISPSTAT + 1 then Inr (upd_Video (\<lambda>vd. vd\<lparr>m_VCountSetting := v\<rparr>) s)
      else IOWrite_bg io v s)"

subsection \<open>Writes\<close>

text \<open>
  The VRAM arm of \<open>WriteHWord\<close> stores at \<open>internal_offset\<close> and \<open>internal_offset + 1\<close>
  after folding the offset below 0x18000. For the odd offset 0x17FFF the second store
  lies one past the end of \<open>m_VRAM[0x18000]\<close>, which C++ leaves undefined; the model
  reports it as the error \<open>OutOfBounds\<close> instead of inventing a cell.
\<close>

definition VRAM_store16 :: "u32 \<Rightarrow> u16 \<Rightarrow> GBAMemory \<Rightarrow> error + GBAMemory" where
  "VRAM_store16 internal_offset v s =
     (let io = internal_offset mod 0x20000;
          io = (if io \<ge> 0x18000 then io - 0x8000 else io)
      in if unat io + 1 \<ge> 0x18000 then Inl OutOfBounds
         else Inr (upd_Video (\<lambda>vd. vd\<lparr>m_VRAM := (m_VRAM vd)
                (unat io := ucast (v AND 0xFF),
                 unat io + 1 := ucast (drop_bit 8 v AND 0xFF))\<rparr>) s))"

text \<open>
  \<open>GBAMemory::WriteByte\<close> and \<open>GBAMemory::WriteHWord\<close> call each other: a byte written
  to the regions 5 to 7 becomes a halfword write, and a halfword written anywhere else
  becomes two byte writes. The page of \<open>WriteByte\<close> is the whole top byte of the address,
  the page of \<open>WriteHWord\<close> only its low four bits. A write to the backup replaces it by
  the backup that the write leaves behind.
\<close>

function WriteByte :: "GBAMemory \<Rightarrow> u32 \<Rightarrow> u8 \<Rightarrow> error + GBAMemory"
  and WriteHWord :: "GBAMemory \<Rightarrow> u32 \<Rightarrow> u16 \<Rightarrow> error + GBAMemory" where
  "WriteByte s offset v =
     (let page = drop_bit 24 offset; internal_offset = offset AND 0xFFFFFF in
      if page = 0 then Inr s
      else if page = 2 then
        Inr (s\<lparr>m_WRAM := (m_WRAM s)(unat (internal_offset mod 0x40000) := v)\<rparr>)
      else if page = 3 then
        Inr (s\<lparr>m_IRAM := (m_IRAM s)(unat (internal_offset mod 0x8000) := v)\<rparr>)
      else if page = 4 then
        (if internal_offset \<ge> 0x3FF \<and> internal_offset AND 0xFFFF \<noteq> 0x800 then Inr s
         else IOWrite (if internal_offset AND 0xFFFF = 0x800
                       then internal_offset AND 0xFFFF else internal_offset) v s)
      else if page = 5 \<or> page = 6 \<or> page = 7 then
        WriteHWord s (offset AND NOT 1) (push_bit 8 (ucast v) OR ucast v)
      else if page = 8 \<or> page = 9 then Inr s
      else if page = 0xE then
        (case m_Backup s of
           Some b \<Rightarrow>
             if m_SaveType s = SAVE_FLASH64 \<or> m_SaveType s = SAVE_FLASH128
                \<or> m_SaveType s = SAVE_SRAM
             then Inr (s\<lparr>m_Backup := Some (bk_WriteByte b offset v)\<rparr>) else Inr s
         | None \<Rightarrow> Inr s)
      else Inr s)"
| "WriteHWord s offset v =
     (let page = drop_bit 24 offset AND 0xF; internal_offset = offset AND 0xFFFFFF in
      if page = 5 then
        Inr (upd_Video (\<lambda>vd. vd\<lparr>m_PAL := (m_PAL vd)
               (unat (internal_offset mod 0x400) := ucast (v AND 0xFF),
                unat ((internal_offset + 1) mod 0x400) := ucast (drop_bit 8 v AND 0xFF))\<rparr>) s)
      else if page = 6 then VRAM_store16 internal_offset v s
      else if page = 7 then
        Inr (upd_Video (\<lambda>vd. vd\<lparr>m_OAM := (m_OAM vd)
               (unat (internal_offset mod 0x400) := ucast (v AND 0xFF),
                unat ((internal_offset + 1) mod 0x400) := ucast (drop_bit 8 v AND 0xFF))\<rparr>) s)
      else
        (case WriteByte s offset (ucast (v AND 0xFF)) of
           Inl e \<Rightarrow> Inl e
         | Inr s1 \<Rightarrow> WriteByte s1 (offset + 1) (ucast (drop_bit 8 v AND 0xFF))))"
  by pat_completeness auto
termination
proof (relation "measure (\<lambda>a. case a of
          Inl (s, offset, v) \<Rightarrow> 1
        | Inr (s, offset, v) \<Rightarrow>
            (if drop_bit 24 offset AND 0xF = (5::u32) \<or> drop_bit 24 offset AND 0xF = 6
                \<or> drop_bit 24 offset AND 0xF = 7 then 0 else 2))")
  show "wf (measure (\<lambda>a. case a of
          Inl (s, offset, v) \<Rightarrow> 1
        | Inr (s, offset, v) \<Rightarrow>
            (if drop_bit 24 offset AND 0xF = (5::u32) \<or> drop_bit 24 offset AND 0xF = 6
                \<or> drop_bit 24 offset AND 0xF = 7 then 0 else (2::nat))))"
    by simp
next
  fix s :: GBAMemory and offset :: u32 and v :: u8 and xa xb
  assume "xa = drop_bit 24 offset" and "xa \<noteq> 0" and "xa \<noteq> 2" and "xa \<noteq> 3" and "xa \<noteq> 4"
    and p: "xa = 5 \<or> xa = 6 \<or> xa = 7"
  have "drop_bit 24 (offset AND NOT 1) = drop_bit 24 offset"
  proof (rule bit_word_eqI)
    fix n assume "n < LENGTH(32)"
    have m: "(255::u32) = mask 8" by (simp add: mask_eq_exp_minus_1)
    have "bit offset (24 + n) \<Longrightarrow> n < 8"
      using bit_imp_le_length [of offset "24 + n"] by simp
    then show "bit (drop_bit 24 (offset AND NOT 1)) n = bit (drop_bit 24 offset) n"
      by (auto simp: bit_simps m)
  qed
  with p \<open>xa = drop_bit 24 offset\<close>
  show "(Inr (s, offset AND NOT 1, push_bit 8 (ucast v) OR ucast v), Inl (s, offset, v))
        \<in> measure (\<lambda>a. case a of
          Inl (s, offset, v) \<Rightarrow> 1
        | Inr (s, offset, v) \<Rightarrow>
            (if drop_bit 24 offset AND 0xF = (5::u32) \<or> drop_bit 24 offset AND 0xF = 6
                \<or> drop_bit 24 offset AND 0xF = 7 then 0 else 2))"
    by auto
qed auto

text \<open>\<open>GBAMemory::WriteWord\<close>, with the reload of a timer count that follows the two writes.\<close>

definition WriteWord :: "GBAMemory \<Rightarrow> u32 \<Rightarrow> u32 \<Rightarrow> error + GBAMemory" where
  "WriteWord s offset v =
     (case WriteHWord s offset (ucast (v AND 0xFFFF)) of
        Inl e \<Rightarrow> Inl e
      | Inr s1 \<Rightarrow>
          (case WriteHWord s1 (offset + 2) (ucast (drop_bit 16 v AND 0xFFFF)) of
             Inl e \<Rightarrow> Inl e
           | Inr s2 \<Rightarrow>
               Inr (if v AND push_bit 23 1 \<noteq> 0 then
                      (if offset = TM0CNT_L OR 0x04000000
                       then upd_Timer 0 (\<lambda>t. t\<lparr>tm_count := reload t\<rparr>) s2
                       else if offset = TM1CNT_L OR 0x04000000
                       then upd_Timer 1 (\<lambda>t. t\<lparr>tm_count := reload t\<rparr>) s2
                       else if offset = TM2CNT_L OR 0x04000000
                       then upd_Timer 2 (\<lambda>t. t\<lparr>tm_count := reload t\<rparr>) s2
                       else if offset = TM3CNT_L OR 0x04000000
                       then upd_Timer 3 (\<lambda>t. t\<lparr>tm_count := reload t\<rparr>) s2
                       else s2)
                    else s2)))"

text \<open>
  A bus as the constructor \<open>GBAMemory::GBAMemory\<close> leaves it when no BIOS image is given
  and the cartridge names no save type: the 64-byte stub at the start of \<open>m_BIOS\<close>, cleared
  work RAM, interrupt registers at zero, a fresh picture unit, save type SRAM without a
  backup object.
\<close>

definition DMA_init :: DMA where
  "DMA_init =
     \<lparr>dest = 0, source = 0, count = 0, dest_int = 0, source_int = 0, count_int = 0,
      dest_control = Increment, source_control = Increment, start_time = Start_Immediate,
      dma_size = Size_HWord, repeat = False, gamepack_drq = False, dma_interrupt = False,
      dma_enable = False\<rparr>"

definition Timer_init :: Timer where
  "Timer_init =
     \<lparr>tm_count = 0, reload = 0, clock = 0, ticks = 0, tm_enable = False, countup = False,
      tm_interrupt = False, overflow = False\<rparr>"

definition GBAMemory_init :: "(nat \<Rightarrow> u8) \<Rightarrow> nat \<Rightarrow> GBAMemory" where
  "GBAMemory_init rom rom_size =
     \<lparr>m_Rom = rom, m_RomSize = rom_size,
      m_BIOS = (\<lambda>i. if i < length hle_bios then hle_bios ! i else 0),
      m_WRAM = (\<lambda>_. 0), m_IRAM = (\<lambda>_. 0),
      m_Backup = None, m_SaveType = SAVE_SRAM,
      m_DMA = (\<lambda>_. DMA_init), m_Timer = (\<lambda>_. Timer_init),
      m_Waitstate = \<lparr>sram = 0, first = (\<lambda>_. 0), second = (\<lambda>_. 0), prefetch = False\<rparr>,
      m_SOUNDBIAS = 0, m_Interrupt = GBAInterrupt_init, m_HaltState = HALTSTATE_NONE,
      m_IntrWait = False, m_IntrWaitMask = False, m_Video = GBAVideo_init,
      m_DidTransfer = False, m_DMACycles = 0, m_KeyInput = 0x3FF\<rparr>"

section \<open>Regions of the address map\<close>

text \<open>
  The top byte of an address selects the region: 0 is the BIOS and 8 to D are the three
  images of the cartridge ROM.
\<close>

definition in_BIOS_or_ROM :: "u32 \<Rightarrow> bool" where
  "in_BIOS_or_ROM a =
     (drop_bit 24 a = 0 \<or> drop_bit 24 a = 8 \<or> drop_bit 24 a = 9 \<or> drop_bit 24 a = 0xA
      \<or> drop_bit 24 a = 0xB \<or> drop_bit 24 a = 0xC \<or> drop_bit 24 a = 0xD)"


text \<open>
  The index into \<open>m_VRAM\<close> that the code computes from an offset within region 6: the
  offset modulo 0x20000, less 0x8000 when that is 0x18000 or more.
\<close>

definition VRAM_index :: "u32 \<Rightarrow> nat" where
  "VRAM_index internal_offset =
     (let io = internal_offset mod 0x20000
      in unat (if io \<ge> 0x18000 then io - 0x8000 else io))"

section \<open>The cycle tables of the later core (cpu.cpp)\<close>

text \<open>
  \<open>CPU::UpdateCycleLUT\<close> fills the tables \<open>cycles16\<close> and \<open>cycles32\<close>, indexed by the kind
  of access and by the region nibble, from the fields of \<open>mmio.waitcnt\<close>. \<open>cpu.hpp\<close> is not
  among the sources; the record holds the members that \<open>cpu.cpp\<close> names.
\<close>

datatype AccessKind = ACCESS_NSEQ | ACCESS_SEQ

record WaitstateControl =
  wc_sram :: int
  ws0_n :: int
  ws0_s :: int
  ws1_n :: int
  ws1_s :: int
  ws2_n :: int
  ws2_s :: int
  phi :: int
  wc_prefetch :: int
  cgb :: int

record CPU =
  waitcnt :: WaitstateControl
  cycles16 :: "AccessKind \<Rightarrow> nat \<Rightarrow> int"
  cycles32 :: "AccessKind \<Rightarrow> nat \<Rightarrow> int"

text \<open>
  Modelled from the spec: the waitstate tables \<open>s_ws_nseq\<close>, \<open>s_ws_seq0\<close>, \<open>s_ws_seq1\<close> and
  \<open>s_ws_seq2\<close>, declared in \<open>cpu.hpp\<close>. The spec gives the N table as 4, 3, 2, 8 and the
  S tables of the three images as 2, 1 and 4, 1 and 8, 1.
\<close>

definition s_ws_nseq :: "int \<Rightarrow> int" where
  "s_ws_nseq i = [4, 3, 2, 8] ! nat i"

definition s_ws_seq0 :: "int \<Rightarrow> int" where
  "s_ws_seq0 i = [2, 1] ! nat i"

definition s_ws_seq1 :: "int \<Rightarrow> int" where
  "s_ws_seq1 i = [4, 1] ! nat i"

definition s_ws_seq2 :: "int \<Rightarrow> int" where
  "s_ws_seq2 i = [8, 1] ! nat i"

definition set16 :: "AccessKind \<Rightarrow> nat \<Rightarrow> int \<Rightarrow> CPU \<Rightarrow> CPU" where
  "set16 k r n c = c\<lparr>cycles16 := (cycles16 c)(k := (cycles16 c k)(r := n))\<rparr>"

definition set32 :: "AccessKind \<Rightarrow> nat \<Rightarrow> int \<Rightarrow> CPU \<Rightarrow> CPU" where
  "set32 k r n c = c\<lparr>cycles32 := (cycles32 c)(k := (cycles32 c k)(r := n))\<rparr>"

text \<open>The body of the loop over \<open>i\<close>, its twelve assignments in the source's order.\<close>

definition UpdateCycleLUT_body :: "nat \<Rightarrow> CPU \<Rightarrow> CPU" where
  "UpdateCycleLUT_body i c =
     (let w = waitcnt c;
          c = set16 ACCESS_NSEQ (0x8 + i) (1 + s_ws_nseq (ws0_n w)) c;
          c = set16 ACCESS_NSEQ (0xA + i) (1 + s_ws_nseq (ws1_n w)) c;
          c = set16 ACCESS_NSEQ (0xC + i) (1 + s_ws_nseq (ws2_n w)) c;
          c = set16 ACCESS_SEQ (0x8 + i) (1 + s_ws_seq0 (ws0_s w)) c;
          c = set16 ACCESS_SEQ (0xA + i) (1 + s_ws_seq1 (ws1_s w)) c;
          c = set16 ACCESS_SEQ (0xC + i) (1 + s_ws_seq2 (ws2_s w)) c;
          c = set32 ACCESS_NSEQ (0x8 + i)
                (cycles16 c ACCESS_NSEQ 0x8 + cycles16 c ACCESS_SEQ 0x8) c;
          c = set32 ACCESS_NSEQ (0xA + i)
                (cycles16 c ACCESS_NSEQ 0xA + cycles16 c ACCESS_SEQ 0xA) c;
          c = set32 ACCESS_NSEQ (0xC + i)
                (cycles16 c ACCESS_NSEQ 0xC + cycles16 c ACCESS_SEQ 0xC) c;
          c = set32 ACCESS_SEQ (0x8 + i) (cycles16 c ACCESS_SEQ 0x8 * 2) c;
          c = set32 ACCESS_SEQ (0xA + i) (cycles16 c ACCESS_SEQ 0xA * 2) c
      in set32 ACCESS_SEQ (0xC + i) (cycles16 c ACCESS_SEQ 0xC * 2) c)"

definition UpdateCycleLUT :: "CPU \<Rightarrow> CPU" where
  "UpdateCycleLUT c =
     (let sram_cycles = 1 + s_ws_nseq (wc_sram (waitcnt c));
          c = set16 ACCESS_NSEQ 0xE sram_cycles c;
          c = set32 ACCESS_NSEQ 0xE sram_cycles c;
          c = set16 ACCESS_SEQ 0xE sram_cycles c;
          c = set32 ACCESS_SEQ 0xE sram_cycles c
      in fold UpdateCycleLUT_body [0, 1] c)"

section \<open>Lines and dots of the picture unit\<close>

text \<open>
  Counting the calls of \<open>Step\<close> from the initial state: a line lasts 1232 steps (960 of
  Scanline and 272 of HBlank, or 1232 of VBlank) and the code starts over after line 226.
  \<open>at_phase n v\<close> says that the unit \<open>v\<close> is where \<open>n\<close> steps lead: line, state and tick
  counter.
\<close>

definition line_of :: "nat \<Rightarrow> nat" where
  "line_of n = (n div 1232) mod 227"

definition dot_of :: "nat \<Rightarrow> nat" where
  "dot_of n = n mod 1232"

definition at_phase :: "nat \<Rightarrow> GBAVideo \<Rightarrow> bool" where
  "at_phase n v =
     (unat (m_VCount v) = line_of n \<and>
      m_State v = (if line_of n < 160 then (if dot_of n < 960 then Scanline else HBlank)
                   else VBlank) \<and>
      m_Ticks v = (if line_of n < 160 \<and> dot_of n \<ge> 960 then int (dot_of n) - 960
                   else int (dot_of n)))"

section \<open>States used in examples\<close>

text \<open>
  Channel 0 programmed for a repeating transfer at every horizontal blank, after a first
  transfer: the channel is still enabled and \<open>source_int\<close> has moved on from the source.
\<close>

definition dma0_repeating :: GBAMemory where
  "dma0_repeating =
     upd_DMA 0 (\<lambda>d. d\<lparr>source := 0x02000000, source_int := 0x02000040, dest := 0x06000000,
                         dest_int := 0x06000000, count := 0x20, count_int := 0x20,
                         start_time := Start_HBlank, repeat := True, dma_enable := True\<rparr>)
       (GBAMemory_init (\<lambda>_. 0) 0)"


text \<open>A bus whose work RAM holds at every index the low byte of that index.\<close>

definition wram_counting :: GBAMemory where
  "wram_counting = (GBAMemory_init (\<lambda>_. 0) 0)\<lparr>m_WRAM := (\<lambda>i. of_nat i)\<rparr>"


text \<open>
  Timer 0 enabled at prescaler 1 with its count at 0xFFFF, reload 0xFFF0 and the
  interrupt flag set; timer 1 enabled in count-up mode at count 5; timer 2 disabled; timer 3
  enabled in count-up mode at count 7.
\<close>

definition timers_cascade :: GBAMemory where
  "timers_cascade =
     (GBAMemory_init (\<lambda>_. 0) 0)\<lparr>m_Timer :=
        (\<lambda>_. Timer_init)
        (0 := Timer_init\<lparr>tm_count := 0xFFFF, reload := 0xFFF0, tm_enable := True,
                           tm_interrupt := True\<rparr>,
         1 := Timer_init\<lparr>tm_count := 5, tm_enable := True, countup := True\<rparr>,
         3 := Timer_init\<lparr>tm_count := 7, tm_enable := True, countup := True\<rparr>)\<rparr>"

text \<open>The same with timer 1 disabled and timer 2 enabled in count-up mode at count 7.\<close>

definition timers_gap :: GBAMemory where
  "timers_gap =
     (GBAMemory_init (\<lambda>_. 0) 0)\<lparr>m_Timer :=
        (\<lambda>_. Timer_init)
        (0 := Timer_init\<lparr>tm_count := 0xFFFF, reload := 0xFFF0, tm_enable := True,
                           tm_interrupt := True\<rparr>,
         1 := Timer_init\<lparr>tm_count := 5, countup := True\<rparr>,
         2 := Timer_init\<lparr>tm_count := 7, tm_enable := True, countup := True\<rparr>)\<rparr>"

text \<open>
  What the pass for timer 0 makes of \<open>timers_gap\<close>: timer 0 has reloaded and its interrupt
  bit is raised.
\<close>

definition timers_after_0 :: GBAMemory where
  "timers_after_0 =
     (GBAMemory_init (\<lambda>_. 0) 0)\<lparr>m_Timer :=
        (\<lambda>_. Timer_init)
        (0 := Timer_init\<lparr>tm_count := 0xFFF0, reload := 0xFFF0, tm_enable := True,
                           tm_interrupt := True\<rparr>,
         1 := Timer_init\<lparr>tm_count := 5, countup := True\<rparr>,
         2 := Timer_init\<lparr>tm_count := 7, tm_enable := True, countup := True\<rparr>),
        m_Interrupt := GBAInterrupt_init\<lparr>if' := 0x08\<rparr>\<rparr>"

section \<open>Decoding of the reference registers\<close>

text \<open>
  The conversion of a decoded word to \<open>u16\<close> is defined exactly when the bits 24 to 27 of
  the word are clear, and it is then the word without its fraction byte, cut to 16 bits. A
  word below 65536, as \<open>Step\<close> decodes it, is such a word.
\<close>

lemma truncated_nonneg: "0 \<le> n \<Longrightarrow> 0 \<le> f \<Longrightarrow> f < 256 \<Longrightarrow> truncated (256 * n + f) = n"
  by (simp add: truncated_def)

lemma truncated_neg: "n < 0 \<Longrightarrow> 0 \<le> f \<Longrightarrow> f < 256 \<Longrightarrow> truncated (256 * n - f) = n"
proof -
  assume a: "n < 0" "0 \<le> f" "f < 256"
  then have "256 * n - f < 0" by simp
  moreover have "(- (256 * n - f)) div 256 = - n"
  proof -
    have "- (256 * n - f) = f + (- n) * 256" by simp
    moreover have "(f + (- n) * 256) div 256 = (- n) + f div 256"
      by (rule div_mult_self1) simp
    moreover have "f div 256 = 0" using a by simp
    ultimately show ?thesis by simp
  qed
  ultimately show ?thesis by (simp add: truncated_def)
qed

lemma frac_bound: "0 \<le> uint (w AND 0xFF)" "uint (w AND 0xFF) < 256" for w :: u32
proof -
  have "w AND 0xFF \<le> 0xFF" by (rule word_and_le1)
  then show "uint (w AND 0xFF) < 256" by (simp add: word_le_def)
qed simp

lemma low28: "(NOT 0xF0000000 :: u32) = mask 28"
  by (simp add: mask_eq_exp_minus_1)

lemma nibble6: "(0x0F000000 :: u32) = push_bit 24 (mask 4)"
  by (simp add: mask_eq_exp_minus_1)

lemma sign_ext: "(0xFFF00000 :: u32) = NOT (mask 20)"
  by (simp add: mask_eq_exp_minus_1)

lemma nibble6_bits:
  fixes w :: u32
  shows "(w AND 0x0F000000 = 0) = (\<forall>n. 24 \<le> n \<and> n < 28 \<longrightarrow> \<not> bit w n)"
proof
  assume z: "w AND 0x0F000000 = 0"
  show "\<forall>n. 24 \<le> n \<and> n < 28 \<longrightarrow> \<not> bit w n"
  proof (intro allI impI notI)
    fix n assume "24 \<le> n \<and> n < 28" and "bit w n"
    then have "bit (w AND push_bit 24 (mask 4)) n" by (auto simp: bit_simps)
    with z show False by (simp add: nibble6)
  qed
next
  assume b: "\<forall>n. 24 \<le> n \<and> n < 28 \<longrightarrow> \<not> bit w n"
  show "w AND 0x0F000000 = 0"
    unfolding nibble6
  proof (rule bit_word_eqI)
    fix n assume "n < LENGTH(32)"
    have "\<not> bit w n" if "24 \<le> n" "n - 24 < 4"
    proof -
      from that have "24 \<le> n \<and> n < 28" by linarith
      with b show ?thesis by blast
    qed
    then show "bit (w AND push_bit 24 (mask 4)) n = bit (0 :: u32) n"
      by (auto simp: bit_simps)
  qed
qed

lemma is_negative_bit: "(w AND push_bit 27 1 \<noteq> 0) = bit w 27" for w :: u32
  using and_exp_eq_0_iff_not_bit [of w 27] by simp

lemma sint_of_u16: "sint (ucast y :: u32) = uint y" for y :: u16
proof -
  have "uint y < 2 ^ 16" using uint_lt2p [of y] by simp
  then have "uint y < 2 ^ 31" by simp
  moreover have "- (2 ^ 31) \<le> uint y"
  proof -
    have "- (2 ^ 31) \<le> (0 :: int)" by simp
    then show ?thesis using uint_nonnegative [of y] by (rule order_trans)
  qed
  ultimately have "signed_take_bit 31 (uint y) = uint y"
    by (rule signed_take_bit_int_eq_self [rotated])
  then show ?thesis
    by (simp add: signed_ucast_eq)
qed

lemma int_part_in_range:
  fixes w :: u32
  assumes "w AND 0x0F000000 = 0"
  shows "drop_bit 8 (w AND NOT 0xF0000000) = ucast (ucast (drop_bit 8 w) :: u16)"
proof (rule bit_word_eqI)
  fix n assume "n < LENGTH(32)"
  have b: "\<not> bit w k" if "24 \<le> k" "k < 28" for k
    using assms that by (simp add: nibble6_bits)
  show "bit (drop_bit 8 (w AND NOT 0xF0000000)) n = bit (ucast (ucast (drop_bit 8 w) :: u16) :: u32) n"
  proof (cases "16 \<le> n")
    case True
    then have "\<not> bit w (8 + n) \<or> \<not> n < 20" using b [of "8 + n"] by auto
    then show ?thesis unfolding low28 using True by (auto simp: bit_simps)
  next
    case False
    then show ?thesis unfolding low28 by (auto simp: bit_simps)
  qed
qed

lemma DecodeGBAFloat32_in_range:
  fixes w :: u32
  assumes "w AND 0x0F000000 = 0"
  shows "DecodeGBAFloat32 w = 256 * uint (ucast (drop_bit 8 w) :: u16) + uint (w AND 0xFF)"
proof -
  have "\<not> bit w 27" using assms by (simp add: nibble6_bits)
  then have n: "\<not> (w AND push_bit 27 1 \<noteq> 0)" using is_negative_bit [of w] by simp
  show ?thesis
    unfolding DecodeGBAFloat32_def Let_def int_part_in_range [OF assms]
    using n by (simp add: sint_of_u16)
qed

lemma DecodeGBAFloat32_defined:
  fixes w :: u32
  assumes "w AND 0x0F000000 = 0"
  shows "float_fits_u16 (DecodeGBAFloat32 w)"
    and "float_to_u16 (DecodeGBAFloat32 w) = ucast (drop_bit 8 w)"
proof -
  let ?y = "ucast (drop_bit 8 w) :: u16"
  have t: "truncated (DecodeGBAFloat32 w) = uint ?y"
    unfolding DecodeGBAFloat32_in_range [OF assms]
    by (rule truncated_nonneg) (simp_all add: frac_bound)
  have "uint ?y < 2 ^ 16" using uint_lt2p [of ?y] by simp
  then show "float_fits_u16 (DecodeGBAFloat32 w)"
    by (simp add: float_fits_u16_def t)
  show "float_to_u16 (DecodeGBAFloat32 w) = ucast (drop_bit 8 w)"
    by (simp add: float_to_u16_def t)
qed

lemma latch_ref_defined:
  "float_fits_u16 (DecodeGBAFloat32 (ucast (x_ref b)))"
  "float_fits_u16 (DecodeGBAFloat32 (ucast (y_ref b)))"
  "latch_ref b = b\<lparr>x_ref_int := drop_bit 8 (x_ref b), y_ref_int := drop_bit 8 (y_ref b)\<rparr>"
proof -
  have z: "(ucast h :: u32) AND 0x0F000000 = 0" for h :: u16
    by (auto simp: nibble6_bits bit_simps dest: bit_imp_le_length)
  have d: "(ucast (drop_bit 8 (ucast h :: u32)) :: u16) = drop_bit 8 h" for h :: u16
    by (rule bit_word_eqI) (auto simp: bit_simps dest: bit_imp_le_length)
  show "float_fits_u16 (DecodeGBAFloat32 (ucast (x_ref b)))"
    "float_fits_u16 (DecodeGBAFloat32 (ucast (y_ref b)))"
    by (rule DecodeGBAFloat32_defined(1) [OF z])+
  show "latch_ref b = b\<lparr>x_ref_int := drop_bit 8 (x_ref b), y_ref_int := drop_bit 8 (y_ref b)\<rparr>"
    by (simp add: latch_ref_def DecodeGBAFloat32_defined(2) [OF z] d)
qed


lemma DecodeGBAFloat32_negative:
  fixes w :: u32
  assumes "bit w 27"
  shows "\<not> float_fits_u16 (DecodeGBAFloat32 w)"
proof -
  let ?i = "sint (drop_bit 8 (w AND NOT 0xF0000000) OR 0xFFF00000)"
  have "bit (drop_bit 8 (w AND NOT 0xF0000000) OR 0xFFF00000) (LENGTH(32) - Suc 0)"
    unfolding sign_ext by (simp add: bit_simps)
  then have i: "?i < 0" by (simp only: bit_last_iff)
  have "DecodeGBAFloat32 w = 256 * ?i - uint (w AND 0xFF)"
    using assms is_negative_bit [of w] by (simp add: DecodeGBAFloat32_def Let_def)
  then have "truncated (DecodeGBAFloat32 w) = ?i"
    using truncated_neg [OF i frac_bound, of w] by simp
  then show ?thesis using i by (simp add: float_fits_u16_def)
qed

lemma DecodeGBAFloat32_large:
  fixes w :: u32
  assumes "\<not> bit w 27" and "bit w k" and "24 \<le> k" and "k < 27"
  shows "\<not> float_fits_u16 (DecodeGBAFloat32 w)"
proof -
  let ?X = "drop_bit 8 (w AND NOT 0xF0000000)"
  have "\<not> bit ?X (LENGTH(32) - Suc 0)"
    unfolding low28 by (simp add: bit_simps)
  then have "0 \<le> sint ?X" by (simp only: bit_last_iff)
  moreover have "sint ?X < 2 ^ 32" using sint_less [of ?X] by simp
  ultimately have "take_bit 32 (sint ?X) = sint ?X" by (rule take_bit_int_eq_self)
  then have u: "sint ?X = uint ?X" using uint_sint [of ?X] by simp
  have "bit ?X (k - 8)"
    unfolding low28 using assms by (simp add: bit_simps)
  have g: "\<not> uint ?X < 2 ^ 16"
  proof
    assume "uint ?X < 2 ^ 16"
    then have "?X AND mask 16 = ?X" by (simp only: mask_eq_iff)
    then have "bit (?X AND mask 16) (k - 8)" using \<open>bit ?X (k - 8)\<close> by simp
    then have "k - 8 < 16" by (simp only: bit_and_iff bit_mask_iff)
    with assms(3) show False by linarith
  qed
  have n: "(w AND push_bit 27 1 \<noteq> 0) = False"
    using assms(1) is_negative_bit [of w] by simp
  have o: "?X OR 0 = ?X" by simp
  have "DecodeGBAFloat32 w = 256 * uint ?X + uint (w AND 0xFF)"
    unfolding DecodeGBAFloat32_def Let_def n if_False o u by (rule refl)
  then have "truncated (DecodeGBAFloat32 w) = uint ?X"
    using truncated_nonneg [OF _ frac_bound, of "uint ?X" w] by simp
  then show ?thesis using g by (simp add: float_fits_u16_def)
qed

lemma DecodeGBAFloat32_fits:
  "float_fits_u16 (DecodeGBAFloat32 w) = (w AND 0x0F000000 = 0)"
proof (cases "w AND 0x0F000000 = 0")
  case True
  then show ?thesis by (simp add: DecodeGBAFloat32_defined(1))
next
  case False
  then obtain k where k: "24 \<le> k" "k < 28" "bit w k"
    by (auto simp: nibble6_bits)
  have "\<not> float_fits_u16 (DecodeGBAFloat32 w)"
  proof (cases "bit w 27")
    case True
    then show ?thesis by (rule DecodeGBAFloat32_negative)
  next
    case n: False
    with k have "k \<noteq> 27" by auto
    with k have "k < 27" by simp
    from DecodeGBAFloat32_large [OF n k(3) k(1) this] show ?thesis .
  qed
  with False show ?thesis by simp
qed

lemma ref_write_defined:
  "(\<exists>b'. ref_x_write n v b = Inr b') = (set_byte32 (ucast (x_ref b)) n v AND 0x0F000000 = 0)"
  "(\<exists>b'. ref_y_write n v b = Inr b') = (set_byte32 (ucast (y_ref b)) n v AND 0x0F000000 = 0)"
  by (simp_all add: ref_x_write_def ref_y_write_def Let_def DecodeGBAFloat32_fits)

section \<open>Helper facts about the bus\<close>

declare WriteByte.simps [simp del] WriteHWord.simps [simp del]

lemmas IOWrite_defs =
  IOWrite_def IOWrite_bg_def IOWrite_window_def IOWrite_dma_def IOWrite_system_def io_regs

lemma m_Timer_upd [simp]:
  "m_Timer (upd_Timer n f s) = (m_Timer s)(n := f (m_Timer s n))"
  "m_Timer (upd_Interrupt g s) = m_Timer s"
  "m_Timer (upd_Waitstate h s) = m_Timer s"
  "m_Timer (upd_DMA n k s) = m_Timer s"
  "m_Timer (upd_Video q s) = m_Timer s"
  "m_Timer (upd_BG n b s) = m_Timer s"
  "m_Timer (upd_Win n w s) = m_Timer s"
  by (simp_all add: upd_Timer_def upd_Interrupt_def upd_Waitstate_def upd_DMA_def
      upd_Video_def upd_BG_def upd_Win_def)

lemma drop_bit_24_aligned: "drop_bit 24 (offset AND NOT 1) = drop_bit 24 offset"
  for offset :: u32
proof (rule bit_word_eqI)
  fix n assume "n < LENGTH(32)"
  have m: "(255::u32) = mask 8" by (simp add: mask_eq_exp_minus_1)
  have "bit offset (24 + n) \<Longrightarrow> n < 8"
    using bit_imp_le_length [of offset "24 + n"] by simp
  then show "bit (drop_bit 24 (offset AND NOT 1)) n = bit (drop_bit 24 offset) n"
    by (auto simp: bit_simps m)
qed

lemma bytes_of_hword:
  "(((r AND 0xFF00) OR ucast (ucast (h AND 0xFF) :: u8)) AND 0xFF)
     OR push_bit 8 (ucast (ucast (drop_bit 8 h AND 0xFF) :: u8)) = h"
  for r h :: u16
proof (rule bit_word_eqI)
  fix n assume n: "n < LENGTH(16)"
  have m: "(255::u16) = mask 8" "(0xFF00::u16) = push_bit 8 (mask 8)"
    by (simp_all add: mask_eq_exp_minus_1)
  show "bit ((((r AND 0xFF00) OR ucast (ucast (h AND 0xFF) :: u8)) AND 0xFF)
     OR push_bit 8 (ucast (ucast (drop_bit 8 h AND 0xFF) :: u8))) n = bit h n"
    using n unfolding m by (auto simp: bit_simps)
qed

lemma low_half: "(ucast (w AND 0xFFFF) :: u16) = ucast w" for w :: u32
proof (rule bit_word_eqI)
  fix n assume n: "n < LENGTH(16)"
  have m: "(0xFFFF::u32) = mask 16" by (simp add: mask_eq_exp_minus_1)
  show "bit (ucast (w AND 0xFFFF) :: u16) n = bit (ucast w :: u16) n"
    using n unfolding m by (auto simp: bit_simps)
qed

lemma bit23: "(w AND 8388608 \<noteq> 0) = bit w 23" for w :: u32
proof -
  have "(8388608 :: u32) = push_bit 23 1" by simp
  then show ?thesis by (simp only: bit_iff_and_push_bit_not_eq_0)
qed

lemma flag128: "flag v 128 = bit v 7"
proof -
  have "(128 :: u8) = push_bit 7 1" by simp
  then show ?thesis unfolding flag_def by (simp only: bit_iff_and_push_bit_not_eq_0)
qed

lemma bit23_flag: "flag (ucast ((ucast (drop_bit 16 w) :: u16) AND 255)) 128 = bit w 23"
  for w :: u32
proof -
  have m: "(0xFF::u16) = mask 8" by (simp add: mask_eq_exp_minus_1)
  show ?thesis unfolding flag128 m by (simp add: bit_simps)
qed

lemma below4: "k < 4 \<Longrightarrow> k = 0 \<or> k = 1 \<or> k = 2 \<or> k = (3::nat)"
  by linarith

subsection \<open>No byte or halfword write touches a timer count\<close>

lemma IOWrite_system_count:
  "tm_count (m_Timer (IOWrite_system io v s) i) = tm_count (m_Timer s i)"
  by (simp add: IOWrite_system_def Let_def io_regs)

lemma IOWrite_dma_count:
  "tm_count (m_Timer (IOWrite_dma io v s) i) = tm_count (m_Timer s i)"
  by (simp add: IOWrite_dma_def IOWrite_system_count)

lemma IOWrite_window_count:
  "tm_count (m_Timer (IOWrite_window io v s) i) = tm_count (m_Timer s i)"
  by (simp add: IOWrite_window_def IOWrite_dma_count)

lemma ref_BG_Timer: "ref_BG n f s = Inr s' \<Longrightarrow> m_Timer s' = m_Timer s"
  by (auto simp: ref_BG_def upd_BG_def upd_Video_def split: sum.splits)

lemma IOWrite_bg_count:
  "IOWrite_bg io v s = Inr s' \<Longrightarrow> tm_count (m_Timer s' i) = tm_count (m_Timer s i)"
  by (auto simp: IOWrite_bg_def IOWrite_window_count Let_def dest: ref_BG_Timer
      split: if_splits)

lemma IOWrite_count:
  "IOWrite io v s = Inr s' \<Longrightarrow> tm_count (m_Timer s' i) = tm_count (m_Timer s i)"
  by (auto simp: IOWrite_def Let_def dest: IOWrite_bg_count split: if_splits)

lemma WriteHWord_video_Timer:
  assumes "drop_bit 24 a AND 0xF = 5 \<or> drop_bit 24 a AND 0xF = 6 \<or> drop_bit 24 a AND 0xF = 7"
    and "WriteHWord s a h = Inr s'"
  shows "m_Timer s' = m_Timer s"
  using assms
  by (auto simp: WriteHWord.simps Let_def VRAM_store16_def split: if_splits)

lemma WriteByte_video:
  assumes "drop_bit 24 a = 5 \<or> drop_bit 24 a = 6 \<or> drop_bit 24 a = 7"
  shows "WriteByte s a b = WriteHWord s (a AND NOT 1) (push_bit 8 (ucast b) OR ucast b)"
    and "drop_bit 24 (a AND NOT 1) AND 0xF = drop_bit 24 a"
  using assms by (auto simp: WriteByte.simps Let_def drop_bit_24_aligned)

lemma WriteByte_count:
  assumes "WriteByte s a b = Inr s'"
  shows "tm_count (m_Timer s' i) = tm_count (m_Timer s i)"
proof (cases "drop_bit 24 a = 5 \<or> drop_bit 24 a = 6 \<or> drop_bit 24 a = 7")
  case True
  from WriteByte_video [OF True] assms
  have "WriteHWord s (a AND NOT 1) (push_bit 8 (ucast b) OR ucast b) = Inr s'"
    and "drop_bit 24 (a AND NOT 1) AND 0xF = 5 \<or> drop_bit 24 (a AND NOT 1) AND 0xF = 6
      \<or> drop_bit 24 (a AND NOT 1) AND 0xF = 7"
    using True by simp_all
  from WriteHWord_video_Timer [OF this(2) this(1)] show ?thesis by simp
next
  case False
  then show ?thesis
    using assms
    by (auto simp: WriteByte.simps Let_def dest: IOWrite_count split: if_splits option.splits)
qed

lemma WriteHWord_bytes:
  assumes "\<not> (drop_bit 24 a AND 0xF = 5 \<or> drop_bit 24 a AND 0xF = 6
             \<or> drop_bit 24 a AND 0xF = 7)"
  shows "WriteHWord s a h =
     (case WriteByte s a (ucast (h AND 0xFF)) of
        Inl e \<Rightarrow> Inl e
      | Inr s1 \<Rightarrow> WriteByte s1 (a + 1) (ucast (drop_bit 8 h AND 0xFF)))"
  using assms by (simp add: WriteHWord.simps Let_def)

lemma WriteHWord_count:
  assumes "WriteHWord s a h = Inr s'"
  shows "tm_count (m_Timer s' i) = tm_count (m_Timer s i)"
proof (cases "drop_bit 24 a AND 0xF = 5 \<or> drop_bit 24 a AND 0xF = 6 \<or> drop_bit 24 a AND 0xF = 7")
  case True
  from WriteHWord_video_Timer [OF this assms] show ?thesis by simp
next
  case False
  then obtain s1 where 1: "WriteByte s a (ucast (h AND 0xFF)) = Inr s1"
    and 2: "WriteByte s1 (a + 1) (ucast (drop_bit 8 h AND 0xFF)) = Inr s'"
    using assms by (auto simp: WriteHWord_bytes split: sum.splits)
  show ?thesis using WriteByte_count [OF 1] WriteByte_count [OF 2] by simp
qed

subsection \<open>Writes to the timer registers\<close>

lemma WriteByte_TM_L:
  "k < 4 \<Longrightarrow> WriteByte s (0x04000100 + 4 * of_nat k) b =
     Inr (upd_Timer k (\<lambda>t. t\<lparr>reload := (reload t AND 0xFF00) OR ucast b\<rparr>) s)"
  by (drule below4, elim disjE; hypsubst; simp add: WriteByte.simps Let_def IOWrite_defs)

lemma WriteByte_TM_L1:
  "k < 4 \<Longrightarrow> WriteByte s (0x04000100 + 4 * of_nat k + 1) b =
     Inr (upd_Timer k (\<lambda>t. t\<lparr>reload := (reload t AND 0x00FF) OR push_bit 8 (ucast b)\<rparr>) s)"
  by (drule below4, elim disjE; hypsubst; simp add: WriteByte.simps Let_def IOWrite_defs)

lemma WriteByte_TM_H:
  "k < 4 \<Longrightarrow> WriteByte s (0x04000100 + 4 * of_nat k + 2) b =
     Inr (upd_Timer k (\<lambda>t. t\<lparr>clock := uint (b AND 3), countup := flag b 4,
                             tm_interrupt := flag b 64, tm_enable := flag b 128\<rparr>) s)"
  by (drule below4, elim disjE; hypsubst; simp add: WriteByte.simps Let_def IOWrite_defs)

lemma WriteByte_TM_H1:
  "k < 4 \<Longrightarrow> WriteByte s (0x04000100 + 4 * of_nat k + 3) b = Inr s"
  by (drule below4, elim disjE; hypsubst; simp add: WriteByte.simps Let_def IOWrite_defs)

lemma WriteHWord_TM_L:
  "k < 4 \<Longrightarrow> WriteHWord s (0x04000100 + 4 * of_nat k) h =
     Inr (upd_Timer k (\<lambda>t. t\<lparr>reload := h\<rparr>) s)"
  by (drule below4, elim disjE; hypsubst;
      simp add: WriteHWord.simps WriteByte.simps Let_def IOWrite_defs upd_Timer_def
        bytes_of_hword)

lemma WriteWord_TM:
  "k < 4 \<Longrightarrow> \<exists>s'. WriteWord s (0x04000100 + 4 * of_nat k) w = Inr s' \<and>
     reload (m_Timer s' k) = ucast w \<and>
     tm_count (m_Timer s' k) =
       (if bit w 23 then reload (m_Timer s' k) else tm_count (m_Timer s k))"
  by (drule below4, elim disjE; hypsubst;
      simp add: WriteWord_def WriteHWord.simps WriteByte.simps Let_def IOWrite_defs
        upd_Timer_def bytes_of_hword bit23 low_half)

lemma WriteWord_count:
  assumes "WriteWord s a u = Inr s'"
    and "\<not> (bit u 23 \<and> i < 4 \<and> a = 0x04000100 + 4 * of_nat i)"
  shows "tm_count (m_Timer s' i) = tm_count (m_Timer s i)"
proof -
  from assms(1) obtain s1 s2 where 1: "WriteHWord s a (ucast (u AND 0xFFFF)) = Inr s1"
    and 2: "WriteHWord s1 (a + 2) (ucast (drop_bit 16 u AND 0xFFFF)) = Inr s2"
    by (auto simp: WriteWord_def split: sum.splits)
  have c: "tm_count (m_Timer s2 i) = tm_count (m_Timer s i)"
    using WriteHWord_count [OF 1] WriteHWord_count [OF 2] by simp
  have e: "s' =
     (if bit u 23 then
        (if a = 0x04000100 then upd_Timer 0 (\<lambda>t. t\<lparr>tm_count := reload t\<rparr>) s2
         else if a = 0x04000104 then upd_Timer 1 (\<lambda>t. t\<lparr>tm_count := reload t\<rparr>) s2
         else if a = 0x04000108 then upd_Timer 2 (\<lambda>t. t\<lparr>tm_count := reload t\<rparr>) s2
         else if a = 0x0400010C then upd_Timer 3 (\<lambda>t. t\<lparr>tm_count := reload t\<rparr>) s2
         else s2)
      else s2)"
    using assms(1) 1 2 by (auto simp add: WriteWord_def bit23 io_regs)
  have n: "bit u 23 \<Longrightarrow> a = 0x04000100 \<Longrightarrow> i \<noteq> 0"
    "bit u 23 \<Longrightarrow> a = 0x04000104 \<Longrightarrow> i \<noteq> 1"
    "bit u 23 \<Longrightarrow> a = 0x04000108 \<Longrightarrow> i \<noteq> 2"
    "bit u 23 \<Longrightarrow> a = 0x0400010C \<Longrightarrow> i \<noteq> 3"
    by (rule notI, insert assms(2), simp)+
  show ?thesis
    unfolding e using c n by (auto split: if_splits)
qed

subsection \<open>Halfword writes to palette RAM, VRAM and OAM\<close>

lemma m_Video_upd [simp]: "m_Video (upd_Video f s) = f (m_Video s)"
  by (simp add: upd_Video_def)

lemma byte_lanes:
  "(ucast (h AND 0xFF) :: u8) = ucast h"
  "(ucast (drop_bit 8 h AND 0xFF) :: u8) = ucast (drop_bit 8 h)"
  for h :: u16
proof -
  have m: "(0xFF::u16) = mask 8" by (simp add: mask_eq_exp_minus_1)
  show "(ucast (h AND 0xFF) :: u8) = ucast h"
    unfolding m by (rule bit_word_eqI) (auto simp: bit_simps)
  show "(ucast (drop_bit 8 h AND 0xFF) :: u8) = ucast (drop_bit 8 h)"
    unfolding m by (rule bit_word_eqI) (auto simp: bit_simps)
qed

lemma VRAM_store16_eq:
  "VRAM_store16 io h s =
     (if VRAM_index io + 1 \<ge> 0x18000 then Inl OutOfBounds
      else Inr (upd_Video (\<lambda>vd. vd\<lparr>m_VRAM := (m_VRAM vd)
             (VRAM_index io := ucast h, VRAM_index io + 1 := ucast (drop_bit 8 h))\<rparr>) s))"
  by (simp add: VRAM_store16_def VRAM_index_def Let_def byte_lanes)

lemma WriteHWord_PAL:
  "drop_bit 24 a AND 0xF = 5 \<Longrightarrow>
   WriteHWord s a h = Inr (upd_Video (\<lambda>vd. vd\<lparr>m_PAL := (m_PAL vd)
       (unat ((a AND 0xFFFFFF) mod 0x400) := ucast h,
        unat (((a AND 0xFFFFFF) + 1) mod 0x400) := ucast (drop_bit 8 h))\<rparr>) s)"
  by (simp add: WriteHWord.simps Let_def byte_lanes)

lemma WriteHWord_OAM:
  "drop_bit 24 a AND 0xF = 7 \<Longrightarrow>
   WriteHWord s a h = Inr (upd_Video (\<lambda>vd. vd\<lparr>m_OAM := (m_OAM vd)
       (unat ((a AND 0xFFFFFF) mod 0x400) := ucast h,
        unat (((a AND 0xFFFFFF) + 1) mod 0x400) := ucast (drop_bit 8 h))\<rparr>) s)"
  by (simp add: WriteHWord.simps Let_def byte_lanes)

lemma WriteHWord_VRAM:
  "drop_bit 24 a AND 0xF = 6 \<Longrightarrow>
   WriteHWord s a h = VRAM_store16 (a AND 0xFFFFFF) h s"
  by (simp add: WriteHWord.simps Let_def)

section \<open>Interrupt entry\<close>

lemma irq_cpsr_mode: "((x AND - 64) OR Mode_IRQ OR IRQDisable) AND 0x1F = Mode_IRQ"
  for x :: u32
  unfolding Mode_IRQ_def IRQDisable_def
  by (simp add: bit.conj_disj_distrib2 and.assoc)

lemma irq_cpsr_I_set: "((x AND - 64) OR Mode_IRQ OR IRQDisable) AND IRQDisable = IRQDisable"
  for x :: u32
  unfolding Mode_IRQ_def IRQDisable_def
  by (simp add: bit.conj_disj_distrib2 and.assoc)

lemma irq_cpsr_T_clear: "((x AND - 64) OR Mode_IRQ OR IRQDisable) AND Thumb = 0"
  for x :: u32
  unfolding Mode_IRQ_def IRQDisable_def Thumb_def
  by (simp add: bit.conj_disj_distrib2 and.assoc)

lemma RemapRegisters_IRQ:
  "cpsr c AND 0x1F = Mode_IRQ \<Longrightarrow>
   RemapRegisters c = remap R8 R9 R10 R11 R12 R13_irq R14_irq SPSR_irq c"
  by (simp add: RemapRegisters_def Mode_IRQ_def Mode_User_def Mode_FIQ_def)

lemma FireIRQ_taken:
  assumes "cpsr c AND IRQDisable = 0"
  shows "FireIRQ c =
     remap R8 R9 R10 R11 R12 R13_irq R14_irq SPSR_irq
       (c\<lparr>r14_irq := r15 c - (if cpsr c AND Thumb \<noteq> 0 then 4 else 8) + 4,
          spsr_irq := cpsr c,
          cpsr := (cpsr c AND NOT 0x3F) OR Mode_IRQ OR IRQDisable\<rparr>)
       \<lparr>r15 := 0x18, pipe_status := 0\<rparr>"
  using assms by (simp add: FireIRQ_def Let_def RemapRegisters_IRQ irq_cpsr_mode)

text \<open>
  C7. When the I bit of CPSR is clear, \<open>FireIRQ\<close> stores in \<open>r14_irq\<close> the address of the
  executing instruction (\<open>r15\<close> less the pipeline lead, 4 in Thumb and 8 in ARM state) plus 4,
  stores the old CPSR in \<open>spsr_irq\<close>, leaves the mode field at IRQ with r13/r14 mapped to
  the IRQ bank, sets I, clears T, puts 0x18 in \<open>r15\<close> and resets \<open>pipe_status\<close> to 0.
  When the I bit is set, the CPU state is returned as it was.
\<close>

theorem FireIRQ_entry:
  "(cpsr c AND IRQDisable = 0 \<longrightarrow>
      r14_irq (FireIRQ c) = (r15 c - (if cpsr c AND Thumb \<noteq> 0 then 4 else 8)) + 4 \<and>
      spsr_irq (FireIRQ c) = cpsr c \<and>
      cpsr (FireIRQ c) AND 0x1F = Mode_IRQ \<and>
      gprs (FireIRQ c) 13 = R13_irq \<and> gprs (FireIRQ c) 14 = R14_irq \<and>
      pspsr (FireIRQ c) = SPSR_irq \<and>
      cpsr (FireIRQ c) AND IRQDisable = IRQDisable \<and>
      cpsr (FireIRQ c) AND Thumb = 0 \<and>
      r15 (FireIRQ c) = 0x18 \<and>
      pipe_status (FireIRQ c) = 0) \<and>
   (cpsr c AND IRQDisable \<noteq> 0 \<longrightarrow> FireIRQ c = c)"
proof (intro conjI impI)
  assume "cpsr c AND IRQDisable \<noteq> 0"
  then show "FireIRQ c = c" by (simp add: FireIRQ_def)
qed (simp_all add: FireIRQ_taken remap_def irq_cpsr_mode irq_cpsr_I_set irq_cpsr_T_clear)

theorem FireIRQ_entry_witness:
  "cpsr (ARM7_init False) AND IRQDisable = 0 \<and>
   r14_irq (FireIRQ (ARM7_init False)) = 0x7FFFFFC \<and>
   spsr_irq (FireIRQ (ARM7_init False)) = 0x1F \<and>
   cpsr (FireIRQ (ARM7_init False)) AND 0x1F = 0x12 \<and>
   r15 (FireIRQ (ARM7_init False)) = 0x18 \<and>
   cpsr (FireIRQ (ARM7_init False)) AND IRQDisable \<noteq> 0 \<and>
   FireIRQ (FireIRQ (ARM7_init False)) = FireIRQ (ARM7_init False)"
proof -
  have i: "cpsr (ARM7_init False) AND IRQDisable = 0"
    by (simp add: ARM7_init_def ARM7_zero_def Let_def RemapRegisters_def remap_def
        Mode_System_def Mode_User_def Mode_FIQ_def Mode_IRQ_def Mode_SVC_def
        Mode_Abort_def Mode_Undefined_def IRQDisable_def)
  have t: "cpsr (ARM7_init False) AND Thumb = 0"
    by (simp add: ARM7_init_def ARM7_zero_def Let_def RemapRegisters_def remap_def
        Mode_System_def Mode_User_def Mode_FIQ_def Mode_IRQ_def Mode_SVC_def
        Mode_Abort_def Mode_Undefined_def Thumb_def)
  have c: "cpsr (ARM7_init False) = 0x1F"
    by (simp add: ARM7_init_def ARM7_zero_def Let_def RemapRegisters_def remap_def
        Mode_System_def Mode_User_def Mode_FIQ_def Mode_IRQ_def Mode_SVC_def
        Mode_Abort_def Mode_Undefined_def)
  have p: "r15 (ARM7_init False) = 0x8000000"
    by (simp add: ARM7_init_def Let_def)
  have d: "cpsr (FireIRQ (ARM7_init False)) AND IRQDisable \<noteq> 0"
    using FireIRQ_entry [of "ARM7_init False"] i by (simp add: IRQDisable_def)
  show ?thesis
    using FireIRQ_entry [of "ARM7_init False"] FireIRQ_entry [of "FireIRQ (ARM7_init False)"]
      i t c p d
    by (simp add: Mode_IRQ_def)
qed


section \<open>BIOS reads and writes to read-only regions\<close>

lemma WriteByte_BIOS_ROM: "in_BIOS_or_ROM a \<Longrightarrow> WriteByte s a v = Inr s"
  unfolding in_BIOS_or_ROM_def
  by (elim disjE; simp add: WriteByte.simps Let_def)

lemma in_BIOS_or_ROM_nibble:
  "in_BIOS_or_ROM a \<Longrightarrow>
   \<not> (drop_bit 24 a AND 0xF = 5 \<or> drop_bit 24 a AND 0xF = 6 \<or> drop_bit 24 a AND 0xF = 7)"
  unfolding in_BIOS_or_ROM_def
  by (elim disjE; simp)

lemma WriteHWord_BIOS_ROM:
  assumes "in_BIOS_or_ROM a" and "in_BIOS_or_ROM (a + 1)"
  shows "WriteHWord s a h = Inr s"
  unfolding WriteHWord_bytes [OF in_BIOS_or_ROM_nibble [OF assms(1)]]
  by (simp add: WriteByte_BIOS_ROM [OF assms(1)] WriteByte_BIOS_ROM [OF assms(2)])

lemma in_BIOS_or_ROM_page: "in_BIOS_or_ROM a \<Longrightarrow> drop_bit 24 a \<noteq> 4"
  unfolding in_BIOS_or_ROM_def by (elim disjE; simp)

lemma timer_page:
  "drop_bit 24 (TM0CNT_L OR 0x04000000) = 4" "drop_bit 24 (TM1CNT_L OR 0x04000000) = 4"
  "drop_bit 24 (TM2CNT_L OR 0x04000000) = 4" "drop_bit 24 (TM3CNT_L OR 0x04000000) = 4"
  by (simp_all add: io_regs)

lemma WriteWord_BIOS_ROM:
  assumes "in_BIOS_or_ROM a" "in_BIOS_or_ROM (a + 1)" "in_BIOS_or_ROM (a + 2)"
    "in_BIOS_or_ROM (a + 3)"
  shows "WriteWord s a w = Inr s"
proof -
  have e: "a + 2 + 1 = a + 3" by simp
  have "in_BIOS_or_ROM (a + 2 + 1)" unfolding e by (rule assms(4))
  from WriteHWord_BIOS_ROM [OF assms(3) this]
  have 2: "WriteHWord s (a + 2) h = Inr s" for h .
  have 1: "WriteHWord s a h = Inr s" for h
    by (rule WriteHWord_BIOS_ROM [OF assms(1,2)])
  have n: "a \<noteq> TM0CNT_L OR 0x04000000" "a \<noteq> TM1CNT_L OR 0x04000000"
    "a \<noteq> TM2CNT_L OR 0x04000000" "a \<noteq> TM3CNT_L OR 0x04000000"
    using in_BIOS_or_ROM_page [OF assms(1)] timer_page by auto
  show ?thesis
    by (simp add: WriteWord_def 1 2 n)
qed

lemma ReadByte_BIOS:
  "drop_bit 24 a = 0 \<or> drop_bit 24 a = 1 \<Longrightarrow>
   ReadByte s a = (if a AND 0xFFFFFF \<ge> 0x4000 then 0 else m_BIOS s (unat (a AND 0xFFFFFF)))"
  by (elim disjE; simp add: ReadByte_def Let_def)

text \<open>
  C5, as the code has it. A byte read in the regions 0 and 1 returns 0 when the offset is
  0x4000 or more and the byte of \<open>m_BIOS\<close> at the offset otherwise; the function takes the
  bus and the address only, so the result does not depend on the program counter. A byte
  written to the BIOS region or to a ROM region leaves the whole state of the bus as it
  was, and so do a 16-bit and a 32-bit write all of whose bytes lie in those regions.
\<close>

theorem BIOS_read_and_dropped_writes:
  "(drop_bit 24 a = 0 \<or> drop_bit 24 a = 1 \<longrightarrow>
      (a AND 0xFFFFFF \<ge> 0x4000 \<longrightarrow> ReadByte s a = 0) \<and>
      (a AND 0xFFFFFF < 0x4000 \<longrightarrow> ReadByte s a = m_BIOS s (unat (a AND 0xFFFFFF)))) \<and>
   (in_BIOS_or_ROM a \<longrightarrow> WriteByte s a v = Inr s) \<and>
   (in_BIOS_or_ROM a \<and> in_BIOS_or_ROM (a + 1) \<longrightarrow> WriteHWord s a h = Inr s) \<and>
   (in_BIOS_or_ROM a \<and> in_BIOS_or_ROM (a + 1) \<and> in_BIOS_or_ROM (a + 2) \<and>
    in_BIOS_or_ROM (a + 3) \<longrightarrow> WriteWord s a w = Inr s)"
proof (intro conjI impI)
  assume "drop_bit 24 a = 0 \<or> drop_bit 24 a = 1" and "a AND 0xFFFFFF \<ge> 0x4000"
  then show "ReadByte s a = 0" by (simp add: ReadByte_BIOS)
next
  assume "drop_bit 24 a = 0 \<or> drop_bit 24 a = 1" and "a AND 0xFFFFFF < 0x4000"
  then show "ReadByte s a = m_BIOS s (unat (a AND 0xFFFFFF))"
    by (simp add: ReadByte_BIOS not_le [symmetric])
next
  assume "in_BIOS_or_ROM a"
  then show "WriteByte s a v = Inr s" by (rule WriteByte_BIOS_ROM)
next
  assume "in_BIOS_or_ROM a \<and> in_BIOS_or_ROM (a + 1)"
  then show "WriteHWord s a h = Inr s" by (simp add: WriteHWord_BIOS_ROM)
next
  assume "in_BIOS_or_ROM a \<and> in_BIOS_or_ROM (a + 1) \<and> in_BIOS_or_ROM (a + 2) \<and>
    in_BIOS_or_ROM (a + 3)"
  then show "WriteWord s a w = Inr s" by (simp add: WriteWord_BIOS_ROM)
qed

theorem BIOS_read_and_dropped_writes_witness:
  "drop_bit 24 (0x00004000 :: u32) = 0 \<and> ReadByte (GBAMemory_init (\<lambda>_. 0) 0) 0x00004000 = 0 \<and>
   ReadByte (GBAMemory_init (\<lambda>_. 0) 0) 0x00000003 = 0xEA \<and>
   in_BIOS_or_ROM 0x08000000 \<and>
   WriteByte (GBAMemory_init (\<lambda>_. 0) 0) 0x08000000 0x55 = Inr (GBAMemory_init (\<lambda>_. 0) 0) \<and>
   WriteHWord (GBAMemory_init (\<lambda>_. 0) 0) 0x00000000 0x55AA = Inr (GBAMemory_init (\<lambda>_. 0) 0) \<and>
   WriteWord (GBAMemory_init (\<lambda>_. 0) 0) 0x09000000 0x55AA55AA = Inr (GBAMemory_init (\<lambda>_. 0) 0)"
proof -
  have m: "m_BIOS (GBAMemory_init (\<lambda>_. 0) 0) 3 = 0xEA"
    by (simp add: GBAMemory_init_def hle_bios_def)
  note t = BIOS_read_and_dropped_writes [where s = "GBAMemory_init (\<lambda>_. 0) 0"]
  show ?thesis
    using t [where a = "0x00004000" and v = 0 and h = 0 and w = 0]
      t [where a = "0x00000003" and v = 0 and h = 0 and w = 0]
      t [where a = "0x08000000" and v = "0x55" and h = 0 and w = 0]
      t [where a = "0x00000000" and v = 0 and h = "0x55AA" and w = 0]
      t [where a = "0x09000000" and v = 0 and h = 0 and w = "0x55AA55AA"]
      m
    by (simp add: in_BIOS_or_ROM_def)
qed

text \<open>
  The claim as stated fails at start-up: the constructors leave the program counter at
  0x08000000, outside the BIOS, and the read of address 0 returns the first byte of the
  BIOS stub all the same.
\<close>

theorem BIOS_read_outside_BIOS_counterexample:
  "r15 (ARM7_init False) = 0x08000000 \<and> \<not> r15 (ARM7_init False) < 0x4000 \<and>
   m_BIOS (GBAMemory_init (\<lambda>_. 0) 0) 0 = 0x06 \<and>
   ReadByte (GBAMemory_init (\<lambda>_. 0) 0) 0x00000000 = 0x06"
proof -
  have "r15 (ARM7_init False) = 0x08000000" by (simp add: ARM7_init_def Let_def)
  moreover have "m_BIOS (GBAMemory_init (\<lambda>_. 0) 0) 0 = 0x06"
    by (simp add: GBAMemory_init_def hle_bios_def)
  moreover have "ReadByte (GBAMemory_init (\<lambda>_. 0) 0) 0x00000000 = m_BIOS (GBAMemory_init (\<lambda>_. 0) 0) 0"
    by (simp add: ReadByte_def Let_def)
  ultimately show ?thesis by simp
qed

section \<open>The interrupt flag register\<close>

lemma WriteByte_IF:
  "WriteByte s 0x04000202 v =
     Inr (upd_Interrupt (\<lambda>r. r\<lparr>if' := if' r AND NOT (ucast v)\<rparr>) s)"
  "WriteByte s 0x04000203 v =
     Inr (upd_Interrupt (\<lambda>r. r\<lparr>if' := if' r AND NOT (push_bit 8 (ucast v))\<rparr>) s)"
  by (simp_all add: WriteByte.simps Let_def IOWrite_defs)

lemma IF_bits_low: "bit (f AND NOT (ucast v)) n = (bit f n \<and> \<not> bit v n)"
  for f :: u16 and v :: u8
  by (auto simp: bit_simps dest: bit_imp_le_length)

lemma IF_bits_high:
  "bit (f AND NOT (push_bit 8 (ucast v))) n = (bit f n \<and> \<not> (8 \<le> n \<and> bit v (n - 8)))"
  for f :: u16 and v :: u8
  by (auto simp: bit_simps dest: bit_imp_le_length)

text \<open>
  C6. A byte \<open>v\<close> written to the low byte of IF (0x04000202) clears exactly the bits of IF
  that are set in \<open>v\<close>; written to the high byte (0x04000203) it clears exactly the bits
  8 to 15 whose counterparts are set in \<open>v\<close>. Every other bit of IF keeps its value, IE and
  IME keep theirs, and nothing else in the state of the bus changes.
\<close>

theorem IF_write_one_to_clear:
  "(\<exists>s'. WriteByte s 0x04000202 v = Inr s' \<and>
      (\<forall>n. bit (if' (m_Interrupt s')) n = (bit (if' (m_Interrupt s)) n \<and> \<not> bit v n)) \<and>
      ie (m_Interrupt s') = ie (m_Interrupt s) \<and> ime (m_Interrupt s') = ime (m_Interrupt s) \<and>
      s' = s\<lparr>m_Interrupt := (m_Interrupt s)\<lparr>if' := if' (m_Interrupt s')\<rparr>\<rparr>) \<and>
   (\<exists>s'. WriteByte s 0x04000203 v = Inr s' \<and>
      (\<forall>n. bit (if' (m_Interrupt s')) n =
           (bit (if' (m_Interrupt s)) n \<and> \<not> (8 \<le> n \<and> bit v (n - 8)))) \<and>
      ie (m_Interrupt s') = ie (m_Interrupt s) \<and> ime (m_Interrupt s') = ime (m_Interrupt s) \<and>
      s' = s\<lparr>m_Interrupt := (m_Interrupt s)\<lparr>if' := if' (m_Interrupt s')\<rparr>\<rparr>)"
proof (intro conjI)
  let ?lo = "upd_Interrupt (\<lambda>r. r\<lparr>if' := if' r AND NOT (ucast v)\<rparr>) s"
  have w: "WriteByte s 0x04000202 v = Inr ?lo"
    by (rule WriteByte_IF(1))
  have b: "\<forall>n. bit (if' (m_Interrupt ?lo)) n = (bit (if' (m_Interrupt s)) n \<and> \<not> bit v n)"
    by (simp add: upd_Interrupt_def IF_bits_low)
  have f: "ie (m_Interrupt ?lo) = ie (m_Interrupt s)" "ime (m_Interrupt ?lo) = ime (m_Interrupt s)"
    "?lo = s\<lparr>m_Interrupt := (m_Interrupt s)\<lparr>if' := if' (m_Interrupt ?lo)\<rparr>\<rparr>"
    by (simp_all add: upd_Interrupt_def)
  show "\<exists>s'. WriteByte s 0x04000202 v = Inr s' \<and>
      (\<forall>n. bit (if' (m_Interrupt s')) n = (bit (if' (m_Interrupt s)) n \<and> \<not> bit v n)) \<and>
      ie (m_Interrupt s') = ie (m_Interrupt s) \<and> ime (m_Interrupt s') = ime (m_Interrupt s) \<and>
      s' = s\<lparr>m_Interrupt := (m_Interrupt s)\<lparr>if' := if' (m_Interrupt s')\<rparr>\<rparr>"
    using w b f by (intro exI [of _ ?lo] conjI)
next
  let ?hi = "upd_Interrupt (\<lambda>r. r\<lparr>if' := if' r AND NOT (push_bit 8 (ucast v))\<rparr>) s"
  have w: "WriteByte s 0x04000203 v = Inr ?hi"
    by (rule WriteByte_IF(2))
  have b: "\<forall>n. bit (if' (m_Interrupt ?hi)) n =
      (bit (if' (m_Interrupt s)) n \<and> \<not> (8 \<le> n \<and> bit v (n - 8)))"
    by (simp add: upd_Interrupt_def IF_bits_high)
  have f: "ie (m_Interrupt ?hi) = ie (m_Interrupt s)" "ime (m_Interrupt ?hi) = ime (m_Interrupt s)"
    "?hi = s\<lparr>m_Interrupt := (m_Interrupt s)\<lparr>if' := if' (m_Interrupt ?hi)\<rparr>\<rparr>"
    by (simp_all add: upd_Interrupt_def)
  show "\<exists>s'. WriteByte s 0x04000203 v = Inr s' \<and>
      (\<forall>n. bit (if' (m_Interrupt s')) n =
           (bit (if' (m_Interrupt s)) n \<and> \<not> (8 \<le> n \<and> bit v (n - 8)))) \<and>
      ie (m_Interrupt s') = ie (m_Interrupt s) \<and> ime (m_Interrupt s') = ime (m_Interrupt s) \<and>
      s' = s\<lparr>m_Interrupt := (m_Interrupt s)\<lparr>if' := if' (m_Interrupt s')\<rparr>\<rparr>"
    using w b f by (intro exI [of _ ?hi] conjI)
qed

theorem IF_write_one_to_clear_witness:
  "(\<exists>s'. WriteByte (upd_Interrupt (\<lambda>r. r\<lparr>ie := 0x3FFF, if' := 0x1109, ime := 1\<rparr>)
                       (GBAMemory_init (\<lambda>_. 0) 0)) 0x04000202 0x0B = Inr s' \<and>
      if' (m_Interrupt s') = 0x1100 \<and> ie (m_Interrupt s') = 0x3FFF \<and>
      ime (m_Interrupt s') = 1)"
  using IF_write_one_to_clear
   [of "upd_Interrupt (\<lambda>r. r\<lparr>ie := 0x3FFF, if' := 0x1109, ime := 1\<rparr>) (GBAMemory_init (\<lambda>_. 0) 0)"
       "0x0B"]
  by (auto simp: WriteByte_IF upd_Interrupt_def)

section \<open>Timer counts and the 32-bit write\<close>

text \<open>
  C10. For a timer \<open>k\<close> below 4, whose \<open>TMkCNT_L\<close> is at 0x04000100 + 4k: a 32-bit write
  there stores the low half of the value as the reload and, when bit 23 of the value is
  set, copies that reload into the count (otherwise the count stays); a byte write to either
  byte of the register and a 16-bit write to it change only the reload. Beyond that, no
  byte write and no 16-bit write to any address changes the count of any timer, and a
  32-bit write changes the count of timer \<open>i\<close> only when bit 23 is set and the address is
  that of \<open>TMiCNT_L\<close>.
\<close>

theorem timer_count_loaded_only_by_word_write:
  fixes s :: GBAMemory and k i :: nat
  assumes "k < 4"
  shows
    "(\<exists>s'. WriteWord s (0x04000100 + 4 * of_nat k) w = Inr s' \<and>
        reload (m_Timer s' k) = ucast w \<and>
        tm_count (m_Timer s' k) =
          (if bit w 23 then reload (m_Timer s' k) else tm_count (m_Timer s k))) \<and>
     WriteByte s (0x04000100 + 4 * of_nat k) b =
       Inr (upd_Timer k (\<lambda>t. t\<lparr>reload := (reload t AND 0xFF00) OR ucast b\<rparr>) s) \<and>
     WriteByte s (0x04000100 + 4 * of_nat k + 1) b =
       Inr (upd_Timer k (\<lambda>t. t\<lparr>reload := (reload t AND 0x00FF) OR push_bit 8 (ucast b)\<rparr>) s) \<and>
     WriteHWord s (0x04000100 + 4 * of_nat k) h = Inr (upd_Timer k (\<lambda>t. t\<lparr>reload := h\<rparr>) s) \<and>
     (\<forall>a c s'. WriteByte s a c = Inr s' \<longrightarrow> tm_count (m_Timer s' i) = tm_count (m_Timer s i)) \<and>
     (\<forall>a c s'. WriteHWord s a c = Inr s' \<longrightarrow> tm_count (m_Timer s' i) = tm_count (m_Timer s i)) \<and>
     (\<forall>a u s'. WriteWord s a u = Inr s' \<longrightarrow>
        \<not> (bit u 23 \<and> i < 4 \<and> a = 0x04000100 + 4 * of_nat i) \<longrightarrow>
        tm_count (m_Timer s' i) = tm_count (m_Timer s i))"
proof (intro conjI allI impI)
  fix a :: u32 and c :: u8 and s'
  assume "WriteByte s a c = Inr s'"
  then show "tm_count (m_Timer s' i) = tm_count (m_Timer s i)" by (rule WriteByte_count)
next
  fix a :: u32 and c :: u16 and s'
  assume "WriteHWord s a c = Inr s'"
  then show "tm_count (m_Timer s' i) = tm_count (m_Timer s i)" by (rule WriteHWord_count)
next
  fix a u :: u32 and s'
  assume "WriteWord s a u = Inr s'"
    and "\<not> (bit u 23 \<and> i < 4 \<and> a = 0x04000100 + 4 * of_nat i)"
  then show "tm_count (m_Timer s' i) = tm_count (m_Timer s i)" by (rule WriteWord_count)
qed (rule WriteWord_TM [OF assms] WriteByte_TM_L [OF assms] WriteByte_TM_L1 [OF assms]
    WriteHWord_TM_L [OF assms])+

theorem timer_count_loaded_only_by_word_write_witness:
  "(1::nat) < 4 \<and>
   (\<exists>s'. WriteWord (GBAMemory_init (\<lambda>_. 0) 0) 0x04000104 0x0080ABCD = Inr s' \<and>
      reload (m_Timer s' 1) = 0xABCD \<and> tm_count (m_Timer s' 1) = 0xABCD) \<and>
   (\<exists>s'. WriteWord (GBAMemory_init (\<lambda>_. 0) 0) 0x04000104 0x0000ABCD = Inr s' \<and>
      reload (m_Timer s' 1) = 0xABCD \<and> tm_count (m_Timer s' 1) = 0) \<and>
   (\<exists>s'. WriteHWord (GBAMemory_init (\<lambda>_. 0) 0) 0x04000104 0xABCD = Inr s' \<and>
      reload (m_Timer s' 1) = 0xABCD \<and> tm_count (m_Timer s' 1) = 0)"
proof -
  have k: "(1::nat) < 4" by simp
  have z: "tm_count (m_Timer (GBAMemory_init (\<lambda>_. 0) 0) 1) = 0"
    by (simp add: GBAMemory_init_def Timer_init_def)
  have b: "bit (0x0080ABCD :: u32) 23" "\<not> bit (0x0000ABCD :: u32) 23"
    by (simp_all add: bit_iff_odd_drop_bit)
  note w1 = timer_count_loaded_only_by_word_write
      [where k = 1 and s = "GBAMemory_init (\<lambda>_. 0) 0" and w = "0x0080ABCD" and b = 0
        and h = "0xABCD" and i = 1]
  note w2 = timer_count_loaded_only_by_word_write
      [where k = 1 and s = "GBAMemory_init (\<lambda>_. 0) 0" and w = "0x0000ABCD" and b = 0
        and h = "0xABCD" and i = 1]
  show ?thesis
    using w1 [OF k] w2 [OF k] z b by (auto simp: upd_Timer_def)
qed

section \<open>DMA control writes\<close>

lemma WriteByte_DMA_CNT_H_high:
  "n < 4 \<Longrightarrow> WriteByte s (0x040000BB + 12 * of_nat n) v =
     Inr (upd_DMA n (DMA_CNT_H_high n v) s)"
  by (drule below4, elim disjE; hypsubst; simp add: WriteByte.simps Let_def IOWrite_defs)

lemma m_DMA_upd [simp]: "m_DMA (upd_DMA n f s) = (m_DMA s)(n := f (m_DMA s n))"
  by (simp add: upd_DMA_def)

lemma dma_count_mask_val: "n < 4 \<Longrightarrow> dma_count_mask n = (if n < 3 then 0x3FFF else 0xFFFF)"
  by (drule below4) (auto simp: dma_count_mask_def)

lemma count_masked_low:
  "(ucast (ucast c AND (0x3FFF::u32)) :: u16) = c AND 0x3FFF"
  "(ucast (ucast c AND (0xFFFF::u32)) :: u16) = c"
  for c :: u16
proof -
  have m: "(0x3FFF::u32) = mask 14" "(0x3FFF::u16) = mask 14" "(0xFFFF::u32) = mask 16"
    by (simp_all add: mask_eq_exp_minus_1)
  show "(ucast (ucast c AND (0x3FFF::u32)) :: u16) = c AND 0x3FFF"
    unfolding m by (rule bit_word_eqI) (auto simp: bit_simps)
  show "(ucast (ucast c AND (0xFFFF::u32)) :: u16) = c"
    unfolding m by (rule bit_word_eqI) (auto simp: bit_simps)
qed

lemma and_FFFF: "c AND 0xFFFF = c" for c :: u16
proof -
  have m: "(0xFFFF::u16) = mask 16" by (simp add: mask_eq_exp_minus_1)
  show ?thesis unfolding m by (rule bit_word_eqI) (simp add: bit_simps)
qed

lemma DMA_CNT_H_high_enabled:
  assumes "n < 4" and "bit v 7"
  shows "dma_enable (DMA_CNT_H_high n v d)"
    and "source_int (DMA_CNT_H_high n v d) = source d AND dma_source_mask n"
    and "dest_int (DMA_CNT_H_high n v d) = dest d AND dma_dest_mask n"
    and "count d AND ucast (dma_count_mask n) \<noteq> 0 \<Longrightarrow>
         count_int (DMA_CNT_H_high n v d) = count d AND ucast (dma_count_mask n)"
    and "count d AND ucast (dma_count_mask n) = 0 \<Longrightarrow> n < 3 \<Longrightarrow>
         count_int (DMA_CNT_H_high n v d) = 0x4000"
  using below4 [OF assms(1)] assms(2)
  by (auto simp: DMA_CNT_H_high_def Let_def flag128 dma_count_mask_def count_masked_low and_FFFF)

text \<open>
  C8, as the code has it. For every channel \<open>n\<close> below 4, a byte with bit 7 set written to
  the high byte of \<open>DMAnCNT_H\<close> (0x040000BB + 12n) leaves the channel enabled and latches
  the shadows, whether or not the channel was enabled before: \<open>source_int\<close> is the source
  under the channel's source mask, \<open>dest_int\<close> the destination under its destination
  mask, and \<open>count_int\<close> the count under its count mask (0x3FFF for the channels 0 to 2,
  0xFFFF for channel 3) when that is not zero. For the channels 0 to 2 a masked count of
  zero is latched as the count mask plus one.
\<close>

theorem DMA_enable_write_latches:
  assumes "n < 4" and "bit v 7"
  shows "\<exists>s'. WriteByte s (0x040000BB + 12 * of_nat n) v = Inr s' \<and>
     dma_enable (m_DMA s' n) \<and>
     source_int (m_DMA s' n) = source (m_DMA s n) AND dma_source_mask n \<and>
     dest_int (m_DMA s' n) = dest (m_DMA s n) AND dma_dest_mask n \<and>
     dma_count_mask n = (if n < 3 then 0x3FFF else 0xFFFF) \<and>
     (count (m_DMA s n) AND ucast (dma_count_mask n) \<noteq> 0 \<longrightarrow>
        count_int (m_DMA s' n) = count (m_DMA s n) AND ucast (dma_count_mask n)) \<and>
     (count (m_DMA s n) AND ucast (dma_count_mask n) = 0 \<and> n < 3 \<longrightarrow>
        uint (count_int (m_DMA s' n)) = uint (dma_count_mask n) + 1)"
  using DMA_CNT_H_high_enabled [OF assms, of "m_DMA s n"] dma_count_mask_val [OF assms(1)]
  by (simp add: WriteByte_DMA_CNT_H_high [OF assms(1)])


theorem DMA_enable_write_latches_witness:
  "(0::nat) < 4 \<and> bit (0x80 :: u8) 7 \<and>
   (\<exists>s'. WriteByte (GBAMemory_init (\<lambda>_. 0) 0) 0x040000BB 0x80 = Inr s' \<and>
      dma_enable (m_DMA s' 0) \<and> source_int (m_DMA s' 0) = 0 \<and> count_int (m_DMA s' 0) = 0x4000)"
proof -
  have h: "(0::nat) < 4" "bit (0x80 :: u8) 7" by (simp_all add: bit_iff_odd_drop_bit)
  show ?thesis
    using DMA_enable_write_latches [OF h, of "GBAMemory_init (\<lambda>_. 0) 0"] h
    by (auto simp: GBAMemory_init_def DMA_init_def dma_count_mask_def word_uint_eq_iff)
qed

text \<open>
  The claim as stated fails on a channel that is already enabled: rewriting the control
  byte with the enable bit set, with no 0-to-1 edge, latches \<open>source_int\<close> again.
\<close>

theorem DMA_relatch_without_edge_counterexample:
  "dma_enable (m_DMA dma0_repeating 0) \<and>
   source_int (m_DMA dma0_repeating 0) = 0x02000040 \<and>
   (case WriteByte dma0_repeating 0x040000BB 0xA2 of
      Inl e \<Rightarrow> False
    | Inr s' \<Rightarrow> dma_enable (m_DMA s' 0) \<and> source_int (m_DMA s' 0) = 0x02000000)"
  by (simp add: dma0_repeating_def WriteByte.simps Let_def IOWrite_defs upd_DMA_def
      DMA_CNT_H_high_def flag_def dma_source_mask_def dma_dest_mask_def dma_count_mask_def
      GBAMemory_init_def DMA_init_def)

text \<open>
  For channel 3 the count mask plus one is 0x10000, which the 16-bit \<open>count_int\<close> cannot
  hold: a count of zero is latched as zero.
\<close>

lemma DMA3_zero_count_latch:
  "(case WriteByte (GBAMemory_init (\<lambda>_. 0) 0) 0x040000DF 0x80 of
      Inl e \<Rightarrow> False
    | Inr s' \<Rightarrow> dma_enable (m_DMA s' 3) \<and> count_int (m_DMA s' 3) = 0)"
  by (simp add: WriteByte.simps Let_def IOWrite_defs upd_DMA_def
      DMA_CNT_H_high_def flag_def dma_source_mask_def dma_dest_mask_def dma_count_mask_def
      GBAMemory_init_def DMA_init_def)

section \<open>Writes to palette RAM, VRAM and OAM\<close>

lemma succ_mod_neq: "(n + 1) mod 1024 \<noteq> n mod 1024" for n :: nat
  using mod_Suc [of n 1024] by (simp split: if_splits)

lemma mod_succ_neq: "unat (w mod 0x400) \<noteq> unat ((w + 1) mod 0x400)" for w :: u32
proof -
  have d: "(1024::nat) dvd 2 ^ 32" by simp
  have "unat (w mod 0x400) = unat w mod 1024" by (simp add: unat_mod)
  moreover have "unat ((w + 1) mod 0x400) = ((unat w + 1) mod 2 ^ 32) mod 1024"
    by (simp add: unat_mod unat_word_ariths)
  moreover have "((unat w + 1) mod 2 ^ 32) mod 1024 = (unat w + 1) mod 1024"
    by (rule mod_mod_cancel [OF d])
  ultimately show ?thesis using succ_mod_neq [of "unat w"] by simp
qed

lemma doubled_byte:
  "(ucast (push_bit 8 (ucast v) OR ucast v :: u16) :: u8) = v"
  "(ucast (drop_bit 8 (push_bit 8 (ucast v) OR ucast v :: u16)) :: u8) = v"
  "(ucast (drop_bit 8 (push_bit 8 (ucast v :: u16)) OR drop_bit 8 (ucast v :: u16)) :: u8) = v"
  for v :: u8
  by (rule bit_word_eqI; auto simp: bit_simps dest: bit_imp_le_length)+

lemma VRAM_index_bound: "VRAM_index io < 0x18000"
proof -
  have "unat (io mod 0x20000) < 0x20000"
    by (simp add: unat_mod)
  moreover have "io mod 0x20000 \<ge> 0x18000 \<Longrightarrow>
      unat (io mod 0x20000 - 0x8000) = unat (io mod 0x20000) - 0x8000"
    by (subst unat_sub) (auto simp: word_le_nat_alt)
  moreover have "\<not> io mod 0x20000 \<ge> 0x18000 \<Longrightarrow> unat (io mod 0x20000) < 0x18000"
    by (simp add: word_le_nat_alt)
  ultimately show ?thesis
    by (auto simp: VRAM_index_def Let_def)
qed

lemma VRAM_index_even:
  assumes "\<not> bit io 0"
  shows "even (VRAM_index io)"
proof -
  have "bit (unat io) 0 = bit io 0" by (simp only: bit_unsigned_iff) simp
  then have e: "even (unat io)" using assms by (simp only: bit_0) simp
  have "even (unat (io mod 0x20000))"
    using e by (simp add: unat_mod dvd_mod_iff)
  moreover have "io mod 0x20000 \<ge> 0x18000 \<Longrightarrow>
      unat (io mod 0x20000 - 0x8000) = unat (io mod 0x20000) - 0x8000"
    by (subst unat_sub) (auto simp: word_le_nat_alt)
  moreover have "io mod 0x20000 \<ge> 0x18000 \<Longrightarrow> unat (io mod 0x20000) \<ge> 0x18000"
    by (simp add: word_le_nat_alt)
  ultimately show ?thesis
    by (auto simp: VRAM_index_def Let_def)
qed

lemma VRAM_index_aligned:
  assumes "\<not> bit io 0"
  shows "VRAM_index io + 1 < 0x18000"
proof -
  have "VRAM_index io + 1 \<noteq> 0x18000"
  proof
    assume "VRAM_index io + 1 = 0x18000"
    then have "odd (VRAM_index io)" by presburger
    then show False using VRAM_index_even [OF assms] by simp
  qed
  then show ?thesis using VRAM_index_bound [of io] by linarith
qed

lemma aligned_offset_even: "\<not> bit ((a AND NOT 1) AND 0xFFFFFF) 0" for a :: u32
  by (simp add: bit_simps)

lemma HWord_lanes:
  "drop_bit 24 a AND 0xF = 5 \<Longrightarrow>
   \<exists>s'. WriteHWord s a h = Inr s' \<and>
     m_PAL (m_Video s') (unat ((a AND 0xFFFFFF) mod 0x400)) = ucast h \<and>
     m_PAL (m_Video s') (unat (((a AND 0xFFFFFF) + 1) mod 0x400)) = ucast (drop_bit 8 h)"
  "drop_bit 24 a AND 0xF = 7 \<Longrightarrow>
   \<exists>s'. WriteHWord s a h = Inr s' \<and>
     m_OAM (m_Video s') (unat ((a AND 0xFFFFFF) mod 0x400)) = ucast h \<and>
     m_OAM (m_Video s') (unat (((a AND 0xFFFFFF) + 1) mod 0x400)) = ucast (drop_bit 8 h)"
  "drop_bit 24 a AND 0xF = 6 \<Longrightarrow> VRAM_index (a AND 0xFFFFFF) + 1 < 0x18000 \<Longrightarrow>
   \<exists>s'. WriteHWord s a h = Inr s' \<and>
     m_VRAM (m_Video s') (VRAM_index (a AND 0xFFFFFF)) = ucast h \<and>
     m_VRAM (m_Video s') (VRAM_index (a AND 0xFFFFFF) + 1) = ucast (drop_bit 8 h)"
  by (simp_all add: WriteHWord_PAL WriteHWord_OAM WriteHWord_VRAM VRAM_store16_eq mod_succ_neq)

lemma Byte_lanes:
  assumes "drop_bit 24 a = 5 \<or> drop_bit 24 a = 6 \<or> drop_bit 24 a = 7"
  shows "\<exists>s'. WriteByte s a v = Inr s' \<and>
     WriteHWord s (a AND NOT 1) (push_bit 8 (ucast v) OR ucast v) = Inr s' \<and>
     (drop_bit 24 a = 5 \<longrightarrow>
        m_PAL (m_Video s') (unat (((a AND NOT 1) AND 0xFFFFFF) mod 0x400)) = v \<and>
        m_PAL (m_Video s') (unat ((((a AND NOT 1) AND 0xFFFFFF) + 1) mod 0x400)) = v) \<and>
     (drop_bit 24 a = 6 \<longrightarrow>
        m_VRAM (m_Video s') (VRAM_index ((a AND NOT 1) AND 0xFFFFFF)) = v \<and>
        m_VRAM (m_Video s') (VRAM_index ((a AND NOT 1) AND 0xFFFFFF) + 1) = v) \<and>
     (drop_bit 24 a = 7 \<longrightarrow>
        m_OAM (m_Video s') (unat (((a AND NOT 1) AND 0xFFFFFF) mod 0x400)) = v \<and>
        m_OAM (m_Video s') (unat ((((a AND NOT 1) AND 0xFFFFFF) + 1) mod 0x400)) = v)"
proof -
  note w1 = WriteByte_video(1) [OF assms, of s v]
  note w2 = WriteByte_video(2) [OF assms]
  note l = HWord_lanes [of "a AND NOT 1" s "push_bit 8 (ucast v) OR ucast v"]
  note i = VRAM_index_aligned [OF aligned_offset_even [of a]]
  from assms show ?thesis
  proof (elim disjE)
    assume p: "drop_bit 24 a = 5"
    then have "drop_bit 24 (a AND NOT 1) AND 0xF = 5" using w2 by simp
    from l(1) [OF this] show ?thesis using p w1 by (auto simp: doubled_byte)
  next
    assume p: "drop_bit 24 a = 6"
    then have "drop_bit 24 (a AND NOT 1) AND 0xF = 6" using w2 by simp
    from l(3) [OF this i] show ?thesis using p w1 by (auto simp: doubled_byte)
  next
    assume p: "drop_bit 24 a = 7"
    then have "drop_bit 24 (a AND NOT 1) AND 0xF = 7" using w2 by simp
    from l(2) [OF this] show ?thesis using p w1 by (auto simp: doubled_byte)
  qed
qed

lemma even_address: "(a AND 1 = 0) = (\<not> bit a 0)" for a :: u32
  using and_exp_eq_0_iff_not_bit [of a 0] by simp

lemma VRAM_last_index:
  "drop_bit 24 a AND 0xF = 6 \<Longrightarrow> VRAM_index (a AND 0xFFFFFF) = 0x17FFF \<Longrightarrow>
   WriteHWord s a h = Inl OutOfBounds"
  by (simp add: WriteHWord_VRAM VRAM_store16_eq)

text \<open>
  C3, as the code has it. A 16-bit write whose region nibble is 5 or 7 stores the low byte
  of the value at the offset and the high byte at the next one, both taken modulo 0x400. In
  region 6 it stores them at the index computed from the offset and at the next index, as
  long as that one is still inside \<open>m_VRAM\<close>. The index is always below 0x18000, and the
  next one is too for every even address; what is left is the index 0x17FFF, where the
  second store lies past the end of the array and nothing can be said of the result. A byte
  written to palette RAM, VRAM or OAM is the 16-bit write of the doubled byte to the
  address with bit 0 cleared, so both bytes of that halfword receive it; this holds for
  OAM as it does for the other two. A byte written to a ROM region leaves the state as it
  was.
\<close>

theorem video_memory_write_lanes:
  "(drop_bit 24 a AND 0xF = 5 \<longrightarrow>
      (\<exists>s'. WriteHWord s a h = Inr s' \<and>
         m_PAL (m_Video s') (unat ((a AND 0xFFFFFF) mod 0x400)) = ucast h \<and>
         m_PAL (m_Video s') (unat (((a AND 0xFFFFFF) + 1) mod 0x400)) = ucast (drop_bit 8 h))) \<and>
   (drop_bit 24 a AND 0xF = 6 \<and> VRAM_index (a AND 0xFFFFFF) + 1 < 0x18000 \<longrightarrow>
      (\<exists>s'. WriteHWord s a h = Inr s' \<and>
         m_VRAM (m_Video s') (VRAM_index (a AND 0xFFFFFF)) = ucast h \<and>
         m_VRAM (m_Video s') (VRAM_index (a AND 0xFFFFFF) + 1) = ucast (drop_bit 8 h))) \<and>
   VRAM_index (a AND 0xFFFFFF) < 0x18000 \<and>
   (a AND 1 = 0 \<longrightarrow> VRAM_index (a AND 0xFFFFFF) + 1 < 0x18000) \<and>
   (drop_bit 24 a AND 0xF = 6 \<and> VRAM_index (a AND 0xFFFFFF) = 0x17FFF \<longrightarrow>
      WriteHWord s a h = Inl OutOfBounds) \<and>
   (drop_bit 24 a AND 0xF = 7 \<longrightarrow>
      (\<exists>s'. WriteHWord s a h = Inr s' \<and>
         m_OAM (m_Video s') (unat ((a AND 0xFFFFFF) mod 0x400)) = ucast h \<and>
         m_OAM (m_Video s') (unat (((a AND 0xFFFFFF) + 1) mod 0x400)) = ucast (drop_bit 8 h))) \<and>
   (drop_bit 24 a = 5 \<or> drop_bit 24 a = 6 \<or> drop_bit 24 a = 7 \<longrightarrow>
      (\<exists>s'. WriteByte s a v = Inr s' \<and>
         WriteHWord s (a AND NOT 1) (push_bit 8 (ucast v) OR ucast v) = Inr s' \<and>
         (drop_bit 24 a = 5 \<longrightarrow>
            m_PAL (m_Video s') (unat (((a AND NOT 1) AND 0xFFFFFF) mod 0x400)) = v \<and>
            m_PAL (m_Video s') (unat ((((a AND NOT 1) AND 0xFFFFFF) + 1) mod 0x400)) = v) \<and>
         (drop_bit 24 a = 6 \<longrightarrow>
            m_VRAM (m_Video s') (VRAM_index ((a AND NOT 1) AND 0xFFFFFF)) = v \<and>
            m_VRAM (m_Video s') (VRAM_index ((a AND NOT 1) AND 0xFFFFFF) + 1) = v) \<and>
         (drop_bit 24 a = 7 \<longrightarrow>
            m_OAM (m_Video s') (unat (((a AND NOT 1) AND 0xFFFFFF) mod 0x400)) = v \<and>
            m_OAM (m_Video s') (unat ((((a AND NOT 1) AND 0xFFFFFF) + 1) mod 0x400)) = v))) \<and>
   (drop_bit 24 a = 8 \<or> drop_bit 24 a = 9 \<or> drop_bit 24 a = 0xA \<or> drop_bit 24 a = 0xB
    \<or> drop_bit 24 a = 0xC \<or> drop_bit 24 a = 0xD \<longrightarrow> WriteByte s a v = Inr s)"
proof (intro conjI impI)
  assume "drop_bit 24 a = 8 \<or> drop_bit 24 a = 9 \<or> drop_bit 24 a = 0xA \<or> drop_bit 24 a = 0xB
    \<or> drop_bit 24 a = 0xC \<or> drop_bit 24 a = 0xD"
  then have "in_BIOS_or_ROM a" by (simp add: in_BIOS_or_ROM_def)
  then show "WriteByte s a v = Inr s" by (rule WriteByte_BIOS_ROM)
next
  show "VRAM_index (a AND 0xFFFFFF) < 0x18000" by (rule VRAM_index_bound)
next
  assume "a AND 1 = 0"
  then have "\<not> bit (a AND 0xFFFFFF) 0" by (simp add: even_address bit_simps)
  then show "VRAM_index (a AND 0xFFFFFF) + 1 < 0x18000" by (rule VRAM_index_aligned)
next
  assume "drop_bit 24 a AND 0xF = 6 \<and> VRAM_index (a AND 0xFFFFFF) = 0x17FFF"
  then show "WriteHWord s a h = Inl OutOfBounds" by (simp add: VRAM_last_index)
next
  assume "drop_bit 24 a AND 0xF = 6 \<and> VRAM_index (a AND 0xFFFFFF) + 1 < 0x18000"
  then show "\<exists>s'. WriteHWord s a h = Inr s' \<and>
         m_VRAM (m_Video s') (VRAM_index (a AND 0xFFFFFF)) = ucast h \<and>
         m_VRAM (m_Video s') (VRAM_index (a AND 0xFFFFFF) + 1) = ucast (drop_bit 8 h)"
    using HWord_lanes(3) [of a s h] by simp
qed (rule HWord_lanes Byte_lanes; assumption)+

theorem video_memory_write_lanes_witness:
  "drop_bit 24 (0x05000002 :: u32) AND 0xF = 5 \<and>
   (\<exists>s'. WriteHWord (GBAMemory_init (\<lambda>_. 0) 0) 0x05000002 0x1234 = Inr s' \<and>
      m_PAL (m_Video s') 2 = 0x34 \<and> m_PAL (m_Video s') 3 = 0x12) \<and>
   VRAM_index (0x06000011 AND NOT 1 AND 0xFFFFFF) = 16 \<and>
   (\<exists>s'. WriteByte (GBAMemory_init (\<lambda>_. 0) 0) 0x06000011 0xAB = Inr s' \<and>
      m_VRAM (m_Video s') 16 = 0xAB \<and> m_VRAM (m_Video s') 17 = 0xAB) \<and>
   VRAM_index (0x06000011 AND 0xFFFFFF) = 17 \<and>
   (\<exists>s'. WriteHWord (GBAMemory_init (\<lambda>_. 0) 0) 0x06000011 0x1234 = Inr s' \<and>
      m_VRAM (m_Video s') 17 = 0x34 \<and> m_VRAM (m_Video s') 18 = 0x12) \<and>
   VRAM_index (0x06017FFF AND 0xFFFFFF) = 0x17FFF \<and>
   WriteHWord (GBAMemory_init (\<lambda>_. 0) 0) 0x06017FFF 0x1234 = Inl OutOfBounds \<and>
   WriteByte (GBAMemory_init (\<lambda>_. 0) 0) 0x08000000 0xAB = Inr (GBAMemory_init (\<lambda>_. 0) 0)"
proof -
  note t = video_memory_write_lanes [where s = "GBAMemory_init (\<lambda>_. 0) 0"]
  have i: "VRAM_index (0x06000011 AND NOT 1 AND 0xFFFFFF) = 16"
    "VRAM_index (0x06000011 AND 0xFFFFFF) = 17"
    "VRAM_index (0x06017FFF AND 0xFFFFFF) = 0x17FFF"
    by (simp_all add: VRAM_index_def)
  show ?thesis
    using t [where a = "0x05000002" and h = "0x1234" and v = 0]
      t [where a = "0x06000011" and h = "0x1234" and v = "0xAB"]
      t [where a = "0x06017FFF" and h = "0x1234" and v = 0]
      t [where a = "0x08000000" and h = 0 and v = "0xAB"] i
    by auto
qed

text \<open>
  The claim as stated fails for OAM: a byte written to 0x07000000 is not ignored, it
  lands in both bytes of the first halfword of OAM.
\<close>

theorem OAM_byte_write_counterexample:
  "m_OAM (m_Video (GBAMemory_init (\<lambda>_. 0) 0)) 0 = 0 \<and>
   (case WriteByte (GBAMemory_init (\<lambda>_. 0) 0) 0x07000000 0xAB of
      Inl e \<Rightarrow> False
    | Inr s' \<Rightarrow> m_OAM (m_Video s') 0 = 0xAB \<and> m_OAM (m_Video s') 1 = 0xAB)"
  by (simp add: WriteByte.simps WriteHWord.simps Let_def GBAMemory_init_def GBAVideo_init_def
      upd_Video_def)

section \<open>Addresses of halfword and word accesses\<close>

lemma ReadWord_halves:
  "ReadWord s a = ucast (ReadHWord s a) OR push_bit 16 (ucast (ReadHWord s (a + 2)))"
proof -
  have e: "a + 2 + 1 = a + 3" by simp
  have "ucast b0 OR push_bit 8 (ucast b1) OR push_bit 16 (ucast b2) OR push_bit 24 (ucast b3)
      = (ucast (ucast b0 OR push_bit 8 (ucast b1) :: u16) OR
         push_bit 16 (ucast (ucast b2 OR push_bit 8 (ucast b3) :: u16)) :: u32)"
    for b0 b1 b2 b3 :: u8
    by (rule bit_word_eqI) (auto simp: bit_simps dest: bit_imp_le_length)
  then show ?thesis
    unfolding ReadWord_def ReadHWord_def e by simp
qed

lemma high_half: "(ucast (drop_bit 16 w AND 0xFFFF) :: u16) = ucast (drop_bit 16 w)" for w :: u32
proof (rule bit_word_eqI)
  fix n assume n: "n < LENGTH(16)"
  have m: "(0xFFFF::u32) = mask 16" by (simp add: mask_eq_exp_minus_1)
  show "bit (ucast (drop_bit 16 w AND 0xFFFF) :: u16) n = bit (ucast (drop_bit 16 w) :: u16) n"
    using n unfolding m by (auto simp: bit_simps)
qed

lemma hword_of_bytes:
  "ucast (ucast h :: u8) OR push_bit 8 (ucast (ucast (drop_bit 8 h) :: u8)) = h" for h :: u16
  by (rule bit_word_eqI) (auto simp: bit_simps)

lemma word_of_bytes:
  "ucast (ucast w :: u8) OR push_bit 8 (ucast (ucast (drop_bit 8 w) :: u8))
     OR push_bit 16 (ucast (ucast (drop_bit 16 w) :: u8))
     OR push_bit 24 (ucast (ucast (drop_bit 24 w) :: u8)) = w" for w :: u32
proof (rule bit_word_eqI)
  fix n assume "n < LENGTH(32)"
  then consider "n < 8" | "8 \<le> n" "n < 16" | "16 \<le> n" "n < 24" | "24 \<le> n" "n < 32"
    by fastforce
  then show "bit (ucast (ucast w :: u8) OR push_bit 8 (ucast (ucast (drop_bit 8 w) :: u8))
     OR push_bit 16 (ucast (ucast (drop_bit 16 w) :: u8))
     OR push_bit 24 (ucast (ucast (drop_bit 24 w) :: u8)) :: u32) n = bit w n"
    by cases (auto simp: bit_simps)
qed

lemma word_byte_lanes:
  "(ucast (ucast w :: u16) :: u8) = ucast w"
  "(ucast (drop_bit 8 (ucast w :: u16)) :: u8) = ucast (drop_bit 8 w)"
  "(ucast (ucast (drop_bit 16 w) :: u16) :: u8) = ucast (drop_bit 16 w)"
  "(ucast (drop_bit 8 (ucast (drop_bit 16 w) :: u16)) :: u8) = ucast (drop_bit 24 w)"
  for w :: u32
  by (rule bit_word_eqI; auto simp: bit_simps)+

subsection \<open>Work RAM\<close>

lemma WRAM_index: "unat ((a AND 0xFFFFFF) mod 0x40000) = unat a mod 0x40000" for a :: u32
proof -
  have m: "(0xFFFFFF :: u32) = mask 24" by (simp add: mask_eq_exp_minus_1)
  have "unat (a AND mask 24) = unat a mod 2 ^ 24"
    by (simp add: unsigned_take_bit_eq take_bit_eq_mod unat_mod flip: take_bit_eq_mask)
  moreover have "(0x40000 :: nat) dvd 2 ^ 24" by simp
  ultimately show ?thesis unfolding m by (simp add: unat_mod mod_mod_cancel)
qed

lemma mod_offsets_neq:
  "j < k \<Longrightarrow> k - j < m \<Longrightarrow> (n + j) mod m \<noteq> (n + k) mod m" for j k m n :: nat
proof
  assume k: "j < k" "k - j < m" and "(n + j) mod m = (n + k) mod m"
  then have "m dvd (n + k) - (n + j)" using mod_eq_dvd_iff_nat [of "n + j" "n + k" m] by simp
  then have "m dvd k - j" by simp
  moreover have "0 < k - j" using k(1) by simp
  ultimately have "m \<le> k - j" by (rule dvd_imp_le)
  with k(2) show False by simp
qed

lemma WRAM_index_add:
  "unat (a + 1) mod 0x40000 = (unat a + 1) mod 0x40000"
  "unat (a + 2) mod 0x40000 = (unat a + 2) mod 0x40000"
  "unat (a + 3) mod 0x40000 = (unat a + 3) mod 0x40000"
  for a :: u32
proof -
  have d: "(0x40000 :: nat) dvd 2 ^ 32" by simp
  show "unat (a + 1) mod 0x40000 = (unat a + 1) mod 0x40000"
    "unat (a + 2) mod 0x40000 = (unat a + 2) mod 0x40000"
    "unat (a + 3) mod 0x40000 = (unat a + 3) mod 0x40000"
    using mod_mod_cancel [OF d] by (simp_all add: unat_word_ariths)
qed

lemma WRAM_index_distinct:
  fixes a :: u32
  shows "unat a mod 0x40000 \<noteq> unat (a + 1) mod 0x40000"
    and "unat a mod 0x40000 \<noteq> unat (a + 2) mod 0x40000"
    and "unat a mod 0x40000 \<noteq> unat (a + 3) mod 0x40000"
    and "unat (a + 1) mod 0x40000 \<noteq> unat (a + 2) mod 0x40000"
    and "unat (a + 1) mod 0x40000 \<noteq> unat (a + 3) mod 0x40000"
    and "unat (a + 2) mod 0x40000 \<noteq> unat (a + 3) mod 0x40000"
  unfolding WRAM_index_add
  using mod_offsets_neq [of 0 1 "0x40000" "unat a"] mod_offsets_neq [of 0 2 "0x40000" "unat a"]
    mod_offsets_neq [of 0 3 "0x40000" "unat a"] mod_offsets_neq [of 1 2 "0x40000" "unat a"]
    mod_offsets_neq [of 1 3 "0x40000" "unat a"] mod_offsets_neq [of 2 3 "0x40000" "unat a"]
  by simp_all

lemma WriteByte_WRAM:
  "drop_bit 24 a = 2 \<Longrightarrow>
   WriteByte s a v = Inr (s\<lparr>m_WRAM := (m_WRAM s)(unat a mod 0x40000 := v)\<rparr>)"
  by (simp add: WriteByte.simps Let_def WRAM_index)

lemma ReadByte_WRAM: "drop_bit 24 a = 2 \<Longrightarrow> ReadByte s a = m_WRAM s (unat a mod 0x40000)"
  by (simp add: ReadByte_def Let_def WRAM_index)

lemma WriteHWord_WRAM:
  assumes "drop_bit 24 a = 2" and "drop_bit 24 (a + 1) = 2"
  shows "WriteHWord s a h =
     Inr (s\<lparr>m_WRAM := (m_WRAM s)(unat a mod 0x40000 := ucast h,
                                  unat (a + 1) mod 0x40000 := ucast (drop_bit 8 h))\<rparr>)"
proof -
  have "\<not> (drop_bit 24 a AND 0xF = 5 \<or> drop_bit 24 a AND 0xF = 6 \<or> drop_bit 24 a AND 0xF = 7)"
    using assms(1) by simp
  then show ?thesis
    by (simp add: WriteHWord_bytes WriteByte_WRAM assms byte_lanes)
qed

lemma WriteWord_WRAM:
  assumes "drop_bit 24 a = 2" and "drop_bit 24 (a + 1) = 2" and "drop_bit 24 (a + 2) = 2"
    and "drop_bit 24 (a + 3) = 2"
  shows "WriteWord s a w =
     Inr (s\<lparr>m_WRAM := (m_WRAM s)(unat a mod 0x40000 := ucast w,
                                  unat (a + 1) mod 0x40000 := ucast (drop_bit 8 w),
                                  unat (a + 2) mod 0x40000 := ucast (drop_bit 16 w),
                                  unat (a + 3) mod 0x40000 := ucast (drop_bit 24 w))\<rparr>)"
proof -
  have e: "a + 2 + 1 = a + 3" by simp
  have t: "a \<noteq> 0x04000100" "a \<noteq> 0x04000104" "a \<noteq> 0x04000108" "a \<noteq> 0x0400010C"
    using assms(1) by auto
  have 1: "WriteHWord s a (ucast (w AND 0xFFFF)) =
      Inr (s\<lparr>m_WRAM := (m_WRAM s)(unat a mod 0x40000 := ucast w,
                                   unat (a + 1) mod 0x40000 := ucast (drop_bit 8 w))\<rparr>)"
    by (simp add: WriteHWord_WRAM [OF assms(1,2)] low_half word_byte_lanes)
  have 2: "WriteHWord s1 (a + 2) (ucast (drop_bit 16 w AND 0xFFFF)) =
      Inr (s1\<lparr>m_WRAM := (m_WRAM s1)(unat (a + 2) mod 0x40000 := ucast (drop_bit 16 w),
                                     unat (a + 3) mod 0x40000 := ucast (drop_bit 24 w))\<rparr>)"
    for s1
    using WriteHWord_WRAM [of "a + 2" s1 "ucast (drop_bit 16 w)"] assms(3,4)
    by (simp add: e high_half word_byte_lanes)
  show ?thesis
    unfolding WriteWord_def 1 using t by (simp add: 2 io_regs)
qed

lemma WriteWord_halves:
  assumes "\<not> bit w 23 \<or> (a \<noteq> 0x04000100 \<and> a \<noteq> 0x04000104 \<and> a \<noteq> 0x04000108
      \<and> a \<noteq> 0x0400010C)"
  shows "WriteWord s a w =
     (case WriteHWord s a (ucast w) of
        Inl e \<Rightarrow> Inl e
      | Inr s1 \<Rightarrow> WriteHWord s1 (a + 2) (ucast (drop_bit 16 w)))"
  using assms
  by (auto simp: WriteWord_def low_half high_half bit23 io_regs split: sum.splits)

lemma WRAM_halfword:
  assumes "drop_bit 24 a = 2" and "drop_bit 24 (a + 1) = 2"
  shows "\<exists>s'. WriteHWord s a h = Inr s' \<and>
     ReadByte s' a = ucast h \<and> ReadByte s' (a + 1) = ucast (drop_bit 8 h) \<and>
     ReadHWord s' a = h \<and>
     (\<forall>b. drop_bit 24 b = 2 \<and> unat b mod 0x40000 \<noteq> unat a mod 0x40000 \<and>
          unat b mod 0x40000 \<noteq> unat (a + 1) mod 0x40000 \<longrightarrow>
          ReadByte s' b = ReadByte s b)"
proof -
  let ?s = "s\<lparr>m_WRAM := (m_WRAM s)(unat a mod 0x40000 := ucast h,
                                 unat (a + 1) mod 0x40000 := ucast (drop_bit 8 h))\<rparr>"
  have w: "WriteHWord s a h = Inr ?s" by (rule WriteHWord_WRAM [OF assms])
  have r: "ReadByte ?s a = ucast h" "ReadByte ?s (a + 1) = ucast (drop_bit 8 h)"
    using WRAM_index_distinct(1) [of a] by (simp_all add: ReadByte_WRAM assms)
  have h: "ReadHWord ?s a = h"
    unfolding ReadHWord_def r by (rule hword_of_bytes)
  have f: "\<forall>b. drop_bit 24 b = 2 \<and> unat b mod 0x40000 \<noteq> unat a mod 0x40000 \<and>
      unat b mod 0x40000 \<noteq> unat (a + 1) mod 0x40000 \<longrightarrow> ReadByte ?s b = ReadByte s b"
    by (simp add: ReadByte_WRAM)
  from w r h f show ?thesis by (intro exI [of _ ?s] conjI)
qed

lemma WRAM_word:
  assumes "drop_bit 24 a = 2" and "drop_bit 24 (a + 1) = 2" and "drop_bit 24 (a + 2) = 2"
    and "drop_bit 24 (a + 3) = 2"
  shows "\<exists>s'. WriteWord s a w = Inr s' \<and>
     ReadByte s' a = ucast w \<and> ReadByte s' (a + 1) = ucast (drop_bit 8 w) \<and>
     ReadByte s' (a + 2) = ucast (drop_bit 16 w) \<and>
     ReadByte s' (a + 3) = ucast (drop_bit 24 w) \<and>
     ReadWord s' a = w \<and>
     (\<forall>b. drop_bit 24 b = 2 \<and> unat b mod 0x40000 \<noteq> unat a mod 0x40000 \<and>
          unat b mod 0x40000 \<noteq> unat (a + 1) mod 0x40000 \<and>
          unat b mod 0x40000 \<noteq> unat (a + 2) mod 0x40000 \<and>
          unat b mod 0x40000 \<noteq> unat (a + 3) mod 0x40000 \<longrightarrow>
          ReadByte s' b = ReadByte s b)"
proof -
  let ?s = "s\<lparr>m_WRAM := (m_WRAM s)(unat a mod 0x40000 := ucast w,
                                 unat (a + 1) mod 0x40000 := ucast (drop_bit 8 w),
                                 unat (a + 2) mod 0x40000 := ucast (drop_bit 16 w),
                                 unat (a + 3) mod 0x40000 := ucast (drop_bit 24 w))\<rparr>"
  have w: "WriteWord s a w = Inr ?s" by (rule WriteWord_WRAM [OF assms])
  note d = WRAM_index_distinct [of a]
  have r: "ReadByte ?s a = ucast w" "ReadByte ?s (a + 1) = ucast (drop_bit 8 w)"
    "ReadByte ?s (a + 2) = ucast (drop_bit 16 w)" "ReadByte ?s (a + 3) = ucast (drop_bit 24 w)"
    using d by (simp_all add: ReadByte_WRAM assms)
  have h: "ReadWord ?s a = w"
    unfolding ReadWord_def r by (rule word_of_bytes)
  have f: "\<forall>b. drop_bit 24 b = 2 \<and> unat b mod 0x40000 \<noteq> unat a mod 0x40000 \<and>
      unat b mod 0x40000 \<noteq> unat (a + 1) mod 0x40000 \<and>
      unat b mod 0x40000 \<noteq> unat (a + 2) mod 0x40000 \<and>
      unat b mod 0x40000 \<noteq> unat (a + 3) mod 0x40000 \<longrightarrow> ReadByte ?s b = ReadByte s b"
    by (simp add: ReadByte_WRAM)
  from w r h f show ?thesis by (intro exI [of _ ?s] conjI)
qed

lemma WriteHWord_VRAM_cases:
  "drop_bit 24 a AND 0xF = 6 \<Longrightarrow>
   WriteHWord s a h =
     (if VRAM_index (a AND 0xFFFFFF) + 1 < 0x18000
      then Inr (upd_Video (\<lambda>vd. vd\<lparr>m_VRAM := (m_VRAM vd)
              (VRAM_index (a AND 0xFFFFFF) := ucast h,
               VRAM_index (a AND 0xFFFFFF) + 1 := ucast (drop_bit 8 h))\<rparr>) s)
      else Inl OutOfBounds)"
  by (simp add: WriteHWord_VRAM VRAM_store16_eq not_less)

text \<open>
  C4, as the code has it. None of the four functions masks the address it is given.
  A 16-bit read combines the bytes at \<open>a\<close> and \<open>a + 1\<close> and a 32-bit read those at \<open>a\<close> to
  \<open>a + 3\<close>. A 16-bit write outside the regions 5 to 7 is the byte writes at \<open>a\<close> and
  \<open>a + 1\<close>; in palette RAM and OAM it stores the two bytes at the offset of \<open>a\<close> and at the
  next offset, in VRAM at the index of \<open>a\<close> and at the next index (when that is inside the
  array). A 32-bit write is the 16-bit writes of the low half at \<open>a\<close> and of the high half at
  \<open>a + 2\<close>; only for the four timer addresses with bit 23 of the value set does something
  follow them. In work RAM this is observable byte by byte: after a 16-bit write at any
  \<open>a\<close>, even or odd, the bytes read at \<open>a\<close> and \<open>a + 1\<close> are the two bytes of the value, and
  every other byte of work RAM reads as before; likewise the four bytes from \<open>a\<close> on after
  a 32-bit write. The one place where the bus clears bit 0 of an address is the byte write
  to palette RAM, VRAM or OAM.
\<close>

theorem bus_takes_address_as_given:
  "ReadHWord s a = ucast (ReadByte s a) OR push_bit 8 (ucast (ReadByte s (a + 1))) \<and>
   ReadWord s a =
     ucast (ReadByte s a) OR push_bit 8 (ucast (ReadByte s (a + 1)))
     OR push_bit 16 (ucast (ReadByte s (a + 2))) OR push_bit 24 (ucast (ReadByte s (a + 3))) \<and>
   (\<not> (drop_bit 24 a AND 0xF = 5 \<or> drop_bit 24 a AND 0xF = 6 \<or> drop_bit 24 a AND 0xF = 7) \<longrightarrow>
      WriteHWord s a h =
        (case WriteByte s a (ucast h) of
           Inl e \<Rightarrow> Inl e
         | Inr s1 \<Rightarrow> WriteByte s1 (a + 1) (ucast (drop_bit 8 h)))) \<and>
   (drop_bit 24 a AND 0xF = 5 \<longrightarrow>
      WriteHWord s a h = Inr (upd_Video (\<lambda>vd. vd\<lparr>m_PAL := (m_PAL vd)
         (unat ((a AND 0xFFFFFF) mod 0x400) := ucast h,
          unat (((a AND 0xFFFFFF) + 1) mod 0x400) := ucast (drop_bit 8 h))\<rparr>) s)) \<and>
   (drop_bit 24 a AND 0xF = 7 \<longrightarrow>
      WriteHWord s a h = Inr (upd_Video (\<lambda>vd. vd\<lparr>m_OAM := (m_OAM vd)
         (unat ((a AND 0xFFFFFF) mod 0x400) := ucast h,
          unat (((a AND 0xFFFFFF) + 1) mod 0x400) := ucast (drop_bit 8 h))\<rparr>) s)) \<and>
   (drop_bit 24 a AND 0xF = 6 \<longrightarrow>
      WriteHWord s a h =
        (if VRAM_index (a AND 0xFFFFFF) + 1 < 0x18000
         then Inr (upd_Video (\<lambda>vd. vd\<lparr>m_VRAM := (m_VRAM vd)
                 (VRAM_index (a AND 0xFFFFFF) := ucast h,
                  VRAM_index (a AND 0xFFFFFF) + 1 := ucast (drop_bit 8 h))\<rparr>) s)
         else Inl OutOfBounds)) \<and>
   (\<not> bit w 23 \<or> (a \<noteq> 0x04000100 \<and> a \<noteq> 0x04000104 \<and> a \<noteq> 0x04000108
        \<and> a \<noteq> 0x0400010C) \<longrightarrow>
      WriteWord s a w =
        (case WriteHWord s a (ucast w) of
           Inl e \<Rightarrow> Inl e
         | Inr s1 \<Rightarrow> WriteHWord s1 (a + 2) (ucast (drop_bit 16 w)))) \<and>
   (drop_bit 24 a = 2 \<and> drop_bit 24 (a + 1) = 2 \<longrightarrow>
      (\<exists>s'. WriteHWord s a h = Inr s' \<and>
         ReadByte s' a = ucast h \<and> ReadByte s' (a + 1) = ucast (drop_bit 8 h) \<and>
         ReadHWord s' a = h \<and>
         (\<forall>b. drop_bit 24 b = 2 \<and> unat b mod 0x40000 \<noteq> unat a mod 0x40000 \<and>
              unat b mod 0x40000 \<noteq> unat (a + 1) mod 0x40000 \<longrightarrow>
              ReadByte s' b = ReadByte s b))) \<and>
   (drop_bit 24 a = 2 \<and> drop_bit 24 (a + 1) = 2 \<and> drop_bit 24 (a + 2) = 2 \<and>
    drop_bit 24 (a + 3) = 2 \<longrightarrow>
      (\<exists>s'. WriteWord s a w = Inr s' \<and>
         ReadByte s' a = ucast w \<and> ReadByte s' (a + 1) = ucast (drop_bit 8 w) \<and>
         ReadByte s' (a + 2) = ucast (drop_bit 16 w) \<and>
         ReadByte s' (a + 3) = ucast (drop_bit 24 w) \<and>
         ReadWord s' a = w \<and>
         (\<forall>b. drop_bit 24 b = 2 \<and> unat b mod 0x40000 \<noteq> unat a mod 0x40000 \<and>
              unat b mod 0x40000 \<noteq> unat (a + 1) mod 0x40000 \<and>
              unat b mod 0x40000 \<noteq> unat (a + 2) mod 0x40000 \<and>
              unat b mod 0x40000 \<noteq> unat (a + 3) mod 0x40000 \<longrightarrow>
              ReadByte s' b = ReadByte s b))) \<and>
   (drop_bit 24 a = 5 \<or> drop_bit 24 a = 6 \<or> drop_bit 24 a = 7 \<longrightarrow>
      WriteByte s a v = WriteHWord s (a AND NOT 1) (push_bit 8 (ucast v) OR ucast v))"
proof (intro conjI impI)
  show "ReadHWord s a = ucast (ReadByte s a) OR push_bit 8 (ucast (ReadByte s (a + 1)))"
    by (rule ReadHWord_def)
next
  show "ReadWord s a =
     ucast (ReadByte s a) OR push_bit 8 (ucast (ReadByte s (a + 1)))
     OR push_bit 16 (ucast (ReadByte s (a + 2))) OR push_bit 24 (ucast (ReadByte s (a + 3)))"
    by (rule ReadWord_def)
next
  assume "\<not> (drop_bit 24 a AND 0xF = 5 \<or> drop_bit 24 a AND 0xF = 6 \<or> drop_bit 24 a AND 0xF = 7)"
  then show "WriteHWord s a h =
        (case WriteByte s a (ucast h) of
           Inl e \<Rightarrow> Inl e
         | Inr s1 \<Rightarrow> WriteByte s1 (a + 1) (ucast (drop_bit 8 h)))"
    using WriteHWord_bytes [of a s h] by (simp add: byte_lanes cong: sum.case_cong)
next
  assume "drop_bit 24 a = 2 \<and> drop_bit 24 (a + 1) = 2"
  then show "\<exists>s'. WriteHWord s a h = Inr s' \<and>
         ReadByte s' a = ucast h \<and> ReadByte s' (a + 1) = ucast (drop_bit 8 h) \<and>
         ReadHWord s' a = h \<and>
         (\<forall>b. drop_bit 24 b = 2 \<and> unat b mod 0x40000 \<noteq> unat a mod 0x40000 \<and>
              unat b mod 0x40000 \<noteq> unat (a + 1) mod 0x40000 \<longrightarrow>
              ReadByte s' b = ReadByte s b)"
    using WRAM_halfword [of a s h] by blast
next
  assume "drop_bit 24 a = 2 \<and> drop_bit 24 (a + 1) = 2 \<and> drop_bit 24 (a + 2) = 2 \<and>
    drop_bit 24 (a + 3) = 2"
  then show "\<exists>s'. WriteWord s a w = Inr s' \<and>
         ReadByte s' a = ucast w \<and> ReadByte s' (a + 1) = ucast (drop_bit 8 w) \<and>
         ReadByte s' (a + 2) = ucast (drop_bit 16 w) \<and>
         ReadByte s' (a + 3) = ucast (drop_bit 24 w) \<and>
         ReadWord s' a = w \<and>
         (\<forall>b. drop_bit 24 b = 2 \<and> unat b mod 0x40000 \<noteq> unat a mod 0x40000 \<and>
              unat b mod 0x40000 \<noteq> unat (a + 1) mod 0x40000 \<and>
              unat b mod 0x40000 \<noteq> unat (a + 2) mod 0x40000 \<and>
              unat b mod 0x40000 \<noteq> unat (a + 3) mod 0x40000 \<longrightarrow>
              ReadByte s' b = ReadByte s b)"
    using WRAM_word [of a s w] by blast
next
  assume "drop_bit 24 a = 5 \<or> drop_bit 24 a = 6 \<or> drop_bit 24 a = 7"
  then show "WriteByte s a v = WriteHWord s (a AND NOT 1) (push_bit 8 (ucast v) OR ucast v)"
    by (rule WriteByte_video(1))
qed (rule WriteHWord_PAL WriteHWord_OAM WriteHWord_VRAM_cases WriteWord_halves; assumption)+

lemma example_bytes:
  "(ucast (0xBEEF :: u16) :: u8) = 0xEF" "(ucast (0xBE :: u16) :: u8) = 0xBE"
  "(ucast (0x1234 :: u16) :: u8) = 0x34" "(ucast (0x12 :: u16) :: u8) = 0x12"
  "(ucast (0xDEADBEEF :: u32) :: u8) = 0xEF" "(ucast (0xDEADBE :: u32) :: u8) = 0xBE"
  "(ucast (0xDEAD :: u32) :: u8) = 0xAD" "(ucast (0xDE :: u32) :: u8) = 0xDE"
  by (simp_all add: ucast_eq)

lemma wram_counting_bytes:
  "ReadByte wram_counting 0x02000000 = 0" "ReadByte wram_counting 0x02000001 = 1"
  "ReadByte wram_counting 0x02000002 = 2" "ReadByte wram_counting 0x02000003 = 3"
  "ReadByte wram_counting 0x02000004 = 4" "ReadByte wram_counting 0x02000005 = 5"
  by (simp_all add: ReadByte_def wram_counting_def unat_mod)

theorem bus_takes_address_as_given_witness:
  "drop_bit 24 (0x02000001 :: u32) = 2 \<and>
   (\<exists>s'. WriteHWord wram_counting 0x02000001 0xBEEF = Inr s' \<and>
      ReadByte s' 0x02000000 = 0 \<and> ReadByte s' 0x02000001 = 0xEF \<and>
      ReadByte s' 0x02000002 = 0xBE \<and> ReadByte s' 0x02000003 = 3 \<and>
      ReadHWord s' 0x02000001 = 0xBEEF) \<and>
   (\<exists>s'. WriteWord wram_counting 0x02000001 0xDEADBEEF = Inr s' \<and>
      ReadByte s' 0x02000000 = 0 \<and> ReadByte s' 0x02000001 = 0xEF \<and>
      ReadByte s' 0x02000002 = 0xBE \<and> ReadByte s' 0x02000003 = 0xAD \<and>
      ReadByte s' 0x02000004 = 0xDE \<and> ReadByte s' 0x02000005 = 5 \<and>
      ReadWord s' 0x02000001 = 0xDEADBEEF) \<and>
   (\<exists>s'. WriteHWord (GBAMemory_init (\<lambda>_. 0) 0) 0x05000001 0x1234 = Inr s' \<and>
      m_PAL (m_Video s') 0 = 0 \<and> m_PAL (m_Video s') 1 = 0x34 \<and>
      m_PAL (m_Video s') 2 = 0x12) \<and>
   WriteByte (GBAMemory_init (\<lambda>_. 0) 0) 0x05000003 0x7F =
     WriteHWord (GBAMemory_init (\<lambda>_. 0) 0) 0x05000002 0x7F7F"
proof -
  note t = bus_takes_address_as_given [where s = wram_counting and a = "0x02000001"
      and h = "0xBEEF" and w = "0xDEADBEEF" and v = 0]
  note p = bus_takes_address_as_given [where s = "GBAMemory_init (\<lambda>_. 0) 0"
      and a = "0x05000001" and h = "0x1234" and w = 0 and v = 0]
  note q = bus_takes_address_as_given [where s = "GBAMemory_init (\<lambda>_. 0) 0"
      and a = "0x05000003" and h = 0 and w = 0 and v = "0x7F"]
  note r = wram_counting_bytes
  note t8 = t [THEN conjunct2, THEN conjunct2, THEN conjunct2, THEN conjunct2, THEN conjunct2,
      THEN conjunct2, THEN conjunct2, THEN conjunct1]
  note t9 = t [THEN conjunct2, THEN conjunct2, THEN conjunct2, THEN conjunct2, THEN conjunct2,
      THEN conjunct2, THEN conjunct2, THEN conjunct2, THEN conjunct1]
  note p4 = p [THEN conjunct2, THEN conjunct2, THEN conjunct2, THEN conjunct1]
  note q10 = q [THEN conjunct2, THEN conjunct2, THEN conjunct2, THEN conjunct2, THEN conjunct2,
      THEN conjunct2, THEN conjunct2, THEN conjunct2, THEN conjunct2]
  have d2: "drop_bit 24 (0x02000001 :: u32) = 2 \<and> drop_bit 24 (0x02000001 + 1 :: u32) = 2"
    by simp
  have d4: "drop_bit 24 (0x02000001 :: u32) = 2 \<and> drop_bit 24 (0x02000001 + 1 :: u32) = 2 \<and>
      drop_bit 24 (0x02000001 + 2 :: u32) = 2 \<and> drop_bit 24 (0x02000001 + 3 :: u32) = 2"
    by simp
  from mp [OF t8 d2] obtain s1 where
    s1: "WriteHWord wram_counting 0x02000001 0xBEEF = Inr s1"
      "ReadByte s1 0x02000001 = ucast (0xBEEF :: u16)"
      "ReadByte s1 (0x02000001 + 1) = ucast (drop_bit 8 (0xBEEF :: u16))"
      "ReadHWord s1 0x02000001 = 0xBEEF"
    and f1: "\<forall>b. drop_bit 24 b = 2 \<and> unat b mod 0x40000 \<noteq> unat (0x02000001 :: u32) mod 0x40000 \<and>
      unat b mod 0x40000 \<noteq> unat (0x02000001 + 1 :: u32) mod 0x40000 \<longrightarrow>
      ReadByte s1 b = ReadByte wram_counting b"
    by blast
  have g1: "ReadByte s1 0x02000000 = 0" "ReadByte s1 0x02000003 = 3"
    using f1 [rule_format, of "0x02000000"] f1 [rule_format, of "0x02000003"] r by simp_all
  have 1: "\<exists>s'. WriteHWord wram_counting 0x02000001 0xBEEF = Inr s' \<and>
      ReadByte s' 0x02000000 = 0 \<and> ReadByte s' 0x02000001 = 0xEF \<and>
      ReadByte s' 0x02000002 = 0xBE \<and> ReadByte s' 0x02000003 = 3 \<and>
      ReadHWord s' 0x02000001 = 0xBEEF"
    using s1 g1 by (intro exI [of _ s1]) (simp add: example_bytes)
  from mp [OF t9 d4] obtain s2 where
    s2: "WriteWord wram_counting 0x02000001 0xDEADBEEF = Inr s2"
      "ReadByte s2 0x02000001 = ucast (0xDEADBEEF :: u32)"
      "ReadByte s2 (0x02000001 + 1) = ucast (drop_bit 8 (0xDEADBEEF :: u32))"
      "ReadByte s2 (0x02000001 + 2) = ucast (drop_bit 16 (0xDEADBEEF :: u32))"
      "ReadByte s2 (0x02000001 + 3) = ucast (drop_bit 24 (0xDEADBEEF :: u32))"
      "ReadWord s2 0x02000001 = 0xDEADBEEF"
    and f2: "\<forall>b. drop_bit 24 b = 2 \<and> unat b mod 0x40000 \<noteq> unat (0x02000001 :: u32) mod 0x40000 \<and>
      unat b mod 0x40000 \<noteq> unat (0x02000001 + 1 :: u32) mod 0x40000 \<and>
      unat b mod 0x40000 \<noteq> unat (0x02000001 + 2 :: u32) mod 0x40000 \<and>
      unat b mod 0x40000 \<noteq> unat (0x02000001 + 3 :: u32) mod 0x40000 \<longrightarrow>
      ReadByte s2 b = ReadByte wram_counting b"
    by blast
  have g2: "ReadByte s2 0x02000000 = 0" "ReadByte s2 0x02000005 = 5"
    using f2 [rule_format, of "0x02000000"] f2 [rule_format, of "0x02000005"] r by simp_all
  have 2: "\<exists>s'. WriteWord wram_counting 0x02000001 0xDEADBEEF = Inr s' \<and>
      ReadByte s' 0x02000000 = 0 \<and> ReadByte s' 0x02000001 = 0xEF \<and>
      ReadByte s' 0x02000002 = 0xBE \<and> ReadByte s' 0x02000003 = 0xAD \<and>
      ReadByte s' 0x02000004 = 0xDE \<and> ReadByte s' 0x02000005 = 5 \<and>
      ReadWord s' 0x02000001 = 0xDEADBEEF"
    using s2 g2 by (intro exI [of _ s2]) (simp add: example_bytes)
  have "drop_bit 24 (0x05000001 :: u32) AND 0xF = 5" by simp
  from mp [OF p4 this]
  have 3: "\<exists>s'. WriteHWord (GBAMemory_init (\<lambda>_. 0) 0) 0x05000001 0x1234 = Inr s' \<and>
      m_PAL (m_Video s') 0 = 0 \<and> m_PAL (m_Video s') 1 = 0x34 \<and>
      m_PAL (m_Video s') 2 = 0x12"
    by (simp add: GBAMemory_init_def GBAVideo_init_def example_bytes)
  have "drop_bit 24 (0x05000003 :: u32) = 5 \<or> drop_bit 24 (0x05000003 :: u32) = 6
      \<or> drop_bit 24 (0x05000003 :: u32) = 7" by simp
  from mp [OF q10 this]
  have 4: "WriteByte (GBAMemory_init (\<lambda>_. 0) 0) 0x05000003 0x7F =
     WriteHWord (GBAMemory_init (\<lambda>_. 0) 0) 0x05000002 0x7F7F"
    by simp
  show ?thesis using 1 2 3 4 by simp
qed

text \<open>
  The claim as stated fails at an odd address in work RAM, for the reads and for the
  writes. The reads at 0x02000001 return the bytes from index 1 on, not those of the
  aligned address. The 16-bit write at 0x02000001 changes the bytes 1 and 2 and leaves byte
  0 alone, where a write at 0x02000000 changes the bytes 0 and 1; the 32-bit write at
  0x02000001 changes the bytes 1 to 4, not the bytes 0 to 3.
\<close>

theorem unaligned_access_counterexample:
  "ReadHWord wram_counting 0x02000001 = 0x0201 \<and>
   ReadHWord wram_counting (0x02000001 AND NOT 1) = 0x0100 \<and>
   ReadWord wram_counting 0x02000001 = 0x04030201 \<and>
   ReadWord wram_counting (0x02000001 AND NOT 3) = 0x03020100 \<and>
   (case WriteHWord wram_counting 0x02000001 0xBEEF of
      Inl e \<Rightarrow> False
    | Inr s' \<Rightarrow> m_WRAM s' 0 = 0 \<and> m_WRAM s' 1 = 0xEF \<and> m_WRAM s' 2 = 0xBE) \<and>
   (case WriteHWord wram_counting (0x02000001 AND NOT 1) 0xBEEF of
      Inl e \<Rightarrow> False
    | Inr s' \<Rightarrow> m_WRAM s' 0 = 0xEF \<and> m_WRAM s' 1 = 0xBE \<and> m_WRAM s' 2 = 2) \<and>
   WriteHWord wram_counting 0x02000001 0xBEEF \<noteq>
     WriteHWord wram_counting (0x02000001 AND NOT 1) 0xBEEF \<and>
   (case WriteWord wram_counting 0x02000001 0xDEADBEEF of
      Inl e \<Rightarrow> False
    | Inr s' \<Rightarrow> m_WRAM s' 0 = 0 \<and> m_WRAM s' 1 = 0xEF \<and> m_WRAM s' 4 = 0xDE) \<and>
   (case WriteWord wram_counting (0x02000001 AND NOT 3) 0xDEADBEEF of
      Inl e \<Rightarrow> False
    | Inr s' \<Rightarrow> m_WRAM s' 0 = 0xEF \<and> m_WRAM s' 1 = 0xBE \<and> m_WRAM s' 4 = 4) \<and>
   WriteWord wram_counting 0x02000001 0xDEADBEEF \<noteq>
     WriteWord wram_counting (0x02000001 AND NOT 3) 0xDEADBEEF"
proof -
  note r = wram_counting_bytes
  have a: "(0x02000001 :: u32) AND NOT 1 = 0x02000000" "(0x02000001 :: u32) AND NOT 3 = 0x02000000"
    by simp_all
  have e: "(ucast (0xBEEF :: u16) :: u8) = 0xEF" "(ucast (drop_bit 8 (0xBEEF :: u16)) :: u8) = 0xBE"
    "(ucast (0xDEADBEEF :: u32) :: u8) = 0xEF" "(ucast (drop_bit 8 (0xDEADBEEF :: u32)) :: u8) = 0xBE"
    "(ucast (drop_bit 16 (0xDEADBEEF :: u32)) :: u8) = 0xAD"
    "(ucast (drop_bit 24 (0xDEADBEEF :: u32)) :: u8) = 0xDE"
    by (simp_all add: example_bytes)
  have i: "unat (0x02000001 :: u32) mod 0x40000 = 1" "unat (0x02000001 + 1 :: u32) mod 0x40000 = 2"
    "unat (0x02000001 + 2 :: u32) mod 0x40000 = 3" "unat (0x02000001 + 3 :: u32) mod 0x40000 = 4"
    "unat (0x02000000 :: u32) mod 0x40000 = 0" "unat (0x02000000 + 1 :: u32) mod 0x40000 = 1"
    "unat (0x02000000 + 2 :: u32) mod 0x40000 = 2" "unat (0x02000000 + 3 :: u32) mod 0x40000 = 3"
    by simp_all
  have d1: "drop_bit 24 (0x02000001 :: u32) = 2" "drop_bit 24 (0x02000001 + 1 :: u32) = 2"
    "drop_bit 24 (0x02000001 + 2 :: u32) = 2" "drop_bit 24 (0x02000001 + 3 :: u32) = 2"
    by simp_all
  have d0: "drop_bit 24 (0x02000000 :: u32) = 2" "drop_bit 24 (0x02000000 + 1 :: u32) = 2"
    "drop_bit 24 (0x02000000 + 2 :: u32) = 2" "drop_bit 24 (0x02000000 + 3 :: u32) = 2"
    by simp_all
  have h1: "WriteHWord wram_counting 0x02000001 0xBEEF =
      Inr (wram_counting\<lparr>m_WRAM := (m_WRAM wram_counting)(1 := 0xEF, 2 := 0xBE)\<rparr>)"
    unfolding WriteHWord_WRAM [OF d1(1,2)] e i by (rule refl)
  have h0: "WriteHWord wram_counting 0x02000000 0xBEEF =
      Inr (wram_counting\<lparr>m_WRAM := (m_WRAM wram_counting)(0 := 0xEF, 1 := 0xBE)\<rparr>)"
    unfolding WriteHWord_WRAM [OF d0(1,2)] e i by (rule refl)
  have w1: "WriteWord wram_counting 0x02000001 0xDEADBEEF =
      Inr (wram_counting\<lparr>m_WRAM := (m_WRAM wram_counting)
             (1 := 0xEF, 2 := 0xBE, 3 := 0xAD, 4 := 0xDE)\<rparr>)"
    unfolding WriteWord_WRAM [OF d1] e i by (rule refl)
  have w0: "WriteWord wram_counting 0x02000000 0xDEADBEEF =
      Inr (wram_counting\<lparr>m_WRAM := (m_WRAM wram_counting)
             (0 := 0xEF, 1 := 0xBE, 2 := 0xAD, 3 := 0xDE)\<rparr>)"
    unfolding WriteWord_WRAM [OF d0] e i by (rule refl)
  have m: "m_WRAM wram_counting 0 = 0" "m_WRAM wram_counting 2 = 2" "m_WRAM wram_counting 4 = 4"
    by (simp_all add: wram_counting_def)
  have n1: "WriteHWord wram_counting 0x02000001 0xBEEF \<noteq> WriteHWord wram_counting 0x02000000 0xBEEF"
  proof
    assume "WriteHWord wram_counting 0x02000001 0xBEEF = WriteHWord wram_counting 0x02000000 0xBEEF"
    then have "m_WRAM (wram_counting\<lparr>m_WRAM := (m_WRAM wram_counting)(1 := 0xEF, 2 := 0xBE)\<rparr>) 0 =
        m_WRAM (wram_counting\<lparr>m_WRAM := (m_WRAM wram_counting)(0 := 0xEF, 1 := 0xBE)\<rparr>) 0"
      unfolding h1 h0 by simp
    then show False by (simp add: m)
  qed
  have n2: "WriteWord wram_counting 0x02000001 0xDEADBEEF \<noteq> WriteWord wram_counting 0x02000000 0xDEADBEEF"
  proof
    assume "WriteWord wram_counting 0x02000001 0xDEADBEEF = WriteWord wram_counting 0x02000000 0xDEADBEEF"
    then have "m_WRAM (wram_counting\<lparr>m_WRAM := (m_WRAM wram_counting)
             (1 := 0xEF, 2 := 0xBE, 3 := 0xAD, 4 := 0xDE)\<rparr>) 0 =
        m_WRAM (wram_counting\<lparr>m_WRAM := (m_WRAM wram_counting)
             (0 := 0xEF, 1 := 0xBE, 2 := 0xAD, 3 := 0xDE)\<rparr>) 0"
      unfolding w1 w0 by simp
    then show False by (simp add: m)
  qed
  show ?thesis
    unfolding a using n1 n2 by (simp add: ReadWord_def ReadHWord_def r h1 h0 w1 w0 m)
qed

section \<open>Access cycles in the ROM regions\<close>

lemma cycles_set [simp]:
  "cycles16 (set16 k r n c) = (cycles16 c)(k := (cycles16 c k)(r := n))"
  "cycles32 (set16 k r n c) = cycles32 c"
  "cycles32 (set32 k r n c) = (cycles32 c)(k := (cycles32 c k)(r := n))"
  "cycles16 (set32 k r n c) = cycles16 c"
  "waitcnt (set16 k r n c) = waitcnt c"
  "waitcnt (set32 k r n c) = waitcnt c"
  by (simp_all add: set16_def set32_def)

text \<open>
  The tables of \<open>CPU::UpdateCycleLUT\<close>: a non-sequential 16-bit access to a ROM image
  costs one cycle plus the N waitstate of that image, a sequential 32-bit access twice one
  cycle plus its S waitstate.
\<close>

lemma UpdateCycleLUT_ROM:
  "cycles16 (UpdateCycleLUT c) ACCESS_NSEQ 0x8 = 1 + s_ws_nseq (ws0_n (waitcnt c))"
  "cycles16 (UpdateCycleLUT c) ACCESS_NSEQ 0x9 = 1 + s_ws_nseq (ws0_n (waitcnt c))"
  "cycles32 (UpdateCycleLUT c) ACCESS_SEQ 0x8 = 2 * (1 + s_ws_seq0 (ws0_s (waitcnt c)))"
  "cycles32 (UpdateCycleLUT c) ACCESS_SEQ 0x9 = 2 * (1 + s_ws_seq0 (ws0_s (waitcnt c)))"
  "cycles16 (UpdateCycleLUT c) ACCESS_NSEQ 0xA = 1 + s_ws_nseq (ws1_n (waitcnt c))"
  "cycles32 (UpdateCycleLUT c) ACCESS_SEQ 0xA = 2 * (1 + s_ws_seq1 (ws1_s (waitcnt c)))"
  "cycles16 (UpdateCycleLUT c) ACCESS_NSEQ 0xC = 1 + s_ws_nseq (ws2_n (waitcnt c))"
  "cycles32 (UpdateCycleLUT c) ACCESS_SEQ 0xC = 2 * (1 + s_ws_seq2 (ws2_s (waitcnt c)))"
  by (simp_all add: UpdateCycleLUT_def UpdateCycleLUT_body_def Let_def)

text \<open>
  The functions of \<open>GBAMemory\<close> after a write of \<open>v\<close> to the low byte of WAITCNT: the
  non-sequential 16-bit cost at 0x08000000 is taken from the S table under the S bit, the
  sequential 32-bit cost from the N table under the N bits.
\<close>

lemma WriteByte_WAITCNT:
  "WriteByte s 0x04000204 v =
     Inr (upd_Waitstate (\<lambda>w. w\<lparr>sram := uint (v AND 3),
                              first := (first w)(0 := uint (drop_bit 2 v AND 3),
                                                 1 := uint (drop_bit 5 v AND 3)),
                              second := (second w)(0 := uint (drop_bit 4 v AND 1),
                                                   1 := uint (drop_bit 7 v))\<rparr>) s)"
  by (simp add: WriteByte.simps Let_def IOWrite_defs)

lemma access_cycles_after_WAITCNT:
  "WriteByte s 0x04000204 v = Inr s' \<Longrightarrow>
   NonSequentialAccess s' 0x08000000 Access_Hword = 1 + wss0_table (uint (drop_bit 4 v AND 1)) \<and>
   SequentialAccess s' 0x08000000 Access_Word = 1 + 2 * wsn_table (uint (drop_bit 2 v AND 3))"
  by (auto simp: WriteByte_WAITCNT NonSequentialAccess_def SequentialAccess_def Let_def
      upd_Waitstate_def)

text \<open>
  C1 on \<open>GBAMemory::NonSequentialAccess\<close> and \<open>GBAMemory::SequentialAccess\<close>, with
  WAITCNT at its reset value 0. The claim gives 1 + N[0] = 5 cycles for a non-sequential
  16-bit access at 0x08000000 and 2 * (1 + S[0]) = 6 for a sequential 32-bit access; the
  functions return 3 and 9. In the images at 0x0A000000 and 0x0C000000 they return 1.
\<close>

theorem GBAMemory_access_cycles_at_reset:
  "NonSequentialAccess (GBAMemory_init rom n) 0x08000000 Access_Hword = 3 \<and>
   1 + wsn_table (first (m_Waitstate (GBAMemory_init rom n)) 0) = 5 \<and>
   SequentialAccess (GBAMemory_init rom n) 0x08000000 Access_Word = 9 \<and>
   2 * (1 + wss0_table (second (m_Waitstate (GBAMemory_init rom n)) 0)) = 6 \<and>
   NonSequentialAccess (GBAMemory_init rom n) 0x0A000000 Access_Hword = 1 \<and>
   SequentialAccess (GBAMemory_init rom n) 0x0C000000 Access_Word = 1"
  by (simp add: NonSequentialAccess_def SequentialAccess_def Let_def GBAMemory_init_def
      wsn_table_def wss0_table_def)

section \<open>Timer overflow and chaining\<close>

lemma m_Interrupt_upd [simp]:
  "m_Interrupt (upd_Timer n f s) = m_Interrupt s"
  "m_Interrupt (upd_Interrupt g s) = g (m_Interrupt s)"
  by (simp_all add: upd_Timer_def upd_Interrupt_def)

lemma timer_tick_fields [simp]:
  "tm_count (m_Timer (timer_tick i s) j) = tm_count (m_Timer s j)"
  "reload (m_Timer (timer_tick i s) j) = reload (m_Timer s j)"
  "tm_interrupt (m_Timer (timer_tick i s) j) = tm_interrupt (m_Timer s j)"
  "tm_enable (m_Timer (timer_tick i s) j) = tm_enable (m_Timer s j)"
  "countup (m_Timer (timer_tick i s) j) = countup (m_Timer s j)"
  "m_Interrupt (timer_tick i s) = m_Interrupt s"
  by (simp_all add: timer_tick_def)

lemma timer_tick_other [simp]: "j \<noteq> i \<Longrightarrow> m_Timer (timer_tick i s) j = m_Timer s j"
  by (simp add: timer_tick_def)

lemma RunTimer_body_overflow:
  assumes "tm_enable (m_Timer s i)" and "timer_advances i s ov"
    and "tm_count (m_Timer s i) = 0xFFFF"
  shows "snd (RunTimer_body i (s, ov))"
    and "tm_count (m_Timer (fst (RunTimer_body i (s, ov))) i) = reload (m_Timer s i)"
    and "if' (m_Interrupt (fst (RunTimer_body i (s, ov)))) =
         (if tm_interrupt (m_Timer s i) then if' (m_Interrupt s) OR push_bit i 8
          else if' (m_Interrupt s))"
    and "j \<noteq> i \<Longrightarrow> m_Timer (fst (RunTimer_body i (s, ov))) j = m_Timer s j"
  using assms by (simp_all add: RunTimer_body_def Let_def)

lemma RunTimer_body_no_overflow:
  assumes "tm_enable (m_Timer s i)" and "timer_advances i s ov"
    and "tm_count (m_Timer s i) \<noteq> 0xFFFF"
  shows "\<not> snd (RunTimer_body i (s, ov))"
    and "tm_count (m_Timer (fst (RunTimer_body i (s, ov))) i) = tm_count (m_Timer s i) + 1"
    and "j \<noteq> i \<Longrightarrow> m_Timer (fst (RunTimer_body i (s, ov))) j = m_Timer s j"
  using assms by (simp_all add: RunTimer_body_def Let_def)

lemma RunTimer_body_countup:
  "tm_enable (m_Timer s j) \<Longrightarrow> countup (m_Timer s j) \<Longrightarrow>
   tm_count (m_Timer (fst (RunTimer_body j (s, ov))) j) =
     (if ov then (if tm_count (m_Timer s j) = 0xFFFF then reload (m_Timer s j)
                  else tm_count (m_Timer s j) + 1)
      else tm_count (m_Timer s j))"
  by (simp add: RunTimer_body_def Let_def timer_advances_def)

lemma timer_advances_countup:
  "countup (m_Timer s j) \<Longrightarrow> timer_advances j s ov = ov"
  by (simp add: timer_advances_def)

lemma timer_bits:
  "push_bit 0 8 = (0x08 :: u16)" "push_bit 1 8 = (0x10 :: u16)"
  "push_bit 2 8 = (0x20 :: u16)" "push_bit 3 8 = (0x40 :: u16)"
  by simp_all

lemma RunTimer_body_advancing:
  assumes "tm_enable (m_Timer s i)" and "timer_advances i s ov"
  shows
    "(tm_count (m_Timer s i) = 0xFFFF \<longrightarrow>
        snd (RunTimer_body i (s, ov)) \<and>
        tm_count (m_Timer (fst (RunTimer_body i (s, ov))) i) = reload (m_Timer s i) \<and>
        if' (m_Interrupt (fst (RunTimer_body i (s, ov)))) =
          (if tm_interrupt (m_Timer s i) then if' (m_Interrupt s) OR push_bit i 8
           else if' (m_Interrupt s))) \<and>
     push_bit 0 8 = (0x08 :: u16) \<and> push_bit 1 8 = (0x10 :: u16) \<and>
     push_bit 2 8 = (0x20 :: u16) \<and> push_bit 3 8 = (0x40 :: u16) \<and>
     (tm_enable (m_Timer s (Suc i)) \<and> countup (m_Timer s (Suc i)) \<longrightarrow>
        timer_advances (Suc i) (fst (RunTimer_body i (s, ov))) (snd (RunTimer_body i (s, ov)))
          = (tm_count (m_Timer s i) = 0xFFFF) \<and>
        (tm_count (m_Timer s i) = 0xFFFF \<longrightarrow>
           tm_count (m_Timer (fst (RunTimer_body (Suc i) (RunTimer_body i (s, ov)))) (Suc i)) =
             (if tm_count (m_Timer s (Suc i)) = 0xFFFF then reload (m_Timer s (Suc i))
              else tm_count (m_Timer s (Suc i)) + 1)) \<and>
        (tm_count (m_Timer s i) \<noteq> 0xFFFF \<longrightarrow>
           tm_count (m_Timer (fst (RunTimer_body (Suc i) (RunTimer_body i (s, ov)))) (Suc i)) =
             tm_count (m_Timer s (Suc i))))"
proof -
  obtain s' ov' where r: "RunTimer_body i (s, ov) = (s', ov')"
    by (cases "RunTimer_body i (s, ov)")
  have n: "m_Timer s' (Suc i) = m_Timer s (Suc i)"
    using RunTimer_body_overflow(4) [OF assms, of "Suc i"]
      RunTimer_body_no_overflow(3) [OF assms, of "Suc i"] r
    by (cases "tm_count (m_Timer s i) = 0xFFFF") simp_all
  have o: "ov' = (tm_count (m_Timer s i) = 0xFFFF)"
    using RunTimer_body_overflow(1) [OF assms] RunTimer_body_no_overflow(1) [OF assms] r
    by (cases "tm_count (m_Timer s i) = 0xFFFF") simp_all
  have c: "tm_enable (m_Timer s (Suc i)) \<Longrightarrow> countup (m_Timer s (Suc i)) \<Longrightarrow>
      timer_advances (Suc i) s' ov' = ov' \<and>
      tm_count (m_Timer (fst (RunTimer_body (Suc i) (s', ov'))) (Suc i)) =
        (if ov' then (if tm_count (m_Timer s (Suc i)) = 0xFFFF then reload (m_Timer s (Suc i))
                      else tm_count (m_Timer s (Suc i)) + 1)
         else tm_count (m_Timer s (Suc i)))"
    using RunTimer_body_countup [of s' "Suc i" ov'] timer_advances_countup [of s' "Suc i" ov']
    by (simp add: n)
  show ?thesis
  proof (cases "tm_count (m_Timer s i) = 0xFFFF")
    case True
    with o have t: "ov' = True" by simp
    show ?thesis
      using RunTimer_body_overflow(1-3) [OF assms True] c True
      unfolding r t by simp
  next
    case False
    with o have f: "ov' = False" by simp
    show ?thesis
      using c False unfolding r f by simp
  qed
qed

lemma RunTimer_body_idle:
  assumes "\<not> (tm_enable (m_Timer s i) \<and> timer_advances i s ov)"
  shows "snd (RunTimer_body i (s, ov)) = ov"
    and "tm_count (m_Timer (fst (RunTimer_body i (s, ov))) j) = tm_count (m_Timer s j)"
    and "reload (m_Timer (fst (RunTimer_body i (s, ov))) j) = reload (m_Timer s j)"
    and "tm_enable (m_Timer (fst (RunTimer_body i (s, ov))) j) = tm_enable (m_Timer s j)"
    and "countup (m_Timer (fst (RunTimer_body i (s, ov))) j) = countup (m_Timer s j)"
  using assms by (auto simp: RunTimer_body_def Let_def)

lemma RunTimer_body_stale:
  assumes "\<not> (tm_enable (m_Timer s i) \<and> timer_advances i s ov)"
    and "tm_enable (m_Timer s (Suc i))" and "countup (m_Timer s (Suc i))"
  shows "timer_advances (Suc i) (fst (RunTimer_body i (s, ov))) (snd (RunTimer_body i (s, ov)))
      = ov"
    and "tm_count (m_Timer (fst (RunTimer_body (Suc i) (RunTimer_body i (s, ov)))) (Suc i)) =
      (if ov then (if tm_count (m_Timer s (Suc i)) = 0xFFFF then reload (m_Timer s (Suc i))
                   else tm_count (m_Timer s (Suc i)) + 1)
       else tm_count (m_Timer s (Suc i)))"
proof -
  obtain s' where r: "RunTimer_body i (s, ov) = (s', ov)"
    using RunTimer_body_idle(1) [OF assms(1)] by (cases "RunTimer_body i (s, ov)") simp
  have f: "tm_count (m_Timer s' (Suc i)) = tm_count (m_Timer s (Suc i))"
    "reload (m_Timer s' (Suc i)) = reload (m_Timer s (Suc i))"
    "tm_enable (m_Timer s' (Suc i))" "countup (m_Timer s' (Suc i))"
    using RunTimer_body_idle(2-5) [OF assms(1), of "Suc i"] assms(2,3) r by simp_all
  show "timer_advances (Suc i) (fst (RunTimer_body i (s, ov))) (snd (RunTimer_body i (s, ov)))
      = ov"
    unfolding r using timer_advances_countup [OF f(4), of ov] by simp
  show "tm_count (m_Timer (fst (RunTimer_body (Suc i) (RunTimer_body i (s, ov)))) (Suc i)) =
      (if ov then (if tm_count (m_Timer s (Suc i)) = 0xFFFF then reload (m_Timer s (Suc i))
                   else tm_count (m_Timer s (Suc i)) + 1)
       else tm_count (m_Timer s (Suc i)))"
    unfolding r using RunTimer_body_countup [OF f(3,4), of ov] by (simp add: f)
qed

text \<open>
  C9, on one pass of the loop of \<open>RunTimer\<close> for timer \<open>i\<close>, entered with the flag \<open>ov\<close>.

  When timer \<open>i\<close> is enabled and advances, the code does what the claim says: at the count
  0xFFFF the count becomes the reload, the flag handed to the next timer is set, and if the
  interrupt flag of the timer is set the bit \<open>8 << i\<close> is raised in IF, which is 0x08, 0x10,
  0x20, 0x40 for the timers 0 to 3; and an enabled timer \<open>i + 1\<close> in count-up mode advances
  exactly when timer \<open>i\<close> overflowed.

  When timer \<open>i\<close> is disabled, or enabled and not advancing, it did not overflow; but the pass
  leaves the flag as it came in and touches no count, so an enabled timer \<open>i + 1\<close> in
  count-up mode advances exactly when the flag came in set, that is when some timer before
  \<open>i\<close> overflowed. There the code departs from the claim.
\<close>

theorem timer_overflow_and_chaining:
  "(tm_enable (m_Timer s i) \<and> timer_advances i s ov \<longrightarrow>
      (tm_count (m_Timer s i) = 0xFFFF \<longrightarrow>
          snd (RunTimer_body i (s, ov)) \<and>
          tm_count (m_Timer (fst (RunTimer_body i (s, ov))) i) = reload (m_Timer s i) \<and>
          if' (m_Interrupt (fst (RunTimer_body i (s, ov)))) =
            (if tm_interrupt (m_Timer s i) then if' (m_Interrupt s) OR push_bit i 8
             else if' (m_Interrupt s))) \<and>
       push_bit 0 8 = (0x08 :: u16) \<and> push_bit 1 8 = (0x10 :: u16) \<and>
       push_bit 2 8 = (0x20 :: u16) \<and> push_bit 3 8 = (0x40 :: u16) \<and>
       (tm_enable (m_Timer s (Suc i)) \<and> countup (m_Timer s (Suc i)) \<longrightarrow>
          timer_advances (Suc i) (fst (RunTimer_body i (s, ov))) (snd (RunTimer_body i (s, ov)))
            = (tm_count (m_Timer s i) = 0xFFFF) \<and>
          (tm_count (m_Timer s i) = 0xFFFF \<longrightarrow>
             tm_count (m_Timer (fst (RunTimer_body (Suc i) (RunTimer_body i (s, ov)))) (Suc i)) =
               (if tm_count (m_Timer s (Suc i)) = 0xFFFF then reload (m_Timer s (Suc i))
                else tm_count (m_Timer s (Suc i)) + 1)) \<and>
          (tm_count (m_Timer s i) \<noteq> 0xFFFF \<longrightarrow>
             tm_count (m_Timer (fst (RunTimer_body (Suc i) (RunTimer_body i (s, ov)))) (Suc i)) =
               tm_count (m_Timer s (Suc i))))) \<and>
   (\<not> (tm_enable (m_Timer s i) \<and> timer_advances i s ov) \<longrightarrow>
      snd (RunTimer_body i (s, ov)) = ov \<and>
      (\<forall>j. tm_count (m_Timer (fst (RunTimer_body i (s, ov))) j) = tm_count (m_Timer s j)) \<and>
      (tm_enable (m_Timer s (Suc i)) \<and> countup (m_Timer s (Suc i)) \<longrightarrow>
         timer_advances (Suc i) (fst (RunTimer_body i (s, ov))) (snd (RunTimer_body i (s, ov)))
           = ov \<and>
         tm_count (m_Timer (fst (RunTimer_body (Suc i) (RunTimer_body i (s, ov)))) (Suc i)) =
           (if ov then (if tm_count (m_Timer s (Suc i)) = 0xFFFF then reload (m_Timer s (Suc i))
                        else tm_count (m_Timer s (Suc i)) + 1)
            else tm_count (m_Timer s (Suc i)))))"
proof (rule conjI)
  show "tm_enable (m_Timer s i) \<and> timer_advances i s ov \<longrightarrow>
      (tm_count (m_Timer s i) = 0xFFFF \<longrightarrow>
          snd (RunTimer_body i (s, ov)) \<and>
          tm_count (m_Timer (fst (RunTimer_body i (s, ov))) i) = reload (m_Timer s i) \<and>
          if' (m_Interrupt (fst (RunTimer_body i (s, ov)))) =
            (if tm_interrupt (m_Timer s i) then if' (m_Interrupt s) OR push_bit i 8
             else if' (m_Interrupt s))) \<and>
       push_bit 0 8 = (0x08 :: u16) \<and> push_bit 1 8 = (0x10 :: u16) \<and>
       push_bit 2 8 = (0x20 :: u16) \<and> push_bit 3 8 = (0x40 :: u16) \<and>
       (tm_enable (m_Timer s (Suc i)) \<and> countup (m_Timer s (Suc i)) \<longrightarrow>
          timer_advances (Suc i) (fst (RunTimer_body i (s, ov))) (snd (RunTimer_body i (s, ov)))
            = (tm_count (m_Timer s i) = 0xFFFF) \<and>
          (tm_count (m_Timer s i) = 0xFFFF \<longrightarrow>
             tm_count (m_Timer (fst (RunTimer_body (Suc i) (RunTimer_body i (s, ov)))) (Suc i)) =
               (if tm_count (m_Timer s (Suc i)) = 0xFFFF then reload (m_Timer s (Suc i))
                else tm_count (m_Timer s (Suc i)) + 1)) \<and>
          (tm_count (m_Timer s i) \<noteq> 0xFFFF \<longrightarrow>
             tm_count (m_Timer (fst (RunTimer_body (Suc i) (RunTimer_body i (s, ov)))) (Suc i)) =
               tm_count (m_Timer s (Suc i))))"
    using RunTimer_body_advancing [of s i ov] by blast
next
  show "\<not> (tm_enable (m_Timer s i) \<and> timer_advances i s ov) \<longrightarrow>
      snd (RunTimer_body i (s, ov)) = ov \<and>
      (\<forall>j. tm_count (m_Timer (fst (RunTimer_body i (s, ov))) j) = tm_count (m_Timer s j)) \<and>
      (tm_enable (m_Timer s (Suc i)) \<and> countup (m_Timer s (Suc i)) \<longrightarrow>
         timer_advances (Suc i) (fst (RunTimer_body i (s, ov))) (snd (RunTimer_body i (s, ov)))
           = ov \<and>
         tm_count (m_Timer (fst (RunTimer_body (Suc i) (RunTimer_body i (s, ov)))) (Suc i)) =
           (if ov then (if tm_count (m_Timer s (Suc i)) = 0xFFFF then reload (m_Timer s (Suc i))
                        else tm_count (m_Timer s (Suc i)) + 1)
            else tm_count (m_Timer s (Suc i))))"
  proof (intro impI conjI allI)
    assume n: "\<not> (tm_enable (m_Timer s i) \<and> timer_advances i s ov)"
    show "snd (RunTimer_body i (s, ov)) = ov"
      by (rule RunTimer_body_idle(1) [OF n])
    show "tm_count (m_Timer (fst (RunTimer_body i (s, ov))) j) = tm_count (m_Timer s j)" for j
      by (rule RunTimer_body_idle(2) [OF n])
    assume e: "tm_enable (m_Timer s (Suc i)) \<and> countup (m_Timer s (Suc i))"
    show "timer_advances (Suc i) (fst (RunTimer_body i (s, ov))) (snd (RunTimer_body i (s, ov)))
        = ov"
      using RunTimer_body_stale(1) [OF n] e by blast
    show "tm_count (m_Timer (fst (RunTimer_body (Suc i) (RunTimer_body i (s, ov)))) (Suc i)) =
        (if ov then (if tm_count (m_Timer s (Suc i)) = 0xFFFF then reload (m_Timer s (Suc i))
                     else tm_count (m_Timer s (Suc i)) + 1)
         else tm_count (m_Timer s (Suc i)))"
      using RunTimer_body_stale(2) [OF n] e by blast
  qed
qed

lemmas timer_eval =
  RunTimer_def RunTimer_body_def timer_advances_def timer_tick_def upd_Timer_def
  upd_Interrupt_def tmr_cycles_def GBAMemory_init_def Timer_init_def GBAInterrupt_init_def
  Let_def

theorem timer_overflow_and_chaining_witness:
  "tm_enable (m_Timer timers_cascade 0) \<and> timer_advances 0 timers_cascade False \<and>
   tm_count (m_Timer timers_cascade 0) = 0xFFFF \<and>
   snd (RunTimer_body 0 (timers_cascade, False)) \<and>
   tm_count (m_Timer (fst (RunTimer_body 0 (timers_cascade, False))) 0) = 0xFFF0 \<and>
   if' (m_Interrupt (fst (RunTimer_body 0 (timers_cascade, False)))) = 0x08 \<and>
   tm_count (m_Timer (fst (RunTimer_body (Suc 0) (RunTimer_body 0 (timers_cascade, False))))
     (Suc 0)) = 6 \<and>
   tm_count (m_Timer (RunTimer timers_cascade) 1) = 6 \<and>
   RunTimer_body 0 (timers_gap, False) = (timers_after_0, True) \<and>
   \<not> tm_enable (m_Timer timers_after_0 1) \<and>
   tm_count (m_Timer timers_after_0 2) = 7 \<and>
   snd (RunTimer_body 1 (timers_after_0, True)) \<and>
   tm_count (m_Timer (fst (RunTimer_body 1 (timers_after_0, True))) 1) = 5 \<and>
   tm_count (m_Timer (fst (RunTimer_body (Suc 1) (RunTimer_body 1 (timers_after_0, True))))
     (Suc 1)) = 8"
proof -
  have e: "tm_enable (m_Timer timers_cascade 0) \<and> timer_advances 0 timers_cascade False"
    by (simp add: timers_cascade_def timer_eval)
  have v: "tm_count (m_Timer timers_cascade 0) = 0xFFFF"
    "reload (m_Timer timers_cascade 0) = 0xFFF0" "tm_interrupt (m_Timer timers_cascade 0)"
    "if' (m_Interrupt timers_cascade) = 0"
    "tm_enable (m_Timer timers_cascade (Suc 0))" "countup (m_Timer timers_cascade (Suc 0))"
    "tm_count (m_Timer timers_cascade (Suc 0)) = 5"
    by (simp_all add: timers_cascade_def timer_eval)
  have r: "tm_count (m_Timer (RunTimer timers_cascade) 1) = 6"
    by (simp add: timers_cascade_def timer_eval)
  have g: "RunTimer_body 0 (timers_gap, False) = (timers_after_0, True)"
    by (simp add: timers_gap_def timers_after_0_def timer_eval fun_eq_iff)
  have n: "\<not> (tm_enable (m_Timer timers_after_0 1) \<and> timer_advances 1 timers_after_0 True)"
    by (simp add: timers_after_0_def Timer_init_def)
  have u: "tm_count (m_Timer timers_after_0 1) = 5" "tm_count (m_Timer timers_after_0 2) = 7"
    "tm_enable (m_Timer timers_after_0 (Suc 1))" "countup (m_Timer timers_after_0 (Suc 1))"
    "tm_count (m_Timer timers_after_0 (Suc 1)) = 7" "\<not> tm_enable (m_Timer timers_after_0 1)"
    by (simp_all add: timers_after_0_def Timer_init_def)
  note a = timer_overflow_and_chaining [where s = timers_cascade and i = 0 and ov = False,
      THEN conjunct1, THEN mp, OF e]
  note b = timer_overflow_and_chaining [where s = timers_after_0 and i = 1 and ov = True,
      THEN conjunct2, THEN mp, OF n]
  have 1: "snd (RunTimer_body 0 (timers_cascade, False)) \<and>
     tm_count (m_Timer (fst (RunTimer_body 0 (timers_cascade, False))) 0) = 0xFFF0 \<and>
     if' (m_Interrupt (fst (RunTimer_body 0 (timers_cascade, False)))) = 0x08 \<and>
     tm_count (m_Timer (fst (RunTimer_body (Suc 0) (RunTimer_body 0 (timers_cascade, False))))
       (Suc 0)) = 6"
    using a v by simp
  have 2: "snd (RunTimer_body 1 (timers_after_0, True)) \<and>
     tm_count (m_Timer (fst (RunTimer_body 1 (timers_after_0, True))) 1) = 5 \<and>
     tm_count (m_Timer (fst (RunTimer_body (Suc 1) (RunTimer_body 1 (timers_after_0, True))))
       (Suc 1)) = 8"
    using b u by simp
  show ?thesis using e v(1) r g u(2,6) 1 2 by simp
qed

text \<open>
  One call of \<open>RunTimer\<close> on \<open>timers_gap\<close>. Timer 0 overflows and reloads. Timer 1 is
  disabled, keeps its count 5 and does not overflow. Timer 2, enabled in count-up mode,
  goes from 7 to 8 all the same: the flag set by timer 0 is still standing when the loop
  reaches it.
\<close>

lemma stale_overflow_at_timers_gap:
  "\<not> tm_enable (m_Timer timers_gap 1) \<and> tm_count (m_Timer timers_gap 1) = 5 \<and>
   tm_count (m_Timer (RunTimer timers_gap) 0) = 0xFFF0 \<and>
   tm_count (m_Timer (RunTimer timers_gap) 1) = 5 \<and>
   tm_count (m_Timer timers_gap 2) = 7 \<and>
   tm_count (m_Timer (RunTimer timers_gap) 2) = 8"
  by (simp add: timers_cascade_def timers_gap_def timer_eval)

section \<open>The line counter of the picture unit\<close>

lemma raise_if_fields [simp]: "ie (raise_if c b i) = ie i" "ime (raise_if c b i) = ime i"
  by (simp_all add: raise_if_def)

lemma Step_phase:
  "m_State (fst (Step (v, i))) =
     (case m_State v of
        Scanline \<Rightarrow> if m_Ticks v + 1 \<ge> 960 then HBlank else Scanline
      | HBlank \<Rightarrow> if m_Ticks v + 1 \<ge> 272
                  then (if m_VCount v + 1 = 160 then VBlank else Scanline) else HBlank
      | VBlank \<Rightarrow> if m_Ticks v + 1 \<ge> 1232
                  then (if m_VCount v + 1 = 227 then Scanline else VBlank) else VBlank)"
  "m_Ticks (fst (Step (v, i))) =
     (case m_State v of
        Scanline \<Rightarrow> if m_Ticks v + 1 \<ge> 960 then 0 else m_Ticks v + 1
      | HBlank \<Rightarrow> if m_Ticks v + 1 \<ge> 272 then 0 else m_Ticks v + 1
      | VBlank \<Rightarrow> if m_Ticks v + 1 \<ge> 1232 then 0 else m_Ticks v + 1)"
  "m_VCount (fst (Step (v, i))) =
     (case m_State v of
        Scanline \<Rightarrow> m_VCount v
      | HBlank \<Rightarrow> if m_Ticks v + 1 \<ge> 272 then m_VCount v + 1 else m_VCount v
      | VBlank \<Rightarrow> if m_Ticks v + 1 \<ge> 1232
                  then (if m_VCount v + 1 = 227 then 0 else m_VCount v + 1) else m_VCount v)"
  by (simp_all add: Step_def Let_def split: GBAVideoState.split)

lemma line_dot_Suc:
  "dot_of (Suc n) = (if dot_of n = 1231 then 0 else Suc (dot_of n))"
  "line_of (Suc n) =
     (if dot_of n = 1231 then (if line_of n = 226 then 0 else Suc (line_of n)) else line_of n)"
  by (simp_all add: dot_of_def line_of_def mod_Suc div_Suc)

lemma line_dot_bound: "dot_of n < 1232" "line_of n < 227"
  by (simp_all add: dot_of_def line_of_def)

lemma vcount_succ:
  fixes w :: u16
  assumes "unat w < 227"
  shows "unat (w + 1) = Suc (unat w)"
    and "(w + 1 = 160) = (unat w = 159)"
    and "(w + 1 = 227) = (unat w = 226)"
proof -
  show u: "unat (w + 1) = Suc (unat w)"
    using assms by (simp add: unat_word_ariths)
  have "(w + 1 = 160) = (unat (w + 1) = unat (160 :: u16))"
    by (simp only: word_unat_eq_iff)
  then show "(w + 1 = 160) = (unat w = 159)" using u by simp
  have "(w + 1 = 227) = (unat (w + 1) = unat (227 :: u16))"
    by (simp only: word_unat_eq_iff)
  then show "(w + 1 = 227) = (unat w = 226)" using u by simp
qed

lemma at_phase_Step:
  assumes "at_phase n v"
  shows "at_phase (Suc n) (fst (Step (v, i)))"
proof -
  note b = line_dot_bound [of n]
  from assms have l: "unat (m_VCount v) = line_of n" by (simp add: at_phase_def)
  note w = vcount_succ [of "m_VCount v", unfolded l, OF b(2)]
  show ?thesis
    using assms b
    by (auto simp: at_phase_def Step_phase line_dot_Suc w l split: if_splits)
qed

lemma at_phase_init: "at_phase 0 GBAVideo_init"
  by (simp add: at_phase_def line_of_def dot_of_def GBAVideo_init_def)

lemma at_phase_funpow: "at_phase n (fst ((Step ^^ n) (GBAVideo_init, irq)))"
proof (induction n)
  case 0
  show ?case by (simp add: at_phase_init)
next
  case (Suc n)
  have "(Step ^^ Suc n) (GBAVideo_init, irq) =
      Step (fst ((Step ^^ n) (GBAVideo_init, irq)), snd ((Step ^^ n) (GBAVideo_init, irq)))"
    by simp
  then show ?case
    using at_phase_Step [OF Suc.IH, of "snd ((Step ^^ n) (GBAVideo_init, irq))"]
    by (simp only:)
qed

text \<open>
  C2, on the unit stepped \<open>n\<close> times from its initial state, whatever the interrupt
  registers hold. VCOUNT is \<open>(n div 1232) mod 227\<close>: it runs through 0, 1, ..., 226 and
  returns to 0, each value held for 1232 steps, and is never 227. The unit is in the state
  VBlank exactly when VCOUNT is 160 or more, that is from 160 to 226.
\<close>

theorem VCOUNT_sequence:
  "unat (m_VCount (fst ((Step ^^ n) (GBAVideo_init, irq)))) = (n div 1232) mod 227 \<and>
   (m_State (fst ((Step ^^ n) (GBAVideo_init, irq))) = VBlank) = (160 \<le> (n div 1232) mod 227) \<and>
   m_VCount (fst ((Step ^^ n) (GBAVideo_init, irq))) \<noteq> 227"
proof -
  note p = at_phase_funpow [of n irq, unfolded at_phase_def]
  have "unat (m_VCount (fst ((Step ^^ n) (GBAVideo_init, irq)))) \<noteq> unat (227 :: u16)"
    using p line_dot_bound(2) [of n] by simp
  then have "m_VCount (fst ((Step ^^ n) (GBAVideo_init, irq))) \<noteq> 227"
    by (simp only: word_unat_eq_iff) simp
  then show ?thesis
    using p by (simp add: line_of_def)
qed

text \<open>
  The last line of a frame: after 226 lines and 1231 further steps VCOUNT is 226 and the unit
  is in VBlank; one step later VCOUNT is 0 and the state is Scanline.
\<close>

lemma VCOUNT_frame_end:
  "unat (m_VCount (fst ((Step ^^ 279663) (GBAVideo_init, irq)))) = 226 \<and>
   m_State (fst ((Step ^^ 279663) (GBAVideo_init, irq))) = VBlank \<and>
   unat (m_VCount (fst ((Step ^^ 279664) (GBAVideo_init, irq)))) = 0 \<and>
   m_State (fst ((Step ^^ 279664) (GBAVideo_init, irq))) = Scanline"
  using at_phase_funpow [of 279663 irq] at_phase_funpow [of 279664 irq]
  by (simp add: at_phase_def line_of_def dot_of_def)


end
